theory Spec2Isabelle
  imports Main "HOL-Library.Word" "HOL-Library.Multiset"
begin

unbundle bit_operations_syntax

section \<open>JavaScript strings\<close>

text \<open>
  A JavaScript string is a sequence of UTF-16 code units; \<open>charCodeAt\<close> returns one
  of them, a number below 65536. String literals of the source are ASCII and are
  written with \<open>lit\<close>.
\<close>

type_synonym jschar = "16 word"
type_synonym jsstring = "jschar list"

definition lit :: "string \<Rightarrow> jsstring" where
  "lit s = map (\<lambda>c. of_nat (of_char c)) s"

text \<open>
  White space as \<open>String.prototype.trim\<close> and the regular expression class
  \<open>\s\<close> read it: TAB, LF, VT, FF, CR, SPACE, NBSP, U+1680, U+2000 to U+200A,
  U+2028, U+2029, U+202F, U+205F, U+3000 and U+FEFF.
\<close>

definition is_space :: "jschar \<Rightarrow> bool" where
  "is_space c \<longleftrightarrow>
     c = 9 \<or> c = 10 \<or> c = 11 \<or> c = 12 \<or> c = 13 \<or> c = 32 \<or> c = 160 \<or> c = 5760
     \<or> (8192 \<le> c \<and> c \<le> 8202) \<or> c = 8232 \<or> c = 8233 \<or> c = 8239 \<or> c = 8287
     \<or> c = 12288 \<or> c = 65279"

definition trim :: "jsstring \<Rightarrow> jsstring" where
  "trim s = rev (dropWhile is_space (rev (dropWhile is_space s)))"

text \<open>
  \<open>toLowerCase\<close> on the ASCII letters. The case mappings of Unicode beyond ASCII
  are not modelled: those code units are left as they are.
\<close>

definition lower_char :: "jschar \<Rightarrow> jschar" where
  "lower_char c = (if 65 \<le> c \<and> c \<le> 90 then c + 32 else c)"

definition toLowerCase :: "jsstring \<Rightarrow> jsstring" where
  "toLowerCase s = map lower_char s"

text \<open>\<open>s.split(',')[0]\<close>: the part of \<open>s\<close> before its first comma.\<close>

definition split_comma_first :: "jsstring \<Rightarrow> jsstring" where
  "split_comma_first s = takeWhile (\<lambda>c. c \<noteq> 44) s"

text \<open>\<open>s.replace(/\s+/g, '-')\<close>: every run of white space becomes one hyphen.\<close>

function replace_spaces :: "jsstring \<Rightarrow> jsstring" where
  "replace_spaces [] = []"
| "replace_spaces (c # s) =
     (if is_space c then 45 # replace_spaces (dropWhile is_space s) else c # replace_spaces s)"
  by pat_completeness auto
termination
  by (relation "measure length") (auto simp: length_dropWhile_le less_Suc_eq_le)

text \<open>\<open>s.includes(sub)\<close>: \<open>sub\<close> occurs in \<open>s\<close> as a contiguous run.\<close>

fun includes_str :: "jsstring \<Rightarrow> jsstring \<Rightarrow> bool" where
  "includes_str [] sub = (sub = [])"
| "includes_str (c # s) sub = (take (length sub) (c # s) = sub \<or> includes_str s sub)"

text \<open>\<open>xs.join(sep)\<close> on strings.\<close>

fun join :: "jsstring \<Rightarrow> jsstring list \<Rightarrow> jsstring" where
  "join sep [] = []"
| "join sep [x] = x"
| "join sep (x # y # ys) = x @ sep @ join sep (y # ys)"

text \<open>The decimal digits of an integer, as \<open>String(n)\<close> writes them.\<close>

fun show_nat :: "nat \<Rightarrow> jsstring" where
  "show_nat n = (if n < 10 then [of_nat (48 + n)] else show_nat (n div 10) @ [of_nat (48 + n mod 10)])"

definition show_int :: "int \<Rightarrow> jsstring" where
  "show_int i = (if i < 0 then 45 # show_nat (nat (- i)) else show_nat (nat i))"

section \<open>JavaScript values\<close>

text \<open>
  The values that \<open>JSON.parse\<close> and the form fields produce, and \<open>undefined\<close>.
  Numbers are the integer-valued ones (of magnitude below \<open>10 ^ 21\<close>, which
  \<open>String\<close> writes in plain decimal digits); fractions, \<open>NaN\<close> and the
  infinities are not modelled. An object is the list of its own properties with
  distinct keys.
\<close>

datatype jsval =
  JUndefined
  | JNull
  | JBool bool
  | JNum int
  | JStr jsstring
  | JArr "jsval list"
  | JObj "(jsstring \<times> jsval) list"

text \<open>Truthiness: what \<open>!v\<close>, \<open>v || d\<close> and \<open>v ? a : b\<close> test.\<close>

fun truthy :: "jsval \<Rightarrow> bool" where
  "truthy JUndefined = False"
| "truthy JNull = False"
| "truthy (JBool b) = b"
| "truthy (JNum n) = (n \<noteq> 0)"
| "truthy (JStr s) = (s \<noteq> [])"
| "truthy (JArr xs) = True"
| "truthy (JObj kvs) = True"

text \<open>\<open>a || b\<close>\<close>

definition js_or :: "jsval \<Rightarrow> jsval \<Rightarrow> jsval" where
  "js_or a b = (if truthy a then a else b)"

text \<open>
  An error thrown by the language. The ones met here are all \<open>TypeError\<close>s: a value
  that cannot be converted to a primitive, a property read of \<open>null\<close> or
  \<open>undefined\<close>.
\<close>

datatype js_error = TypeError

text \<open>Sequencing of computations that may throw: the first error ends the computation.\<close>

definition and_then :: "js_error + 'a \<Rightarrow> ('a \<Rightarrow> js_error + 'b) \<Rightarrow> js_error + 'b" where
  "and_then r f = (case r of Inl e \<Rightarrow> Inl e | Inr x \<Rightarrow> f x)"

text \<open>
  \<open>String(v)\<close>, which is also the conversion of a hole \<open>${v}\<close> of a template
  literal and of an operand of \<open>+\<close> beside a string. An array is joined with commas,
  its \<open>null\<close> and \<open>undefined\<close> elements giving the empty string and every other
  element being converted in turn. An object is converted by its \<open>toString\<close>
  method: a plain object inherits the one of \<open>Object.prototype\<close>, which gives
  \<open>[object Object]\<close>; an object with an own property \<open>toString\<close> (which, in a
  value that comes from JSON, is never a function) has no callable \<open>toString\<close>,
  its \<open>valueOf\<close> gives no primitive either, and the conversion throws a
  \<open>TypeError\<close>.
\<close>

fun toString :: "jsval \<Rightarrow> js_error + jsstring"
  and join_elements :: "jsval list \<Rightarrow> js_error + jsstring" where
  "toString JUndefined = Inr (lit ''undefined'')"
| "toString JNull = Inr (lit ''null'')"
| "toString (JBool b) = Inr (if b then lit ''true'' else lit ''false'')"
| "toString (JNum n) = Inr (show_int n)"
| "toString (JStr s) = Inr s"
| "toString (JArr xs) = join_elements xs"
| "toString (JObj kvs) =
     (if map_of kvs (lit ''toString'') = None then Inr (lit ''[object Object]'')
      else Inl TypeError)"
| "join_elements [] = Inr []"
| "join_elements (x # xs) =
     (case (case x of JUndefined \<Rightarrow> Inr [] | JNull \<Rightarrow> Inr [] | _ \<Rightarrow> toString x) of
        Inl e \<Rightarrow> Inl e
      | Inr s \<Rightarrow>
          if xs = [] then Inr s
          else (case join_elements xs of
                  Inl e \<Rightarrow> Inl e
                | Inr rest \<Rightarrow> Inr (s @ 44 # rest)))"

text \<open>
  Reading a property \<open>v.k\<close> of a value that is not \<open>null\<close> or \<open>undefined\<close>.
  An object gives its own property; the property names the handlers read
  (\<open>tool\<close>, \<open>formData\<close> and the form fields) are no properties of strings,
  numbers, booleans or arrays, which give \<open>undefined\<close>.
\<close>

fun get_prop :: "jsval \<Rightarrow> jsstring \<Rightarrow> jsval" where
  "get_prop (JObj kvs) k = (case map_of kvs k of None \<Rightarrow> JUndefined | Some v \<Rightarrow> v)"
| "get_prop v k = JUndefined"

section \<open>The checksum of the client script (djb2 with xor)\<close>

text \<open>
  \<^verbatim>\<open>
  checksum(str) {
      let hash = 5381;
      for (let i = 0; i < str.length; i++) {
          hash = ((hash << 5) + hash) ^ str.charCodeAt(i);
      }
      return ('00000000' + (hash >>> 0).toString(16)).slice(-8);
  }
  \<close>
  \<open>hash << 5\<close> and \<open>^\<close> work on 32-bit integers (their operands are reduced
  modulo \<open>2 ^ 32\<close>), and the sum in between is exact, so after every round
  \<open>hash\<close> is a 32-bit value: the loop is modelled on \<open>32 word\<close>. \<open>hash >>> 0\<close>
  reads the 32 bits as an unsigned number.
\<close>

primrec checksum_loop :: "32 word \<Rightarrow> jsstring \<Rightarrow> 32 word" where
  "checksum_loop hash [] = hash"
| "checksum_loop hash (c # str) = checksum_loop ((push_bit 5 hash + hash) XOR ucast c) str"

definition hex_digit :: "nat \<Rightarrow> jschar" where
  "hex_digit d = (if d < 10 then of_nat (48 + d) else of_nat (87 + d))"

text \<open>\<open>n.toString(16)\<close> for a non-negative integer: no leading zeros, \<open>"0"\<close> for zero.\<close>

fun toString16 :: "nat \<Rightarrow> jsstring" where
  "toString16 n = (if n < 16 then [hex_digit n] else toString16 (n div 16) @ [hex_digit (n mod 16)])"

text \<open>\<open>s.slice(-k)\<close>: the last \<open>k\<close> code units (all of \<open>s\<close> when it is shorter).\<close>

definition slice_last :: "nat \<Rightarrow> 'a list \<Rightarrow> 'a list" where
  "slice_last k s = drop (length s - k) s"

definition checksum :: "jsstring \<Rightarrow> jsstring" where
  "checksum str = slice_last 8 (lit ''00000000'' @ toString16 (unat (checksum_loop 5381 str)))"

section \<open>The render pipeline of the client script\<close>

subsection \<open>Escaping and placeholders\<close>

text \<open>
  \<^verbatim>\<open>
  escapeHtml(str) {
      if (!str) return '';
      const div = document.createElement('div');
      div.textContent = String(str);
      return div.innerHTML;
  }
  \<close>
  Reading \<open>innerHTML\<close> of an element whose only child is a text node serialises
  the text: \<open>&\<close>, \<open><\<close>, \<open>>\<close> and the no-break space U+00A0 are written as
  \<open>&amp;\<close>, \<open>&lt;\<close>, \<open>&gt;\<close> and \<open>&nbsp;\<close>, every other code unit as it is.
\<close>

definition escape_char :: "jschar \<Rightarrow> jsstring" where
  "escape_char c =
     (if c = 38 then lit ''&amp;''
      else if c = 60 then lit ''&lt;''
      else if c = 62 then lit ''&gt;''
      else if c = 160 then lit ''&nbsp;''
      else [c])"

definition serialize_text :: "jsstring \<Rightarrow> jsstring" where
  "serialize_text s = concat (map escape_char s)"

definition escapeHtml :: "jsval \<Rightarrow> js_error + jsstring" where
  "escapeHtml str =
     (if \<not> truthy str then Inr []
      else and_then (toString str) (\<lambda>converted. Inr (serialize_text converted)))"

text \<open>
  \<open>escapeHtml\<close> of a string, where \<open>String(str)\<close> is \<open>str\<close> and nothing is
  thrown: the recommendation renderers apply it to the string properties of an item.
\<close>

definition escapeHtml_string :: "jsstring \<Rightarrow> jsstring" where
  "escapeHtml_string str = (if str = [] then [] else serialize_text str)"

text \<open>
  \<^verbatim>\<open>
  safePlaceholder(val) {
      if (!val || (Array.isArray(val) && val.length === 0)) {
          return '<em style="color: rgb(var(--text-muted-rgb));">[Pending Input]</em>';
      }
      return this.escapeHtml(val);
  }
  \<close>
\<close>

definition placeholder :: jsstring where
  \<open>placeholder = lit ''<em style="color: rgb(var(--text-muted-rgb));">[Pending Input]</em>''\<close>

definition is_empty_array :: "jsval \<Rightarrow> bool" where
  "is_empty_array v = (case v of JArr xs \<Rightarrow> length xs = 0 | _ \<Rightarrow> False)"

definition safePlaceholder :: "jsval \<Rightarrow> js_error + jsstring" where
  "safePlaceholder val =
     (if \<not> truthy val \<or> is_empty_array val then Inr placeholder else escapeHtml val)"

subsection \<open>The profile payload and the generated content\<close>

text \<open>
  The payload is the object \<open>handleGenerate\<close> collects from the form; the renderer
  reads five of its properties. The generated content is the JSON document of
  \<open>/api/generate\<close>: its narrative properties are arbitrary JSON values (absent
  ones \<open>undefined\<close>). A recommendation list is \<open>None\<close> when the property is
  absent or is not an array (the renderers test \<open>Array.isArray\<close>); its items follow
  the schema the generation prompt dictates, every property optional (\<open>None\<close>:
  absent or \<open>null\<close>).
\<close>

record payload =
  businessName :: jsval
  entityType :: jsval
  utilization :: jsval
  targetLimit :: jsval
  tone :: jsval

record vendor =
  v_name :: "jsstring option"
  v_tier :: "jsstring option"
  v_minFico :: "int option"
  v_reportsBureaus :: "jsstring list option"
  v_reason :: "jsstring option"
  v_approvalOdds :: "jsstring option"

record card =
  c_name :: "jsstring option"
  c_issuer :: "jsstring option"
  c_minFico :: "int option"
  c_expectedLimit :: "jsstring option"
  c_reason :: "jsstring option"
  c_approvalOdds :: "jsstring option"
  c_applyOrder :: "int option"

record generated =
  profileSummary :: jsval
  quickWins :: jsval
  tradeLinesPlan :: jsval
  vendorRecommendations :: "vendor list option"
  cardStrategy :: jsval
  cardRecommendations :: "card list option"
  bankingSignals :: jsval
  actionPlan :: jsval
  riskFlags :: jsval

text \<open>\<open>s || d\<close> of an optional string, and \<open>n || d\<close> of an optional number inside a template.\<close>

definition str_or :: "jsstring option \<Rightarrow> jsstring \<Rightarrow> jsstring" where
  "str_or x d = (case x of None \<Rightarrow> d | Some s \<Rightarrow> if s \<noteq> [] then s else d)"

definition num_or :: "int option \<Rightarrow> jsstring \<Rightarrow> jsstring" where
  "num_or x d = (case x of None \<Rightarrow> d | Some n \<Rightarrow> if n \<noteq> 0 then show_int n else d)"

text \<open>A destructuring default \<open>{ k = d } = obj\<close>: \<open>d\<close> replaces \<open>undefined\<close> only.\<close>

definition default_to :: "jsval \<Rightarrow> jsval \<Rightarrow> jsval" where
  "default_to d v = (if v = JUndefined then d else v)"

subsection \<open>The recommendation renderers\<close>

text \<open>
  \<^verbatim>\<open>
  getApprovalClass(odds) {
      if (!odds) return 'default';
      const lower = odds.toLowerCase();
      if (lower.includes('high')) return 'success';
      if (lower.includes('medium')) return 'warning';
      if (lower.includes('low')) return 'danger';
      return 'default';
  }
  \<close>
\<close>

definition getApprovalClass :: "jsstring option \<Rightarrow> jsstring" where
  "getApprovalClass odds =
     (case odds of
        None \<Rightarrow> lit ''default''
      | Some s \<Rightarrow>
          if s = [] then lit ''default''
          else (let lower = toLowerCase s in
            if includes_str lower (lit ''high'') then lit ''success''
            else if includes_str lower (lit ''medium'') then lit ''warning''
            else if includes_str lower (lit ''low'') then lit ''danger''
            else lit ''default''))"

text \<open>
  \<open>renderVendorRecommendations(vendors)\<close>: nothing for a value that is not an array
  or is empty; otherwise one card per vendor, \<open>vendors.map(v => ...).join('')\<close>, in
  the order of the array, inside the section block.
\<close>

definition vendorCard :: "vendor \<Rightarrow> jsstring" where
  \<open>vendorCard v =
     lit ''\<newline>''
     @ lit ''            <div class="recommendation-card" style="background: rgba(77,182,231,0.08); border: 1px solid rgba(77,182,231,0.2); border-radius: 8px; padding: 16px; margin-bottom: 12px;" data-testid="vendor-card-''
     @ toLowerCase (replace_spaces (escapeHtml_string (str_or (v_name v) (lit ''unknown''))))
     @ lit ''">\<newline>''
     @ lit ''                <div style="display: flex; justify-content: space-between; align-items: flex-start; margin-bottom: 10px;">\<newline>''
     @ lit ''                    <h4 style="margin: 0; color: #4DB6E7; font-size: 16px; font-weight: 600;">''
     @ escapeHtml_string (str_or (v_name v) (lit ''Unknown Vendor''))
     @ lit ''</h4>\<newline>''
     @ lit ''                    <span class="cc-badge cc-badge--''
     @ getApprovalClass (v_approvalOdds v)
     @ lit ''" data-testid="badge-approval-''
     @ str_or (map_option toLowerCase (v_approvalOdds v)) (lit ''unknown'')
     @ lit ''">\<newline>''
     @ lit ''                        ''
     @ escapeHtml_string (str_or (v_approvalOdds v) (lit ''N/A''))
     @ lit '' Approval\<newline>''
     @ lit ''                    </span>\<newline>''
     @ lit ''                </div>\<newline>''
     @ lit ''                <div style="margin-bottom: 8px;">\<newline>''
     @ lit ''                    <span class="cc-badge cc-badge--info" data-testid="badge-tier">''
     @ escapeHtml_string (str_or (v_tier v) (lit ''N/A''))
     @ lit ''</span>\<newline>''
     @ lit ''                    <span class="cc-badge cc-badge--default" data-testid="badge-min-fico">Min FICO: ''
     @ num_or (v_minFico v) (lit ''N/A'')
     @ lit ''</span>\<newline>''
     @ lit ''                </div>\<newline>''
     @ lit ''                <p style="margin: 8px 0; color: var(--text-color); font-size: 14px;">''
     @ escapeHtml_string (str_or (v_reason v) [])
     @ lit ''</p>\<newline>''
     @ lit ''                ''
     @ (case v_reportsBureaus v of
          None \<Rightarrow> []
        | Some bs \<Rightarrow>
            if length bs > 0 then
            lit ''\<newline>''
            @ lit ''                    <div style="font-size: 12px; color: var(--text-secondary);">\<newline>''
            @ lit ''                        <strong>Reports to:</strong> ''
            @ join (lit '', '') (map (\<lambda>b. escapeHtml_string b) bs)
            @ lit ''\<newline>''
            @ lit ''                    </div>\<newline>''
            @ lit ''                ''
            else [])
     @ lit ''\<newline>''
     @ lit ''            </div>\<newline>''
     @ lit ''        ''\<close>

definition renderVendorRecommendations :: "vendor list option \<Rightarrow> jsstring" where
  \<open>renderVendorRecommendations vendors =
     (case vendors of
        None \<Rightarrow> []
      | Some vs \<Rightarrow>
          if length vs = 0 then []
          else (let vendorCards = concat (map vendorCard vs) in
     lit ''\<newline>''
     @ lit ''            <div class="cc-card" style="padding: 18px; margin-bottom: 20px;">\<newline>''
     @ lit ''                <h3 class="cc-section-title" style="border-left: 2px solid rgba(255,213,74,.35); padding-left: 14px; margin: 0 0 14px 0;">Recommended Vendors</h3>\<newline>''
     @ lit ''                <div data-testid="vendor-recommendations">\<newline>''
     @ lit ''                    ''
     @ vendorCards
     @ lit ''\<newline>''
     @ lit ''                </div>\<newline>''
     @ lit ''            </div>\<newline>''
     @ lit ''        ''))\<close>

text \<open>
  \<open>renderCardRecommendations(cards)\<close>: as for the vendors, after
  \<^verbatim>\<open>
  const sortedCards = [...cards].sort((a, b) => {
      const orderA = typeof a.applyOrder === 'number' ? a.applyOrder : 99;
      const orderB = typeof b.applyOrder === 'number' ? b.applyOrder : 99;
      return orderA - orderB;
  });
  \<close>
  \<open>Array.prototype.sort\<close> is stable; with this comparator it yields the stable
  sorting by the key, which is \<open>sort_key\<close>.
\<close>

definition applyOrder_key :: "card \<Rightarrow> int" where
  "applyOrder_key c = (case c_applyOrder c of Some n \<Rightarrow> n | None \<Rightarrow> 99)"

definition cardCard :: "card \<Rightarrow> jsstring" where
  \<open>cardCard c =
     lit ''\<newline>''
     @ lit ''            <div class="recommendation-card" style="background: rgba(255,213,74,0.08); border: 1px solid rgba(255,213,74,0.2); border-radius: 8px; padding: 16px; margin-bottom: 12px;" data-testid="card-card-''
     @ toLowerCase (replace_spaces (escapeHtml_string (str_or (c_name c) (lit ''unknown''))))
     @ lit ''">\<newline>''
     @ lit ''                <div style="display: flex; justify-content: space-between; align-items: flex-start; margin-bottom: 10px;">\<newline>''
     @ lit ''                    <div>\<newline>''
     @ lit ''                        <h4 class="card-name-title" style="margin: 0 0 4px 0; color: #FFD54A; font-size: 16px; font-weight: 600;">''
     @ escapeHtml_string (str_or (c_name c) (lit ''Unknown Card''))
     @ lit ''</h4>\<newline>''
     @ lit ''                        <div style="font-size: 13px; color: var(--text-secondary);">''
     @ escapeHtml_string (str_or (c_issuer c) [])
     @ lit ''</div>\<newline>''
     @ lit ''                    </div>\<newline>''
     @ lit ''                    <span class="cc-badge cc-badge--''
     @ getApprovalClass (c_approvalOdds c)
     @ lit ''" data-testid="badge-approval-''
     @ str_or (map_option toLowerCase (c_approvalOdds c)) (lit ''unknown'')
     @ lit ''">\<newline>''
     @ lit ''                        ''
     @ escapeHtml_string (str_or (c_approvalOdds c) (lit ''N/A''))
     @ lit '' Approval\<newline>''
     @ lit ''                    </span>\<newline>''
     @ lit ''                </div>\<newline>''
     @ lit ''                <div style="margin-bottom: 8px;">\<newline>''
     @ lit ''                    ''
     @ (case c_applyOrder c of
          None \<Rightarrow> []
        | Some n \<Rightarrow>
            if n \<noteq> 0 then
            lit ''<span class="cc-badge cc-badge--primary" data-testid="badge-apply-order">Apply Order: #''
            @ show_int n
            @ lit ''</span>''
            else [])
     @ lit ''\<newline>''
     @ lit ''                    <span class="cc-badge cc-badge--default" data-testid="badge-min-fico">Min FICO: ''
     @ num_or (c_minFico c) (lit ''N/A'')
     @ lit ''</span>\<newline>''
     @ lit ''                    ''
     @ (case c_expectedLimit c of
          None \<Rightarrow> []
        | Some s \<Rightarrow>
            if s \<noteq> [] then
            lit ''<span class="cc-badge cc-badge--info" data-testid="badge-expected-limit">''
            @ escapeHtml_string s
            @ lit ''</span>''
            else [])
     @ lit ''\<newline>''
     @ lit ''                </div>\<newline>''
     @ lit ''                <p style="margin: 8px 0; color: var(--text-color); font-size: 14px;">''
     @ escapeHtml_string (str_or (c_reason c) [])
     @ lit ''</p>\<newline>''
     @ lit ''            </div>\<newline>''
     @ lit ''        ''\<close>

definition renderCardRecommendations :: "card list option \<Rightarrow> jsstring" where
  \<open>renderCardRecommendations cards =
     (case cards of
        None \<Rightarrow> []
      | Some cs \<Rightarrow>
          if length cs = 0 then []
          else (let sortedCards = sort_key applyOrder_key cs;
                    cardCards = concat (map cardCard sortedCards) in
     lit ''\<newline>''
     @ lit ''            <div class="cc-card" style="padding: 18px; margin-bottom: 20px;">\<newline>''
     @ lit ''                <h3 class="cc-section-title" style="border-left: 2px solid rgba(255,213,74,.35); padding-left: 14px; margin: 0 0 14px 0;">Recommended Business Cards</h3>\<newline>''
     @ lit ''                <div data-testid="card-recommendations">\<newline>''
     @ lit ''                    ''
     @ cardCards
     @ lit ''\<newline>''
     @ lit ''                </div>\<newline>''
     @ lit ''            </div>\<newline>''
     @ lit ''        ''))\<close>

subsection \<open>The unified renderer\<close>

text \<open>
  \<open>renderStructuredHTML(payload, generated)\<close> destructures \<open>generated || {}\<close>
  with defaults (\<open>''\<close> for the narrative properties, \<open>[]\<close> for the lists), builds
  the header block from the payload and assembles the sections. Reading a property
  of a payload that is \<open>null\<close> or \<open>undefined\<close> throws a TypeError, and so
  does \<open>safePlaceholder\<close> on a value that cannot be converted to a string. The
  holes of a template literal are evaluated from left to right.
\<close>

definition no_generated :: generated where
  "no_generated = \<lparr>profileSummary = JUndefined, quickWins = JUndefined,
     tradeLinesPlan = JUndefined, vendorRecommendations = None, cardStrategy = JUndefined,
     cardRecommendations = None, bankingSignals = JUndefined, actionPlan = JUndefined,
     riskFlags = JUndefined\<rparr>"

text \<open>The template literal of \<open>headerBlock\<close>, as a function of what fills its five holes.\<close>

definition doc_meta :: "jsstring \<Rightarrow> jsstring \<Rightarrow> jsstring \<Rightarrow> jsstring \<Rightarrow> jsstring \<Rightarrow> jsstring" where
  \<open>doc_meta business entity used target tone_text =
     lit ''\<newline>''
     @ lit ''            <div class="doc-meta">\<newline>''
     @ lit ''                <div><strong>Business:</strong> ''
     @ business
     @ lit ''</div>\<newline>''
     @ lit ''                <div><strong>Entity Type:</strong> ''
     @ entity
     @ lit ''</div>\<newline>''
     @ lit ''                <div><strong>Current Utilization:</strong> ''
     @ used
     @ lit ''%</div>\<newline>''
     @ lit ''                <div><strong>Target Credit Limit:</strong> ''
     @ target
     @ lit ''</div>\<newline>''
     @ lit ''                <div><strong>Tone:</strong> ''
     @ tone_text
     @ lit ''</div>\<newline>''
     @ lit ''            </div>\<newline>''
     @ lit ''            <hr/>\<newline>''
     @ lit ''        ''\<close>

definition headerBlock :: "payload \<Rightarrow> js_error + jsstring" where
  "headerBlock payload =
     and_then (safePlaceholder (businessName payload)) (\<lambda>business.
     and_then (safePlaceholder (entityType payload)) (\<lambda>entity.
     and_then (safePlaceholder (utilization payload)) (\<lambda>used.
     and_then (safePlaceholder (targetLimit payload)) (\<lambda>target.
     and_then (safePlaceholder (js_or (tone payload) (JStr (lit ''Professional'')))) (\<lambda>tone_text.
     Inr (doc_meta business entity used target tone_text))))))"

text \<open>
  The template literal of \<open>html\<close>, as a function of what fills its ten holes: the
  header block, the seven narrative regions and the two recommendation blocks.
\<close>

definition roadmap_page ::
  "jsstring \<Rightarrow> jsstring \<Rightarrow> jsstring \<Rightarrow> jsstring \<Rightarrow> jsstring \<Rightarrow> jsstring \<Rightarrow> jsstring
    \<Rightarrow> jsstring \<Rightarrow> jsstring \<Rightarrow> jsstring \<Rightarrow> jsstring" where
  \<open>roadmap_page header summary banking wins trade vendors strategy cards plan risks =
     lit ''\<newline>''
     @ lit ''            ''
     @ header
     @ lit ''\<newline>''
     @ lit ''\<newline>''
     @ lit ''            <div class="cc-card" style="padding: 18px; margin-bottom: 20px;">\<newline>''
     @ lit ''                <h2 class="cc-section-title" style="border-left: 2px solid rgba(255,213,74,.35); padding-left: 14px; margin: 0 0 14px 0;">Profile Summary</h2>\<newline>''
     @ lit ''                <div class="section-content">''
     @ summary
     @ lit ''</div>\<newline>''
     @ lit ''            </div>\<newline>''
     @ lit ''\<newline>''
     @ lit ''            <div class="cc-card" style="padding: 18px; margin-bottom: 20px;">\<newline>''
     @ lit ''                <h3 class="cc-section-title" style="border-left: 2px solid rgba(255,213,74,.35); padding-left: 14px; margin: 0 0 14px 0;">Banking & Data Signals</h3>\<newline>''
     @ lit ''                <div class="section-content">''
     @ banking
     @ lit ''</div>\<newline>''
     @ lit ''            </div>\<newline>''
     @ lit ''\<newline>''
     @ lit ''            <div class="cc-card" style="padding: 18px; margin-bottom: 20px;">\<newline>''
     @ lit ''                <h3 class="cc-section-title" style="border-left: 2px solid rgba(255,213,74,.35); padding-left: 14px; margin: 0 0 14px 0;">Quick Wins (0-30 Days)</h3>\<newline>''
     @ lit ''                <div class="section-content">''
     @ wins
     @ lit ''</div>\<newline>''
     @ lit ''            </div>\<newline>''
     @ lit ''\<newline>''
     @ lit ''            <div class="cc-card" style="padding: 18px; margin-bottom: 20px;">\<newline>''
     @ lit ''                <h3 class="cc-section-title" style="border-left: 2px solid rgba(255,213,74,.35); padding-left: 14px; margin: 0 0 14px 0;">Tiered Trade Lines Plan</h3>\<newline>''
     @ lit ''                <div class="section-content">''
     @ trade
     @ lit ''</div>\<newline>''
     @ lit ''            </div>\<newline>''
     @ lit ''\<newline>''
     @ lit ''            ''
     @ vendors
     @ lit ''\<newline>''
     @ lit ''\<newline>''
     @ lit ''            <div class="cc-card" style="padding: 18px; margin-bottom: 20px;">\<newline>''
     @ lit ''                <h3 class="cc-section-title" style="border-left: 2px solid rgba(255,213,74,.35); padding-left: 14px; margin: 0 0 14px 0;">Card Strategy</h3>\<newline>''
     @ lit ''                <div class="section-content">''
     @ strategy
     @ lit ''</div>\<newline>''
     @ lit ''            </div>\<newline>''
     @ lit ''\<newline>''
     @ lit ''            ''
     @ cards
     @ lit ''\<newline>''
     @ lit ''\<newline>''
     @ lit ''            <div class="cc-card" style="padding: 18px; margin-bottom: 20px;">\<newline>''
     @ lit ''                <h3 class="cc-section-title" style="border-left: 2px solid rgba(255,213,74,.35); padding-left: 14px; margin: 0 0 14px 0;">30/60/90-Day Action Plan</h3>\<newline>''
     @ lit ''                <div class="section-content">''
     @ plan
     @ lit ''</div>\<newline>''
     @ lit ''            </div>\<newline>''
     @ lit ''\<newline>''
     @ lit ''            <div class="cc-card" style="padding: 18px; margin-bottom: 20px;">\<newline>''
     @ lit ''                <h3 class="cc-section-title" style="border-left: 2px solid rgba(255,213,74,.35); padding-left: 14px; margin: 0 0 14px 0;">Risk Flags & Compliance</h3>\<newline>''
     @ lit ''                <div class="section-content">''
     @ risks
     @ lit ''</div>\<newline>''
     @ lit ''            </div>\<newline>''
     @ lit ''        ''\<close>

definition structuredHTML :: "payload \<Rightarrow> generated \<Rightarrow> js_error + jsstring" where
  "structuredHTML payload g =
     and_then (headerBlock payload) (\<lambda>header.
     and_then (safePlaceholder (default_to (JStr []) (profileSummary g))) (\<lambda>summary.
     and_then (safePlaceholder (default_to (JStr []) (bankingSignals g))) (\<lambda>banking.
     and_then (safePlaceholder (default_to (JStr []) (quickWins g))) (\<lambda>wins.
     and_then (safePlaceholder (default_to (JStr []) (tradeLinesPlan g))) (\<lambda>trade.
     and_then (safePlaceholder (default_to (JStr []) (cardStrategy g))) (\<lambda>strategy.
     and_then (safePlaceholder (default_to (JStr []) (actionPlan g))) (\<lambda>plan.
     and_then (safePlaceholder (default_to (JStr []) (riskFlags g))) (\<lambda>risks.
     Inr (roadmap_page header summary banking wins trade
            (renderVendorRecommendations (vendorRecommendations g)) strategy
            (renderCardRecommendations (cardRecommendations g)) plan risks)))))))))"

definition renderStructuredHTML :: "payload option \<Rightarrow> generated option \<Rightarrow> js_error + jsstring" where
  "renderStructuredHTML payload generated =
     (let g = (case generated of None \<Rightarrow> no_generated | Some x \<Rightarrow> x) in
      case payload of
        None \<Rightarrow> Inl TypeError
      | Some p \<Rightarrow> structuredHTML p g)"
section \<open>The usage governor of the server\<close>

subsection \<open>Requests and the client address\<close>

text \<open>
  A header of an incoming request is absent, one string, or (for a header sent
  several times) an array of strings. The body is the object the JSON body parser
  leaves in \<open>req.body\<close>, as the list of its properties.
\<close>

datatype header = NoHeader | One jsstring | Many "jsstring list"

record request =
  http_method :: jsstring
  x_forwarded_for :: header
  x_real_ip :: header
  remoteAddress :: "jsstring option"
  x_client_id :: "jsstring option"
  body :: "(jsstring \<times> jsval) list"
  param_id :: jsstring
  query_toolkit :: "jsstring option"

text \<open>
  \<^verbatim>\<open>
  function getClientIp(req: Request): string {
    const forwarded = req.headers['x-forwarded-for'];
    const ip = forwarded
      ? (typeof forwarded === 'string' ? forwarded.split(',')[0] : forwarded[0])
      : req.headers['x-real-ip'] || req.socket?.remoteAddress || 'unknown';
    return typeof ip === 'string' ? ip.trim() : 'unknown';
  }
  \<close>
  \<open>ip\<close> is \<open>None\<close> when it is not a string (an array, or the first element of an
  empty array).
\<close>

fun header_truthy :: "header \<Rightarrow> bool" where
  "header_truthy NoHeader = False"
| "header_truthy (One s) = (s \<noteq> [])"
| "header_truthy (Many xs) = True"

definition getClientIp :: "request \<Rightarrow> jsstring" where
  "getClientIp req =
     (let forwarded = x_forwarded_for req;
          ip = (if header_truthy forwarded
                then (case forwarded of
                        One s \<Rightarrow> Some (split_comma_first s)
                      | Many xs \<Rightarrow> (case xs of [] \<Rightarrow> None | x # _ \<Rightarrow> Some x)
                      | NoHeader \<Rightarrow> None)
                else if header_truthy (x_real_ip req)
                then (case x_real_ip req of One s \<Rightarrow> Some s | _ \<Rightarrow> None)
                else (case remoteAddress req of
                        Some a \<Rightarrow> if a \<noteq> [] then Some a else Some (lit ''unknown'')
                      | None \<Rightarrow> Some (lit ''unknown'')))
      in case ip of Some s \<Rightarrow> trim s | None \<Rightarrow> lit ''unknown'')"

subsection \<open>The usage table and the store\<close>

text \<open>
  The table \<open>usageTracking\<close> of the schema (\<open>shared/schema.ts\<close>, not among the
  sources): the columns the queries read and write. \<open>lastUpdated\<close>, which no query
  reads, is left out. Two facts of the schema are parameters of the model: whether
  the pair (\<open>ipAddress\<close>, \<open>tool\<close>) carries a unique constraint, and the default of
  the column \<open>tool\<close> (the serverless handler inserts rows without naming it).
\<close>

record usage_row =
  ipAddress :: jsstring
  tool :: jsstring
  reportCount :: int

type_synonym usage_table = "usage_row list"

record config =
  unique_key :: bool
  default_tool :: jsstring
  production :: bool

datatype store_error = StoreError

text \<open>
  The three statements the functions send to the store. Each is one atomic step of
  the store; it throws when the store cannot be reached (\<open>up = False\<close>), leaving
  the table as it was, and the insertion throws as well when it would break the
  unique constraint.
  \<^item> \<open>db.select().from(usageTracking).where(P).limit(1)\<close>
  \<^item> \<open>db.update(usageTracking).set({reportCount: reportCount + 1}).where(P).returning()\<close>
  \<^item> \<open>db.insert(usageTracking).values(r).returning()\<close>
\<close>

definition db_select_limit1 ::
  "bool \<Rightarrow> (usage_row \<Rightarrow> bool) \<Rightarrow> usage_table \<Rightarrow> store_error + usage_row list" where
  "db_select_limit1 up P tbl = (if up then Inr (take 1 (filter P tbl)) else Inl StoreError)"

definition increment_row :: "usage_row \<Rightarrow> usage_row" where
  "increment_row r = r\<lparr>reportCount := reportCount r + 1\<rparr>"

definition db_update_increment ::
  "bool \<Rightarrow> (usage_row \<Rightarrow> bool) \<Rightarrow> usage_table \<Rightarrow> (store_error + usage_row list) \<times> usage_table" where
  "db_update_increment up P tbl =
     (if up
      then (Inr (map increment_row (filter P tbl)),
            map (\<lambda>r. if P r then increment_row r else r) tbl)
      else (Inl StoreError, tbl))"

definition key_taken :: "usage_row \<Rightarrow> usage_table \<Rightarrow> bool" where
  "key_taken r tbl = (\<exists>x \<in> set tbl. ipAddress x = ipAddress r \<and> tool x = tool r)"

definition db_insert ::
  "config \<Rightarrow> bool \<Rightarrow> usage_row \<Rightarrow> usage_table \<Rightarrow> (store_error + usage_row list) \<times> usage_table" where
  "db_insert cfg up r tbl =
     (if up
      then (if unique_key cfg \<and> key_taken r tbl then (Inl StoreError, tbl)
            else (Inr [r], tbl @ [r]))
      else (Inl StoreError, tbl))"

subsection \<open>checkUsageLimit and incrementUsage of the Express server\<close>

record check_result =
  allowed :: bool
  check_count :: int

record increment_result =
  success :: bool
  increment_count :: int
  limitReached :: "bool option"

text \<open>
  \<open>checkUsageLimit(req, tool)\<close>. The body of its \<open>try\<close> block returns the result
  or throws the error of the store; the \<open>catch\<close> turns the error into
  \<open>{ allowed: true, count: 0 }\<close>.
\<close>

definition checkUsageLimit_try ::
  "bool \<Rightarrow> request \<Rightarrow> jsstring \<Rightarrow> usage_table \<Rightarrow> store_error + check_result" where
  "checkUsageLimit_try up req tname tbl =
     (let ip = getClientIp req in
      if ip = lit ''unknown'' then Inr \<lparr>allowed = False, check_count = 30\<rparr>
      else
        case db_select_limit1 up (\<lambda>r. ipAddress r = ip \<and> tool r = tname) tbl of
          Inl e \<Rightarrow> Inl e
        | Inr existing \<Rightarrow>
            (let currentCount = (case existing of r # _ \<Rightarrow> reportCount r | [] \<Rightarrow> 0) in
             if currentCount \<ge> 30 then Inr \<lparr>allowed = False, check_count = currentCount\<rparr>
             else Inr \<lparr>allowed = True, check_count = currentCount\<rparr>))"

definition checkUsageLimit :: "bool \<Rightarrow> request \<Rightarrow> jsstring \<Rightarrow> usage_table \<Rightarrow> check_result" where
  "checkUsageLimit up req tname tbl =
     (case checkUsageLimit_try up req tname tbl of
        Inr r \<Rightarrow> r
      | Inl e \<Rightarrow> \<lparr>allowed = True, check_count = 0\<rparr>)"

text \<open>
  \<open>incrementUsage(req, tool)\<close>. The three flags say whether the store can be
  reached at the update, at the selection and at the insertion. The body of the
  \<open>try\<close> block returns the result or throws, next to the table it leaves; the
  \<open>catch\<close> turns the error into \<open>{ success: false, count: 0, limitReached: true }\<close>.
\<close>

definition incrementUsage_try ::
  "config \<Rightarrow> bool \<times> bool \<times> bool \<Rightarrow> request \<Rightarrow> jsstring \<Rightarrow> usage_table
    \<Rightarrow> (store_error + increment_result) \<times> usage_table" where
  "incrementUsage_try cfg ups req tname tbl =
     (let (up1, up2, up3) = ups; ip = getClientIp req in
      if ip = lit ''unknown''
      then (Inr \<lparr>success = False, increment_count = 30, limitReached = Some True\<rparr>, tbl)
      else
        case db_update_increment up1
               (\<lambda>r. ipAddress r = ip \<and> tool r = tname \<and> reportCount r < 30) tbl of
          (Inl e, tbl1) \<Rightarrow> (Inl e, tbl1)
        | (Inr (u # _), tbl1) \<Rightarrow>
            (Inr \<lparr>success = True, increment_count = reportCount u, limitReached = None\<rparr>, tbl1)
        | (Inr [], tbl1) \<Rightarrow>
            (case db_select_limit1 up2 (\<lambda>r. ipAddress r = ip \<and> tool r = tname) tbl1 of
               Inl e \<Rightarrow> (Inl e, tbl1)
             | Inr (x # _) \<Rightarrow>
                 (Inr \<lparr>success = False, increment_count = reportCount x,
                        limitReached = Some True\<rparr>, tbl1)
             | Inr [] \<Rightarrow>
                 (case db_insert cfg up3 \<lparr>ipAddress = ip, tool = tname, reportCount = 1\<rparr> tbl1 of
                    (Inl e, tbl2) \<Rightarrow> (Inl e, tbl2)
                  | (Inr (i # _), tbl2) \<Rightarrow>
                      (Inr \<lparr>success = True, increment_count = reportCount i,
                             limitReached = None\<rparr>, tbl2)
                  | (Inr [], tbl2) \<Rightarrow> (Inl StoreError, tbl2))))"

definition incrementUsage ::
  "config \<Rightarrow> bool \<times> bool \<times> bool \<Rightarrow> request \<Rightarrow> jsstring \<Rightarrow> usage_table
    \<Rightarrow> increment_result \<times> usage_table" where
  "incrementUsage cfg ups req tname tbl =
     (case incrementUsage_try cfg ups req tname tbl of
        (Inr r, tbl') \<Rightarrow> (r, tbl')
      | (Inl e, tbl') \<Rightarrow>
          (\<lparr>success = False, increment_count = 0, limitReached = Some True\<rparr>, tbl'))"

subsection \<open>checkUsageLimit and incrementUsage of the serverless handler\<close>

text \<open>
  The functions of \<open>api/generate.ts\<close> take no tool: their queries select the rows
  by \<open>ipAddress\<close> alone, and the insertion leaves \<open>tool\<close> to the column's default.
\<close>

definition checkUsageLimit_vercel_try ::
  "bool \<Rightarrow> request \<Rightarrow> usage_table \<Rightarrow> store_error + check_result" where
  "checkUsageLimit_vercel_try up req tbl =
     (let ip = getClientIp req in
      if ip = lit ''unknown'' then Inr \<lparr>allowed = False, check_count = 30\<rparr>
      else
        case db_select_limit1 up (\<lambda>r. ipAddress r = ip) tbl of
          Inl e \<Rightarrow> Inl e
        | Inr existing \<Rightarrow>
            (let currentCount = (case existing of r # _ \<Rightarrow> reportCount r | [] \<Rightarrow> 0) in
             if currentCount \<ge> 30 then Inr \<lparr>allowed = False, check_count = currentCount\<rparr>
             else Inr \<lparr>allowed = True, check_count = currentCount\<rparr>))"

definition checkUsageLimit_vercel :: "bool \<Rightarrow> request \<Rightarrow> usage_table \<Rightarrow> check_result" where
  "checkUsageLimit_vercel up req tbl =
     (case checkUsageLimit_vercel_try up req tbl of
        Inr r \<Rightarrow> r
      | Inl e \<Rightarrow> \<lparr>allowed = True, check_count = 0\<rparr>)"

definition incrementUsage_vercel_try ::
  "config \<Rightarrow> bool \<times> bool \<times> bool \<Rightarrow> request \<Rightarrow> usage_table
    \<Rightarrow> (store_error + increment_result) \<times> usage_table" where
  "incrementUsage_vercel_try cfg ups req tbl =
     (let (up1, up2, up3) = ups; ip = getClientIp req in
      if ip = lit ''unknown''
      then (Inr \<lparr>success = False, increment_count = 30, limitReached = Some True\<rparr>, tbl)
      else
        case db_update_increment up1 (\<lambda>r. ipAddress r = ip \<and> reportCount r < 30) tbl of
          (Inl e, tbl1) \<Rightarrow> (Inl e, tbl1)
        | (Inr (u # _), tbl1) \<Rightarrow>
            (Inr \<lparr>success = True, increment_count = reportCount u, limitReached = None\<rparr>, tbl1)
        | (Inr [], tbl1) \<Rightarrow>
            (case db_select_limit1 up2 (\<lambda>r. ipAddress r = ip) tbl1 of
               Inl e \<Rightarrow> (Inl e, tbl1)
             | Inr (x # _) \<Rightarrow>
                 (Inr \<lparr>success = False, increment_count = reportCount x,
                        limitReached = Some True\<rparr>, tbl1)
             | Inr [] \<Rightarrow>
                 (case db_insert cfg up3
                         \<lparr>ipAddress = ip, tool = default_tool cfg, reportCount = 1\<rparr> tbl1 of
                    (Inl e, tbl2) \<Rightarrow> (Inl e, tbl2)
                  | (Inr (i # _), tbl2) \<Rightarrow>
                      (Inr \<lparr>success = True, increment_count = reportCount i,
                             limitReached = None\<rparr>, tbl2)
                  | (Inr [], tbl2) \<Rightarrow> (Inl StoreError, tbl2))))"

definition incrementUsage_vercel ::
  "config \<Rightarrow> bool \<times> bool \<times> bool \<Rightarrow> request \<Rightarrow> usage_table
    \<Rightarrow> increment_result \<times> usage_table" where
  "incrementUsage_vercel cfg ups req tbl =
     (case incrementUsage_vercel_try cfg ups req tbl of
        (Inr r, tbl') \<Rightarrow> (r, tbl')
      | (Inl e, tbl') \<Rightarrow>
          (\<lparr>success = False, increment_count = 0, limitReached = Some True\<rparr>, tbl'))"

section \<open>The generation handlers\<close>

text \<open>
  \<^verbatim>\<open>
  function normalizeTool(tool: any): 'creditcommander' | 'complipilot' {
    const normalized = String(tool || 'creditcommander').toLowerCase().trim();
    if (normalized === 'complipilot') {
      return 'complipilot';
    }
    return 'creditcommander';
  }
  \<close>
\<close>

definition normalizeTool :: "jsval \<Rightarrow> js_error + jsstring" where
  "normalizeTool t =
     and_then (toString (js_or t (JStr (lit ''creditcommander'')))) (\<lambda>converted.
       let normalized = trim (toLowerCase converted)
       in if normalized = lit ''complipilot'' then Inr (lit ''complipilot'')
          else Inr (lit ''creditcommander''))"

text \<open>
  What a handler sends: the status and the JSON body (\<open>undefined\<close> for a response
  without a body).
\<close>

record response =
  status :: nat
  json_body :: jsval

text \<open>
  An error thrown inside the \<open>try\<close> block of a handler: the error of the OpenAI
  client, with its \<open>code\<close> and \<open>status\<close>, or an error of the language (a
  \<open>SyntaxError\<close> of \<open>JSON.parse\<close>, a \<open>TypeError\<close>), which has neither.
\<close>

record thrown =
  err_code :: "jsstring option"
  err_status :: "int option"
  err_message :: jsstring

text \<open>
  The two errors of the language that the handlers can meet, with the messages of
  Node.js: the read of \<open>aiResponse.profileSummary\<close> when the document of the model
  is \<open>null\<close>, and the conversion to a string of a value that has none.
\<close>

definition type_error :: thrown where
  "type_error = \<lparr>err_code = None, err_status = None,
     err_message = lit ''Cannot read properties of null (reading '' @ [39]
       @ lit ''profileSummary'' @ [39] @ lit '')''\<rparr>"

definition conversion_error :: thrown where
  "conversion_error = \<lparr>err_code = None, err_status = None,
     err_message = lit ''Cannot convert object to primitive value''\<rparr>"

definition thrown_of :: "js_error \<Rightarrow> thrown" where
  "thrown_of e = (case e of TypeError \<Rightarrow> conversion_error)"

text \<open>Converting the values of a list to strings, from left to right.\<close>

fun convert_all :: "jsval list \<Rightarrow> js_error + jsstring list" where
  "convert_all [] = Inr []"
| "convert_all (v # vs) =
     (case toString v of
        Inl e \<Rightarrow> Inl e
      | Inr s \<Rightarrow> (case convert_all vs of Inl e \<Rightarrow> Inl e | Inr rest \<Rightarrow> Inr (s # rest)))"

text \<open>
  The world around one request. The call of the language model is opaque: it throws,
  or it returns the document \<open>JSON.parse(completion.choices[0].message.content || '{}')\<close>
  gives (a throw of the parsing or of the property accesses counts as a throw of the
  call). While the handler awaits the model, other requests may write to the usage
  table: \<open>interference\<close> is what they make of it. The flags say where the store can
  be reached.
\<close>

record environment =
  check_up :: bool
  generation :: "thrown + jsval"
  interference :: "usage_table \<Rightarrow> usage_table"
  increment_ups :: "bool \<times> bool \<times> bool"

subsection \<open>POST /api/generate of the Express server\<close>

text \<open>The validation of the form data: \<open>None\<close> when it passes, the 400 response otherwise.\<close>

definition validate_formData :: "jsval \<Rightarrow> response option" where
  "validate_formData formData =
     (if \<not> truthy formData
      then Some \<lparr>status = 400, json_body = JObj [(lit ''error'', JStr (lit ''Form data is required.''))]\<rparr>
      else
        (let field = get_prop formData in
         if \<not> truthy (field (lit ''businessName'')) \<or> \<not> truthy (field (lit ''ein''))
            \<or> \<not> truthy (field (lit ''entityType'')) \<or> \<not> truthy (field (lit ''state''))
            \<or> \<not> truthy (field (lit ''startDate''))
            \<or> field (lit ''utilization'') = JUndefined \<or> field (lit ''tradeLines'') = JUndefined
            \<or> \<not> truthy (field (lit ''annualRevenue''))
            \<or> field (lit ''latePayments'') = JUndefined \<or> field (lit ''ownerFico'') = JUndefined
            \<or> field (lit ''creditHistory'') = JUndefined
            \<or> \<not> truthy (field (lit ''fundingGoal'')) \<or> \<not> truthy (field (lit ''targetLimit''))
            \<or> \<not> truthy (field (lit ''timeframe''))
         then Some \<lparr>status = 400,
                json_body = JObj [(lit ''error'', JStr (lit ''All required fields must be completed.''))]\<rparr>
         else None))"

text \<open>
  Before it calls the model, the handler writes a log line and builds the prompt,
  both template literals over the form fields. The call of the model is opaque, so
  the text of the prompt is not modelled; what is modelled are the conversions to
  strings that building it performs, any of which may throw: the holes of the
  prompt hold each of the fifteen fields (\<open>derogatories\<close> as
  \<open>derogatories || 'None reported'\<close>). The log line, the comparisons
  \<open>latePayments > 0\<close> and \<open>utilization > 30\<close> and the concatenations in the last
  holes convert fields among these, and throw for no other value.
\<close>

definition prompt_holes :: "jsval \<Rightarrow> jsval list" where
  "prompt_holes formData =
     (let field = get_prop formData in
      [field (lit ''businessName''), field (lit ''ein''), field (lit ''entityType''),
       field (lit ''state''), field (lit ''startDate''), field (lit ''utilization''),
       field (lit ''tradeLines''), field (lit ''annualRevenue''), field (lit ''latePayments''),
       js_or (field (lit ''derogatories'')) (JStr (lit ''None reported'')),
       field (lit ''ownerFico''), field (lit ''creditHistory''), field (lit ''fundingGoal''),
       field (lit ''targetLimit''), field (lit ''timeframe'')])"

definition creditRoadmapPrompt :: "jsval \<Rightarrow> js_error + jsstring list" where
  "creditRoadmapPrompt formData = convert_all (prompt_holes formData)"

text \<open>
  The response object the handler builds from the document of the model. The
  right operand of \<open>||\<close> is evaluated only when the left one is falsy.
\<close>

definition roadmap_response :: "jsval \<Rightarrow> jsval \<Rightarrow> js_error + jsval" where
  "roadmap_response formData aiResponse =
     (let ai = get_prop aiResponse in
      and_then
        (if truthy (ai (lit ''profileSummary'')) then Inr (ai (lit ''profileSummary''))
         else and_then (toString (get_prop formData (lit ''businessName'')))
                (\<lambda>name. Inr (JStr (lit ''Credit roadmap for '' @ name @ lit ''.''))))
        (\<lambda>summary.
      and_then
        (if truthy (ai (lit ''actionPlan'')) then Inr (ai (lit ''actionPlan''))
         else and_then (toString (get_prop formData (lit ''timeframe'')))
                (\<lambda>frame. Inr (JStr (lit ''Complete credit roadmap within '' @ frame @ lit ''.''))))
        (\<lambda>plan.
      Inr (JObj [
        (lit ''profileSummary'', summary),
        (lit ''quickWins'', js_or (ai (lit ''quickWins''))
           (JStr (lit ''Focus on reducing utilization and adding trade lines.''))),
        (lit ''tradeLinesPlan'', js_or (ai (lit ''tradeLinesPlan''))
           (JStr (lit ''Build trade lines with starter vendors.''))),
        (lit ''vendorRecommendations'', js_or (ai (lit ''vendorRecommendations'')) (JArr [])),
        (lit ''cardStrategy'', js_or (ai (lit ''cardStrategy''))
           (JStr (lit ''Apply for business cards based on your profile.''))),
        (lit ''cardRecommendations'', js_or (ai (lit ''cardRecommendations'')) (JArr [])),
        (lit ''bankingSignals'', js_or (ai (lit ''bankingSignals''))
           (JStr (lit ''Optimize banking relationships and data signals.''))),
        (lit ''actionPlan'', plan),
        (lit ''riskFlags'', js_or (ai (lit ''riskFlags''))
           (JStr (lit ''Address any late payments and derogatories.'')))]))))"

text \<open>The \<open>catch\<close> block of the handler.\<close>

definition generate_catch :: "thrown \<Rightarrow> response" where
  "generate_catch e =
     (if err_code e = Some (lit ''insufficient_quota'')
      then \<lparr>status = 503, json_body = JObj [(lit ''error'',
              JStr (lit ''Service temporarily unavailable. Please try again later.''))]\<rparr>
      else if err_status e = Some 429
      then \<lparr>status = 429, json_body = JObj [(lit ''error'',
              JStr (lit ''Too many requests. Please wait a moment and try again.''))]\<rparr>
      else if err_status e = Some 401
      then \<lparr>status = 401, json_body = JObj [(lit ''error'',
              JStr (lit ''Authentication failed. Please check API configuration.''))]\<rparr>
      else \<lparr>status = 500, json_body = JObj [(lit ''error'',
              JStr (lit ''An unexpected error occurred. Please try again.''))]\<rparr>)"

text \<open>
  The handler, in the order of the source: normalise the tool, check the limit,
  validate, build the prompt, call the model, build the response, increment,
  respond. It returns what the handler does and the usage table as the request
  leaves it. The handler is an \<open>async\<close> function and \<open>normalizeTool\<close> is called
  before its \<open>try\<close> block: an error thrown there is not caught, the promise of the
  handler is rejected with it and the handler sends no response (\<open>Inl\<close>);
  otherwise the handler sends one (\<open>Inr\<close>).
\<close>

definition generate_handler ::
  "config \<Rightarrow> environment \<Rightarrow> request \<Rightarrow> usage_table \<Rightarrow> (thrown + response) \<times> usage_table" where
  "generate_handler cfg env req tbl =
     (case normalizeTool (get_prop (JObj (body req)) (lit ''tool'')) of
        Inl e \<Rightarrow> (Inl (thrown_of e), tbl)
      | Inr tname \<Rightarrow>
     (let toolName = (if tname = lit ''creditcommander'' then lit ''Credit Commander''
                      else lit ''CompliPilot'');
          usageCheck = checkUsageLimit (check_up env) req tname tbl
      in
      if \<not> allowed usageCheck
      then (Inr \<lparr>status = 429, json_body = JObj [
               (lit ''error'', JStr (lit ''You have reached your 30-report limit for the '' @ toolName
                  @ lit '' soft launch. Please upgrade to continue.'')),
               (lit ''limitReached'', JBool True),
               (lit ''count'', JNum (check_count usageCheck)),
               (lit ''limit'', JNum 30),
               (lit ''tool'', JStr tname)]\<rparr>, tbl)
      else
        (let formData = get_prop (JObj (body req)) (lit ''formData'') in
         case validate_formData formData of
           Some bad \<Rightarrow> (Inr bad, tbl)
         | None \<Rightarrow>
            (case creditRoadmapPrompt formData of
               Inl e \<Rightarrow> (Inr (generate_catch (thrown_of e)), tbl)
             | Inr prompt \<Rightarrow>
             (let tbl1 = interference env tbl in
              case generation env of
                Inl e \<Rightarrow> (Inr (generate_catch e), tbl1)
              | Inr aiResponse \<Rightarrow>
                  if aiResponse = JNull then (Inr (generate_catch type_error), tbl1)
                  else
                    (case roadmap_response formData aiResponse of
                       Inl e \<Rightarrow> (Inr (generate_catch (thrown_of e)), tbl1)
                     | Inr response \<Rightarrow>
                    (let (incrementResult, tbl2) =
                            incrementUsage cfg (increment_ups env) req tname tbl1
                     in
                     if \<not> success incrementResult \<and> limitReached incrementResult = Some True
                     then (Inr \<lparr>status = 429, json_body = JObj [
                              (lit ''error'', JStr (lit ''You have reached your 30-report limit for the ''
                                 @ toolName @ lit '' soft launch. Please upgrade to continue.'')),
                              (lit ''limitReached'', JBool True),
                              (lit ''count'', JNum (increment_count incrementResult)),
                              (lit ''limit'', JNum 30),
                              (lit ''tool'', JStr tname)]\<rparr>, tbl2)
                     else (Inr \<lparr>status = 200, json_body = response\<rparr>, tbl2))))))))"

subsection \<open>The serverless handler of api/generate.ts\<close>

text \<open>
  The handler answers \<open>OPTIONS\<close> and refuses every method but \<open>POST\<close>; it takes no
  tool. After the check, everything runs inside its outer \<open>try\<close> block: the
  validation and the building of the prompt; the inner \<open>try\<close> block holds the call
  of the model, the building of the response and the increment. The API key is
  taken to be configured (\<open>getOpenAI\<close> does not throw). The CORS headers are not
  modelled. Nothing is thrown outside the \<open>try\<close> blocks, so the handler always
  sends a response.
\<close>

definition validate_formData_vercel :: "jsval \<Rightarrow> response option" where
  "validate_formData_vercel formData =
     (if \<not> truthy formData
      then Some \<lparr>status = 400, json_body = JObj [(lit ''error'', JStr (lit ''formData is required''))]\<rparr>
      else
        (let field = get_prop formData in
         if \<not> truthy (field (lit ''businessName'')) \<or> \<not> truthy (field (lit ''entityType''))
            \<or> \<not> truthy (field (lit ''state''))
         then Some \<lparr>status = 400, json_body = JObj [(lit ''error'', JStr (lit
                ''Business name, entity type, and state are required to generate your credit roadmap.''))]\<rparr>
         else None))"

text \<open>
  The holes of the prompt of the serverless handler: \<open>businessName\<close> as it is, the
  other fields with the default \<open>'Not specified'\<close> (\<open>ein\<close> is only tested, not
  converted).
\<close>

definition prompt_holes_vercel :: "jsval \<Rightarrow> jsval list" where
  "prompt_holes_vercel formData =
     (let field = get_prop formData;
          specified = (\<lambda>k. js_or (field k) (JStr (lit ''Not specified'')))
      in
      [field (lit ''businessName''), specified (lit ''entityType''), specified (lit ''state''),
       specified (lit ''startDate''), specified (lit ''annualRevenue''),
       specified (lit ''utilization''), specified (lit ''tradeLines''),
       specified (lit ''latePayments''), specified (lit ''derogatories''),
       specified (lit ''ownerFico''), specified (lit ''creditHistory''),
       specified (lit ''fundingGoal''), specified (lit ''targetLimit''),
       specified (lit ''timeframe'')])"

definition creditRoadmapPrompt_vercel :: "jsval \<Rightarrow> js_error + jsstring list" where
  "creditRoadmapPrompt_vercel formData = convert_all (prompt_holes_vercel formData)"

definition roadmap_response_vercel :: "jsval \<Rightarrow> jsval" where
  "roadmap_response_vercel aiResponse =
     (let ai = get_prop aiResponse in
      JObj [
        (lit ''profileSummary'', js_or (ai (lit ''profileSummary''))
           (JStr (lit ''Profile summary not generated.''))),
        (lit ''quickWins'', js_or (ai (lit ''quickWins'')) (JStr (lit ''Quick wins not generated.''))),
        (lit ''tradeLinesPlan'', js_or (ai (lit ''tradeLinesPlan''))
           (JStr (lit ''Trade lines plan not generated.''))),
        (lit ''cardStrategy'', js_or (ai (lit ''cardStrategy''))
           (JStr (lit ''Card strategy not generated.''))),
        (lit ''bankingSignals'', js_or (ai (lit ''bankingSignals''))
           (JStr (lit ''Banking signals not generated.''))),
        (lit ''actionPlan'', (case ai (lit ''actionPlan'') of
             JStr s \<Rightarrow> JStr s
           | _ \<Rightarrow> JStr (lit ''30/60/90-day action plan not generated.''))),
        (lit ''riskFlags'', js_or (ai (lit ''riskFlags'')) (JStr (lit ''Risk flags not generated.'')))])"

text \<open>
  The inner \<open>catch\<close> of the serverless handler: always 500; \<open>details\<close> is
  \<open>undefined\<close> in production, and \<open>res.json\<close> leaves an \<open>undefined\<close> property out.
\<close>

definition generate_catch_vercel :: "config \<Rightarrow> thrown \<Rightarrow> response" where
  "generate_catch_vercel cfg e =
     \<lparr>status = 500, json_body = JObj (
        (lit ''error'', JStr (lit ''Failed to generate credit roadmap. Please try again.''))
        # (if production cfg then [] else [(lit ''details'', JStr (err_message e))]))\<rparr>"

text \<open>
  The outer \<open>catch\<close> of the serverless handler: 500 as well, with the property
  \<open>debug\<close> outside production.
\<close>

definition handler_catch_vercel :: "config \<Rightarrow> thrown \<Rightarrow> response" where
  "handler_catch_vercel cfg e =
     \<lparr>status = 500, json_body = JObj (
        (lit ''error'', JStr (lit ''Something went wrong. Please try again later.''))
        # (if production cfg then [] else [(lit ''debug'', JStr (err_message e))]))\<rparr>"

definition generate_handler_vercel ::
  "config \<Rightarrow> environment \<Rightarrow> request \<Rightarrow> usage_table \<Rightarrow> response \<times> usage_table" where
  "generate_handler_vercel cfg env req tbl =
     (if http_method req = lit ''OPTIONS'' then (\<lparr>status = 200, json_body = JUndefined\<rparr>, tbl)
      else if http_method req \<noteq> lit ''POST''
      then (\<lparr>status = 405, json_body = JObj [(lit ''error'', JStr (lit ''Method not allowed''))]\<rparr>, tbl)
      else
        (let usageCheck = checkUsageLimit_vercel (check_up env) req tbl in
         if \<not> allowed usageCheck
         then (\<lparr>status = 429, json_body = JObj [
                  (lit ''error'', JStr (lit
                     ''You have reached your 30-report limit for Credit Commander. Please contact support to continue.'')),
                  (lit ''limitReached'', JBool True),
                  (lit ''count'', JNum (check_count usageCheck)),
                  (lit ''limit'', JNum 30)]\<rparr>, tbl)
         else
           (let formData = get_prop (JObj (body req)) (lit ''formData'') in
            case validate_formData_vercel formData of
              Some bad \<Rightarrow> (bad, tbl)
            | None \<Rightarrow>
               (case creditRoadmapPrompt_vercel formData of
                  Inl e \<Rightarrow> (handler_catch_vercel cfg (thrown_of e), tbl)
                | Inr prompt \<Rightarrow>
                (let tbl1 = interference env tbl in
                 case generation env of
                   Inl e \<Rightarrow> (generate_catch_vercel cfg e, tbl1)
                 | Inr aiResponse \<Rightarrow>
                     if aiResponse = JNull then (generate_catch_vercel cfg type_error, tbl1)
                     else
                       (let response = roadmap_response_vercel aiResponse;
                            (incrementResult, tbl2) =
                               incrementUsage_vercel cfg (increment_ups env) req tbl1
                        in
                        if \<not> success incrementResult \<and> limitReached incrementResult = Some True
                        then (\<lparr>status = 429, json_body = JObj [
                                 (lit ''error'', JStr (lit
                                    ''You have reached your 30-report limit for Credit Commander. Please contact support to continue.'')),
                                 (lit ''limitReached'', JBool True),
                                 (lit ''count'', JNum (increment_count incrementResult)),
                                 (lit ''limit'', JNum 30)]\<rparr>, tbl2)
                        else (\<lparr>status = 200, json_body = response\<rparr>, tbl2)))))))"
section \<open>The report store of the Express server\<close>

text \<open>
  The table \<open>complianceReports\<close>: the columns the handlers filter on and the ones
  that carry the rendered report. The descriptive columns (\<open>entityName\<close>,
  \<open>entityType\<close>, \<open>jurisdiction\<close>, \<open>filingType\<close>, \<open>deadline\<close>), which no decision reads,
  are left out; \<open>createdAt\<close> is a number of milliseconds.
\<close>

record report =
  rep_id :: jsstring
  rep_userId :: jsstring
  rep_ownerId :: jsstring
  rep_toolkitCode :: jsstring
  rep_name :: jsstring
  rep_htmlContent :: jsstring
  rep_checksum :: jsstring
  rep_metadata :: jsstring
  rep_createdAt :: int

type_synonym report_table = "report list"

definition report_json :: "report \<Rightarrow> jsval" where
  "report_json r = JObj [
     (lit ''id'', JStr (rep_id r)),
     (lit ''userId'', JStr (rep_userId r)),
     (lit ''ownerId'', JStr (rep_ownerId r)),
     (lit ''toolkitCode'', JStr (rep_toolkitCode r)),
     (lit ''name'', JStr (rep_name r)),
     (lit ''htmlContent'', JStr (rep_htmlContent r)),
     (lit ''checksum'', JStr (rep_checksum r)),
     (lit ''metadata'', JStr (rep_metadata r)),
     (lit ''createdAt'', JNum (rep_createdAt r))]"

definition summary_json :: "report \<Rightarrow> jsval" where
  "summary_json r = JObj [
     (lit ''id'', JStr (rep_id r)),
     (lit ''name'', JStr (rep_name r)),
     (lit ''checksum'', JStr (rep_checksum r)),
     (lit ''createdAt'', JNum (rep_createdAt r))]"

text \<open>
  \<^verbatim>\<open>
  function getAnonymousUserId(req: Request): string {
    const clientId = req.headers['x-client-id'] as string;
    if (!clientId) {
      throw new Error('X-Client-Id header is required');
    }
    return `anon_${clientId}`;
  }
  \<close>
\<close>

datatype header_error = HeaderRequired

definition getAnonymousUserId :: "request \<Rightarrow> header_error + jsstring" where
  "getAnonymousUserId req =
     (case x_client_id req of
        None \<Rightarrow> Inl HeaderRequired
      | Some clientId \<Rightarrow> if clientId = [] then Inl HeaderRequired else Inr (lit ''anon_'' @ clientId))"

definition header_required :: response where
  "header_required = \<lparr>status = 400,
     json_body = JObj [(lit ''error'', JStr (lit ''X-Client-Id header is required''))]\<rparr>"

text \<open>
  The \<open>catch\<close> of a report handler: the message alone in production, with the
  \<open>details\<close> of the error otherwise (the text of \<open>error.message\<close> is fixed here
  to one string).
\<close>

definition report_catch :: "config \<Rightarrow> nat \<Rightarrow> string \<Rightarrow> string \<Rightarrow> response" where
  "report_catch cfg code prod_message dev_message =
     (if production cfg
      then \<lparr>status = code, json_body = JObj [(lit ''error'', JStr (lit prod_message))]\<rparr>
      else \<lparr>status = code, json_body = JObj [(lit ''error'', JStr (lit dev_message)),
              (lit ''details'', JStr (lit ''store error''))]\<rparr>)"

text \<open>
  \<open>GET /api/reports/:id\<close>: the rows with this id and this owner; 404 when there is
  none, the first one otherwise.
\<close>

definition get_report :: "config \<Rightarrow> bool \<Rightarrow> request \<Rightarrow> report_table \<Rightarrow> response" where
  "get_report cfg up req tbl =
     (case getAnonymousUserId req of
        Inl e \<Rightarrow> header_required
      | Inr userId \<Rightarrow>
          if \<not> up
          then report_catch cfg 500 ''Failed to retrieve report. Please try again.''
                 ''Failed to retrieve report.''
          else
            (case filter (\<lambda>r. rep_id r = param_id req \<and> rep_userId r = userId) tbl of
               [] \<Rightarrow> \<lparr>status = 404, json_body = JObj [(lit ''error'', JStr (lit ''Report not found.''))]\<rparr>
             | r # _ \<Rightarrow> \<lparr>status = 200, json_body = report_json r\<rparr>))"

text \<open>
  \<open>DELETE /api/reports/:id\<close>: deletes the rows with this id and this owner; 404
  when it deleted none.
\<close>

definition delete_report ::
  "config \<Rightarrow> bool \<Rightarrow> request \<Rightarrow> report_table \<Rightarrow> response \<times> report_table" where
  "delete_report cfg up req tbl =
     (case getAnonymousUserId req of
        Inl e \<Rightarrow> (header_required, tbl)
      | Inr userId \<Rightarrow>
          if \<not> up
          then (report_catch cfg 500 ''Failed to delete report. Please try again.''
                  ''Failed to delete report.'', tbl)
          else
            (let result = filter (\<lambda>r. rep_id r = param_id req \<and> rep_userId r = userId) tbl;
                 tbl' = filter (\<lambda>r. \<not> (rep_id r = param_id req \<and> rep_userId r = userId)) tbl
             in if length result = 0
                then (\<lparr>status = 404, json_body = JObj [(lit ''error'',
                         JStr (lit ''Report not found or access denied.''))]\<rparr>, tbl')
                else (\<lparr>status = 200, json_body = JObj [(lit ''success'', JBool True)]\<rparr>, tbl')))"

text \<open>
  \<open>GET /api/reports/list\<close>: the summaries of the owner's reports of the toolkit
  (for \<open>creditcommander\<close> also those tagged \<open>grantgenie\<close>), newest first.
\<close>

definition toolkitFilter :: "jsstring \<Rightarrow> report \<Rightarrow> bool" where
  "toolkitFilter toolkit r =
     (if toolkit = lit ''creditcommander''
      then rep_toolkitCode r = lit ''creditcommander'' \<or> rep_toolkitCode r = lit ''grantgenie''
      else rep_toolkitCode r = toolkit)"

definition list_rows :: "jsstring \<Rightarrow> jsstring \<Rightarrow> report_table \<Rightarrow> report list" where
  "list_rows toolkit userId tbl =
     sort_key (\<lambda>r. - rep_createdAt r) (filter (\<lambda>r. toolkitFilter toolkit r \<and> rep_userId r = userId) tbl)"

definition list_reports :: "config \<Rightarrow> bool \<Rightarrow> request \<Rightarrow> report_table \<Rightarrow> response" where
  "list_reports cfg up req tbl =
     (case getAnonymousUserId req of
        Inl e \<Rightarrow> header_required
      | Inr userId \<Rightarrow>
          (case query_toolkit req of
             None \<Rightarrow> \<lparr>status = 400, json_body = JObj [(lit ''error'',
                        JStr (lit ''toolkit query parameter is required''))]\<rparr>
           | Some toolkit \<Rightarrow>
               if toolkit = []
               then \<lparr>status = 400, json_body = JObj [(lit ''error'',
                        JStr (lit ''toolkit query parameter is required''))]\<rparr>
               else if \<not> up
               then report_catch cfg 500 ''Failed to retrieve reports. Please try again.''
                      ''Failed to retrieve reports.''
               else \<lparr>status = 200, json_body = JArr (map summary_json (list_rows toolkit userId tbl))\<rparr>))"

text \<open>
  \<open>POST /api/reports/save\<close>. The schema validation (\<open>insertComplianceReportSchema\<close>)
  and the sanitiser are not among the sources: the validated report data (\<open>None\<close>
  when the validation throws) and the sanitiser are parameters, and so are the id
  and the time stamp the store gives the new row. Whatever the data say, the row is
  stamped with the identity of the header, and \<open>ownerId\<close> is cleared.
\<close>

definition save_report ::
  "config \<Rightarrow> bool \<Rightarrow> report option \<Rightarrow> (jsstring \<Rightarrow> jsstring) \<Rightarrow> jsstring \<Rightarrow> int
    \<Rightarrow> request \<Rightarrow> report_table \<Rightarrow> response \<times> report_table" where
  "save_report cfg up reportData sanitizeHtmlContent new_id now req tbl =
     (case getAnonymousUserId req of
        Inl e \<Rightarrow> (header_required, tbl)
      | Inr userId \<Rightarrow>
          (case reportData of
             None \<Rightarrow> (report_catch cfg 400 ''Failed to save report. Please try again.''
                         ''Failed to save report. Please check your input.'', tbl)
           | Some d \<Rightarrow>
               if \<not> up
               then (report_catch cfg 400 ''Failed to save report. Please try again.''
                       ''Failed to save report. Please check your input.'', tbl)
               else
                 (let savedReport = d\<lparr>rep_htmlContent := sanitizeHtmlContent (rep_htmlContent d),
                        rep_userId := userId, rep_ownerId := [], rep_id := new_id,
                        rep_createdAt := now\<rparr>
                  in (\<lparr>status = 200, json_body = report_json savedReport\<rparr>, tbl @ [savedReport]))))"

section \<open>Concurrent calls of incrementUsage\<close>

text \<open>
  Between two statements it awaits, a call of \<open>incrementUsage\<close> can be overtaken
  by other calls. A call is modelled by where it stands: before its update, before
  its selection, before its insertion, or returned. Its key is the client address
  and, for the Express server, the tool (\<open>None\<close> for the serverless handler, whose
  queries name no tool). One step runs one statement against the table, atomically.
\<close>

datatype position = AtUpdate | AtSelect | AtInsert | Returned increment_result

record call =
  call_ip :: jsstring
  call_tool :: "jsstring option"
  at :: position

definition usage_where :: "jsstring \<Rightarrow> jsstring option \<Rightarrow> usage_row \<Rightarrow> bool" where
  "usage_where ip topt r =
     (ipAddress r = ip \<and> (case topt of Some t \<Rightarrow> tool r = t | None \<Rightarrow> True))"

definition start_call :: "request \<Rightarrow> jsstring option \<Rightarrow> call" where
  "start_call req topt =
     (let ip = getClientIp req in
      \<lparr>call_ip = ip, call_tool = topt,
       at = (if ip = lit ''unknown''
             then Returned \<lparr>success = False, increment_count = 30, limitReached = Some True\<rparr>
             else AtUpdate)\<rparr>)"

definition failed_closed :: increment_result where
  "failed_closed = \<lparr>success = False, increment_count = 0, limitReached = Some True\<rparr>"

definition step_call :: "config \<Rightarrow> bool \<Rightarrow> call \<Rightarrow> usage_table \<Rightarrow> call \<times> usage_table" where
  "step_call cfg up c tbl =
     (case at c of
        AtUpdate \<Rightarrow>
          (case db_update_increment up
                  (\<lambda>r. usage_where (call_ip c) (call_tool c) r \<and> reportCount r < 30) tbl of
             (Inl e, tbl1) \<Rightarrow> (c\<lparr>at := Returned failed_closed\<rparr>, tbl1)
           | (Inr (u # _), tbl1) \<Rightarrow>
               (c\<lparr>at := Returned \<lparr>success = True, increment_count = reportCount u,
                                    limitReached = None\<rparr>\<rparr>, tbl1)
           | (Inr [], tbl1) \<Rightarrow> (c\<lparr>at := AtSelect\<rparr>, tbl1))
      | AtSelect \<Rightarrow>
          (case db_select_limit1 up (usage_where (call_ip c) (call_tool c)) tbl of
             Inl e \<Rightarrow> (c\<lparr>at := Returned failed_closed\<rparr>, tbl)
           | Inr (x # _) \<Rightarrow>
               (c\<lparr>at := Returned \<lparr>success = False, increment_count = reportCount x,
                                    limitReached = Some True\<rparr>\<rparr>, tbl)
           | Inr [] \<Rightarrow> (c\<lparr>at := AtInsert\<rparr>, tbl))
      | AtInsert \<Rightarrow>
          (case db_insert cfg up
                  \<lparr>ipAddress = call_ip c,
                   tool = (case call_tool c of Some t \<Rightarrow> t | None \<Rightarrow> default_tool cfg),
                   reportCount = 1\<rparr> tbl of
             (Inl e, tbl2) \<Rightarrow> (c\<lparr>at := Returned failed_closed\<rparr>, tbl2)
           | (Inr (i # _), tbl2) \<Rightarrow>
               (c\<lparr>at := Returned \<lparr>success = True, increment_count = reportCount i,
                                    limitReached = None\<rparr>\<rparr>, tbl2)
           | (Inr [], tbl2) \<Rightarrow> (c\<lparr>at := Returned failed_closed\<rparr>, tbl2))
      | Returned r \<Rightarrow> (c, tbl))"

text \<open>
  A schedule lists which call takes the next step and whether the store can be
  reached at that step; a check of the limit (one selection, which writes nothing)
  may stand between the steps.
\<close>

datatype event = Step nat bool | Check bool request jsstring

fun run_schedule :: "config \<Rightarrow> event list \<Rightarrow> call list \<times> usage_table \<Rightarrow> call list \<times> usage_table" where
  "run_schedule cfg [] st = st"
| "run_schedule cfg (Step i up # es) (calls, tbl) =
     (if i < length calls
      then (let (c, tbl') = step_call cfg up (calls ! i) tbl
            in run_schedule cfg es (calls[i := c], tbl'))
      else run_schedule cfg es (calls, tbl))"
| "run_schedule cfg (Check up req tname # es) (calls, tbl) =
     (let r = checkUsageLimit up req tname tbl in run_schedule cfg es (calls, tbl))"

text \<open>\<open>n\<close> calls one after the other, each running to its end before the next starts.\<close>

fun increment_times :: "config \<Rightarrow> nat \<Rightarrow> request \<Rightarrow> jsstring \<Rightarrow> usage_table
    \<Rightarrow> increment_result list \<times> usage_table" where
  "increment_times cfg 0 req tname tbl = ([], tbl)"
| "increment_times cfg (Suc n) req tname tbl =
     (let (r, tbl1) = incrementUsage cfg (True, True, True) req tname tbl;
          (rs, tbl2) = increment_times cfg n req tname tbl1
      in (r # rs, tbl2))"

text \<open>The rows of one counter, and the bound every row is to keep.\<close>

definition counter_rows :: "jsstring \<Rightarrow> jsstring \<Rightarrow> usage_table \<Rightarrow> usage_row list" where
  "counter_rows ip tname tbl = filter (\<lambda>r. ipAddress r = ip \<and> tool r = tname) tbl"

text \<open>The count stored for a counter: the sum over its rows.\<close>

definition counted :: "jsstring \<Rightarrow> jsstring \<Rightarrow> usage_table \<Rightarrow> int" where
  "counted ip tname tbl = sum_list (map reportCount (counter_rows ip tname tbl))"

definition within_limit :: "usage_table \<Rightarrow> bool" where
  "within_limit tbl = list_all (\<lambda>r. 0 \<le> reportCount r \<and> reportCount r \<le> 30) tbl"

section \<open>The result the client keeps\<close>

text \<open>
  \<open>handleGenerate\<close>, from the point where the document of \<open>/api/generate\<close> has
  arrived: it renders once, computes the checksum of that exact string, and stores
  \<^verbatim>\<open>
  this.currentResult = {
      id: 'r_' + Date.now(), version: '20241111', payload, roadmap: generated,
      structured: { html, text: this.stripHTML(html) },
      createdAt: new Date().toISOString(), checksum: cs
  };
  \<close>
  The two readings of the clock are parameters. \<open>structured.text\<close> (a DOM parse of
  the HTML) is left out, and \<open>createdAt\<close> is kept as the number of the reading.
\<close>

record current_result =
  res_id :: jsstring
  res_version :: "jsstring option"
  res_payload :: payload
  res_roadmap :: "generated option"
  res_html :: jsstring
  res_createdAt :: int
  res_checksum :: jsstring

definition handleGenerate_result ::
  "int \<Rightarrow> int \<Rightarrow> payload \<Rightarrow> generated option \<Rightarrow> js_error + current_result" where
  "handleGenerate_result now1 now2 payload generated =
     (case renderStructuredHTML (Some payload) generated of
        Inl e \<Rightarrow> Inl e
      | Inr html \<Rightarrow>
          (let cs = checksum html in
           Inr \<lparr>res_id = lit ''r_'' @ show_int now1, res_version = Some (lit ''20241111''),
                res_payload = payload, res_roadmap = generated, res_html = html,
                res_createdAt = now2, res_checksum = cs\<rparr>))"

text \<open>
  \<open>loadCurrentResult\<close>: the cached result (read back from \<open>localStorage\<close>) is
  dropped when its version is not the current one; otherwise its stored HTML, when
  it is not empty, is put into the panel as it is. Returns the result kept and the
  HTML shown.
\<close>

definition loadCurrentResult :: "current_result option \<Rightarrow> current_result option \<times> jsstring option" where
  "loadCurrentResult raw =
     (case raw of
        None \<Rightarrow> (None, None)
      | Some r \<Rightarrow>
          if res_version r \<noteq> Some (lit ''20241111'') then (None, None)
          else if res_html r \<noteq> [] then (Some r, Some (res_html r))
          else (Some r, None))"

text \<open>
  \<open>wrapForPdf(innerHTML, r)\<close>, the wrapper the export puts around the stored HTML;
  \<open>stamp\<close> is \<open>new Date(r.createdAt).toLocaleString()\<close>.
\<close>

definition wrapForPdf :: "jsstring \<Rightarrow> jsstring \<Rightarrow> jsstring" where
  \<open>wrapForPdf stamp innerHTML =
     lit ''\<newline>''
     @ lit ''            <div class="pdf-wrapper">\<newline>''
     @ lit ''                <div class="pdf-header">\<newline>''
     @ lit ''                    <div class="brand">Credit Commander</div>\<newline>''
     @ lit ''                    <div class="tiny">Generated: ''
     @ stamp
     @ lit ''</div>\<newline>''
     @ lit ''                </div>\<newline>''
     @ lit ''                ''
     @ innerHTML
     @ lit ''\<newline>''
     @ lit ''                <div class="footer">\<newline>''
     @ lit ''                    Credit Commander ''
     @ [8226]
     @ lit '' For educational purposes only. Consult a licensed credit professional before taking action.\<newline>''
     @ lit ''                </div>\<newline>''
     @ lit ''            </div>\<newline>''
     @ lit ''        ''\<close>

section \<open>Notions of the statements\<close>

subsection \<open>Reading a checksum back\<close>

text \<open>The value of a hexadecimal digit and of a string of such digits.\<close>

definition hex_value :: "jschar \<Rightarrow> nat" where
  "hex_value c = (if unat c < 58 then unat c - 48 else unat c - 87)"

definition from_hex :: "jsstring \<Rightarrow> nat" where
  "from_hex s = foldl (\<lambda>acc c. 16 * acc + hex_value c) 0 s"

subsection \<open>Paths and responses of the generation handlers\<close>

text \<open>
  The tool a request is charged to: the normalised \<open>req.body.tool\<close>, when the
  normalisation does not throw.
\<close>

definition charged_tool :: "request \<Rightarrow> js_error + jsstring" where
  "charged_tool req = normalizeTool (get_prop (JObj (body req)) (lit ''tool''))"

text \<open>A computation that may throw returns a value.\<close>

definition returns :: "js_error + 'a \<Rightarrow> bool" where
  "returns r = (case r of Inl e \<Rightarrow> False | Inr x \<Rightarrow> True)"

text \<open>
  A request reaches the call of the model when its tool is normalised, the check of
  the limit allows it, its form data pass the validation and the prompt is built
  (and, for the serverless handler, its method is POST).
\<close>

definition reaches_generation :: "environment \<Rightarrow> request \<Rightarrow> usage_table \<Rightarrow> bool" where
  "reaches_generation env req tbl =
     (case charged_tool req of
        Inl e \<Rightarrow> False
      | Inr tname \<Rightarrow>
          allowed (checkUsageLimit (check_up env) req tname tbl)
          \<and> validate_formData (get_prop (JObj (body req)) (lit ''formData'')) = None
          \<and> returns (creditRoadmapPrompt (get_prop (JObj (body req)) (lit ''formData''))))"

definition reaches_generation_vercel :: "environment \<Rightarrow> request \<Rightarrow> usage_table \<Rightarrow> bool" where
  "reaches_generation_vercel env req tbl \<longleftrightarrow>
     http_method req = lit ''POST''
     \<and> allowed (checkUsageLimit_vercel (check_up env) req tbl)
     \<and> validate_formData_vercel (get_prop (JObj (body req)) (lit ''formData'')) = None
     \<and> returns (creditRoadmapPrompt_vercel (get_prop (JObj (body req)) (lit ''formData'')))"

text \<open>
  The quota response of the Express handler, for a tool and a count: the object the
  handler writes at both places where it answers 429 for the quota.
\<close>

definition quota_exceeded :: "jsstring \<Rightarrow> int \<Rightarrow> response" where
  "quota_exceeded tname n = \<lparr>status = 429, json_body = JObj [
     (lit ''error'', JStr (lit ''You have reached your 30-report limit for the ''
        @ (if tname = lit ''creditcommander'' then lit ''Credit Commander'' else lit ''CompliPilot'')
        @ lit '' soft launch. Please upgrade to continue.'')),
     (lit ''limitReached'', JBool True),
     (lit ''count'', JNum n),
     (lit ''limit'', JNum 30),
     (lit ''tool'', JStr tname)]\<rparr>"

text \<open>The quota response of the serverless handler, for a count.\<close>

definition quota_exceeded_vercel :: "int \<Rightarrow> response" where
  "quota_exceeded_vercel n = \<lparr>status = 429, json_body = JObj [
     (lit ''error'', JStr (lit
        ''You have reached your 30-report limit for Credit Commander. Please contact support to continue.'')),
     (lit ''limitReached'', JBool True),
     (lit ''count'', JNum n),
     (lit ''limit'', JNum 30)]\<rparr>"

text \<open>The property names of a JSON object (\<open>Object.keys\<close>).\<close>

definition keys_of :: "jsval \<Rightarrow> jsstring list" where
  "keys_of v = (case v of JObj kvs \<Rightarrow> map fst kvs | _ \<Rightarrow> [])"

text \<open>
  A counter is at the limit when the row a check reads (the first one of the
  counter) holds 30 or more. The rows of the tools other than the two known ones.
\<close>

definition at_limit :: "jsstring \<Rightarrow> jsstring \<Rightarrow> usage_table \<Rightarrow> bool" where
  "at_limit ip tname tbl =
     (case counter_rows ip tname tbl of [] \<Rightarrow> False | r # _ \<Rightarrow> 30 \<le> reportCount r)"

definition other_tools :: "usage_table \<Rightarrow> usage_table" where
  "other_tools tbl = filter (\<lambda>r. tool r \<noteq> lit ''creditcommander'' \<and> tool r \<noteq> lit ''complipilot'') tbl"

subsection \<open>Results of increments one after the other\<close>

definition granted :: "int \<Rightarrow> increment_result" where
  "granted k = \<lparr>success = True, increment_count = k, limitReached = None\<rparr>"

definition refused :: "int \<Rightarrow> increment_result" where
  "refused k = \<lparr>success = False, increment_count = k, limitReached = Some True\<rparr>"

text \<open>What \<open>n\<close> increments report when the counter's one row stands at \<open>k\<close>.\<close>

fun expected_results :: "int \<Rightarrow> nat \<Rightarrow> increment_result list" where
  "expected_results k 0 = []"
| "expected_results k (Suc n) =
     (if k < 30 then granted (k + 1) # expected_results (k + 1) n
      else refused k # expected_results k n)"

subsection \<open>Responses of the report store\<close>

definition not_found :: response where
  "not_found = \<lparr>status = 404, json_body = JObj [(lit ''error'', JStr (lit ''Report not found.''))]\<rparr>"

definition not_deleted :: response where
  "not_deleted = \<lparr>status = 404,
     json_body = JObj [(lit ''error'', JStr (lit ''Report not found or access denied.''))]\<rparr>"

subsection \<open>Values that can be shown\<close>

text \<open>
  A value has a string form when \<open>String\<close> converts it without throwing: every
  string, number, boolean, \<open>null\<close> and \<open>undefined\<close> has one, and so has every
  object and array except an object with an own property \<open>toString\<close> and an
  array that holds one. A payload can be shown when the five values the header
  block shows have string forms (the payload the form collects holds strings and
  numbers), a generated content when its seven narrative values have.
\<close>

definition has_string_form :: "jsval \<Rightarrow> bool" where
  "has_string_form v = returns (toString v)"

definition printable_payload :: "payload \<Rightarrow> bool" where
  "printable_payload p \<longleftrightarrow>
     has_string_form (businessName p) \<and> has_string_form (entityType p)
     \<and> has_string_form (utilization p) \<and> has_string_form (targetLimit p)
     \<and> has_string_form (tone p)"

definition printable_content :: "generated option \<Rightarrow> bool" where
  "printable_content generated =
     (case generated of
        None \<Rightarrow> True
      | Some g \<Rightarrow>
          has_string_form (profileSummary g) \<and> has_string_form (bankingSignals g)
          \<and> has_string_form (quickWins g) \<and> has_string_form (tradeLinesPlan g)
          \<and> has_string_form (cardStrategy g) \<and> has_string_form (actionPlan g)
          \<and> has_string_form (riskFlags g))"

subsection \<open>Generated content without content\<close>

text \<open>
  A narrative field is absent or empty when it is \<open>undefined\<close>, \<open>null\<close>, the empty
  string or the empty array; a recommendation list has no items when it is absent
  (or no array) or empty.
\<close>

definition absent_or_empty :: "jsval \<Rightarrow> bool" where
  "absent_or_empty v \<longleftrightarrow> v = JUndefined \<or> v = JNull \<or> v = JStr [] \<or> v = JArr []"

definition no_items :: "'a list option \<Rightarrow> bool" where
  "no_items l \<longleftrightarrow> l = None \<or> l = Some []"

definition without_content :: "generated option \<Rightarrow> bool" where
  "without_content generated =
     (case generated of
        None \<Rightarrow> True
      | Some g \<Rightarrow>
          absent_or_empty (profileSummary g) \<and> absent_or_empty (quickWins g)
          \<and> absent_or_empty (tradeLinesPlan g) \<and> absent_or_empty (cardStrategy g)
          \<and> absent_or_empty (bankingSignals g) \<and> absent_or_empty (actionPlan g)
          \<and> absent_or_empty (riskFlags g)
          \<and> no_items (vendorRecommendations g) \<and> no_items (cardRecommendations g))"

section \<open>Example inputs\<close>

text \<open>Concrete requests, tables and documents, used where a statement is run on an input.\<close>

definition example_config :: config where
  "example_config = \<lparr>unique_key = True, default_tool = lit ''creditcommander'', production = True\<rparr>"

definition example_request :: request where
  "example_request = \<lparr>http_method = lit ''POST'', x_forwarded_for = One (lit ''10.0.0.1, 10.0.0.2''),
     x_real_ip = NoHeader, remoteAddress = None, x_client_id = Some (lit ''alice''),
     body = [(lit ''tool'', JStr (lit ''CompliPilot '')),
             (lit ''formData'', JObj [
                (lit ''businessName'', JStr (lit ''Acme'')), (lit ''ein'', JStr (lit ''12'')),
                (lit ''entityType'', JStr (lit ''LLC'')), (lit ''state'', JStr (lit ''CA'')),
                (lit ''startDate'', JStr (lit ''2020'')), (lit ''utilization'', JNum 45),
                (lit ''tradeLines'', JNum 2), (lit ''annualRevenue'', JStr (lit ''100000'')),
                (lit ''latePayments'', JNum 0), (lit ''ownerFico'', JNum 700),
                (lit ''creditHistory'', JNum 5), (lit ''fundingGoal'', JStr (lit ''growth'')),
                (lit ''targetLimit'', JStr (lit ''50000'')), (lit ''timeframe'', JStr (lit ''90 days''))])],
     param_id = lit ''r1'', query_toolkit = Some (lit ''creditcommander'')\<rparr>"

text \<open>
  The same request with a tool that is a JSON object with a property named
  \<open>toString\<close>: the body \<^verbatim>\<open>{"tool": {"toString": 1}, "formData": {...}}\<close>.
\<close>

definition example_request_odd_tool :: request where
  "example_request_odd_tool = example_request\<lparr>body :=
     [(lit ''tool'', JObj [(lit ''toString'', JNum 1)]),
      (lit ''formData'', get_prop (JObj (body example_request)) (lit ''formData''))]\<rparr>"

definition example_row :: "int \<Rightarrow> usage_row" where
  "example_row n = \<lparr>ipAddress = lit ''10.0.0.1'', tool = lit ''complipilot'', reportCount = n\<rparr>"

definition example_env :: environment where
  "example_env = \<lparr>check_up = True, generation = Inr (JObj []), interference = (\<lambda>tbl. tbl),
     increment_ups = (True, True, True)\<rparr>"

definition example_full_table :: usage_table where
  "example_full_table =
     [\<lparr>ipAddress = lit ''10.0.0.1'', tool = lit ''creditcommander'', reportCount = 30\<rparr>,
      example_row 30]"

definition example_failing_env :: environment where
  "example_failing_env = \<lparr>check_up = True,
     generation = Inl \<lparr>err_code = Some (lit ''insufficient_quota''), err_status = Some 429,
       err_message = lit ''You exceeded your current quota''\<rparr>,
     interference = (\<lambda>tbl. tbl), increment_ups = (True, True, True)\<rparr>"

text \<open>
  A lost race: the counter stands at 29 when the request is checked, and another
  request takes the last report while the model is awaited.
\<close>

definition example_race_env :: environment where
  "example_race_env = \<lparr>check_up = True, generation = Inr (JObj []),
     interference = (\<lambda>tbl. [example_row 30]), increment_ups = (True, True, True)\<rparr>"

definition example_report_data :: report where
  "example_report_data = \<lparr>rep_id = [], rep_userId = lit ''anon_mallory'', rep_ownerId = lit ''mallory'',
     rep_toolkitCode = lit ''creditcommander'', rep_name = lit ''Roadmap'',
     rep_htmlContent = lit ''<p>a</p>'', rep_checksum = lit ''0b87d4f5'', rep_metadata = lit ''{}'',
     rep_createdAt = 0\<rparr>"

definition example_saved_report :: report where
  "example_saved_report = \<lparr>rep_id = lit ''r1'', rep_userId = lit ''anon_alice'', rep_ownerId = [],
     rep_toolkitCode = lit ''creditcommander'', rep_name = lit ''Roadmap'',
     rep_htmlContent = lit ''<p>a</p>'', rep_checksum = lit ''0b87d4f5'', rep_metadata = lit ''{}'',
     rep_createdAt = 1700000000000\<rparr>"

definition example_request_bob :: request where
  "example_request_bob = example_request\<lparr>x_client_id := Some (lit ''bob'')\<rparr>"

definition example_payload :: payload where
  "example_payload = \<lparr>businessName = JStr (lit ''Acme & Sons''), entityType = JStr (lit ''LLC''),
     utilization = JNum 45, targetLimit = JStr [], tone = JUndefined\<rparr>"

definition uline :: vendor where
  "uline = \<lparr>v_name = Some (lit ''Uline''), v_tier = Some (lit ''Starter''), v_minFico = None,
     v_reportsBureaus = Some [lit ''Experian''], v_reason = None, v_approvalOdds = Some (lit ''High'')\<rparr>"

definition quill :: vendor where
  "quill = \<lparr>v_name = Some (lit ''Quill''), v_tier = Some (lit ''Starter''), v_minFico = None,
     v_reportsBureaus = None, v_reason = None, v_approvalOdds = Some (lit ''Medium'')\<rparr>"

definition amex :: card where
  "amex = \<lparr>c_name = Some (lit ''Amex Blue''), c_issuer = Some (lit ''Amex''), c_minFico = Some 670,
     c_expectedLimit = None, c_reason = None, c_approvalOdds = Some (lit ''High''),
     c_applyOrder = Some 1\<rparr>"

definition chase :: card where
  "chase = \<lparr>c_name = Some (lit ''Chase Ink''), c_issuer = Some (lit ''Chase''), c_minFico = Some 700,
     c_expectedLimit = None, c_reason = None, c_approvalOdds = Some (lit ''Medium''),
     c_applyOrder = Some 2\<rparr>"

definition spark :: card where
  "spark = \<lparr>c_name = Some (lit ''Spark One''), c_issuer = Some (lit ''Capital One''),
     c_minFico = Some 690, c_expectedLimit = None, c_reason = None,
     c_approvalOdds = Some (lit ''Medium''), c_applyOrder = Some 1\<rparr>"

text \<open>
  Two calls of \<open>incrementUsage\<close> for the same client and tool that run abreast:
  both update, then both select, then both insert.
\<close>

definition abreast :: "event list" where
  "abreast = [Step 0 True, Step 1 True, Step 0 True, Step 1 True, Step 0 True, Step 1 True]"

definition two_calls :: "call list" where
  "two_calls = [start_call example_request (Some (lit ''complipilot'')),
                start_call example_request (Some (lit ''complipilot''))]"

section \<open>Evaluation lemmas\<close>

lemma lit_Nil [simp]: "lit [] = []"
  by (simp add: lit_def)

lemma length_lit [simp]: "length (lit s) = length s"
  by (simp add: lit_def)

lemma lit_eq_Nil [simp]: "lit s = [] \<longleftrightarrow> s = []"
  by (simp add: lit_def)

lemma lit_eq_iff [simp]: "lit a = lit b \<longleftrightarrow> a = b"
proof
  assume "lit a = lit b"
  then have "map (\<lambda>c. (of_nat (of_char c) :: jschar)) a = map (\<lambda>c. of_nat (of_char c)) b"
    by (simp add: lit_def)
  moreover have "inj (\<lambda>c :: char. (of_nat (of_char c) :: jschar))"
  proof (rule injI)
    fix x y :: char
    assume "(of_nat (of_char x) :: jschar) = of_nat (of_char y)"
    then have "unat (of_nat (of_char x) :: jschar) = unat (of_nat (of_char y) :: jschar)"
      by simp
    moreover have "(of_char x :: nat) < 2 ^ 16"
      by (rule less_trans [OF nat_of_char_less_256]) simp
    moreover have "(of_char y :: nat) < 2 ^ 16"
      by (rule less_trans [OF nat_of_char_less_256]) simp
    ultimately have "(of_char x :: nat) = of_char y"
      by (simp add: unat_of_nat)
    then show "x = y" by simp
  qed
  ultimately show "a = b"
    by (simp add: inj_map_eq_map)
next
  assume "a = b"
  then show "lit a = lit b" by simp
qed

declare get_prop.simps [simp del]

lemma example_ip: "getClientIp example_request = lit ''10.0.0.1''"
  by (simp add: getClientIp_def example_request_def split_comma_first_def trim_def is_space_def lit_def)

lemma example_ip_known: "getClientIp example_request \<noteq> lit ''unknown''"
  by (simp add: example_ip)

section \<open>Properties of the checksum\<close>

lemma hex_value_hex_digit: "d < 16 \<Longrightarrow> hex_value (hex_digit d) = d"
proof -
  assume d: "d < 16"
  then have "unat (of_nat (48 + d) :: jschar) = 48 + d" "unat (of_nat (87 + d) :: jschar) = 87 + d"
    by (simp_all add: unat_of_nat del: of_nat_add)
  then show ?thesis
    by (simp add: hex_value_def hex_digit_def del: of_nat_add)
qed

lemma from_hex_snoc: "from_hex (s @ [c]) = 16 * from_hex s + hex_value c"
  by (simp add: from_hex_def)

lemma from_hex_toString16: "from_hex (toString16 n) = n"
proof (induction n rule: toString16.induct)
  case (1 n)
  show ?case
  proof (cases "n < 16")
    case True
    then show ?thesis
      by (simp add: from_hex_def hex_value_hex_digit)
  next
    case False
    then have "from_hex (toString16 n) = 16 * (n div 16) + n mod 16"
      using 1 by (simp add: from_hex_snoc hex_value_hex_digit del: toString16.simps
          add: toString16.simps [of n])
    then show ?thesis by simp
  qed
qed

lemma from_hex_zeros: "from_hex (replicate k (hex_digit 0) @ s) = from_hex s"
proof (induction k)
  case 0
  show ?case by simp
next
  case (Suc k)
  have "from_hex (hex_digit 0 # replicate k (hex_digit 0) @ s)
      = foldl (\<lambda>acc c. 16 * acc + hex_value c) (16 * 0 + hex_value (hex_digit 0))
          (replicate k (hex_digit 0) @ s)"
    by (simp add: from_hex_def)
  also have "\<dots> = from_hex (replicate k (hex_digit 0) @ s)"
    by (simp add: from_hex_def hex_value_hex_digit)
  finally show ?case using Suc by simp
qed

lemma lit_zeros: "lit ''00000000'' = replicate 8 (hex_digit 0)"
  by (simp add: lit_def hex_digit_def numeral_eq_Suc)

lemma length_toString16: "0 < k \<Longrightarrow> n < 16 ^ k \<Longrightarrow> length (toString16 n) \<le> k"
proof (induction k arbitrary: n)
  case 0
  then show ?case by simp
next
  case (Suc k)
  show ?case
  proof (cases "n < 16")
    case True
    then show ?thesis by simp
  next
    case False
    with Suc.prems have k: "0 < k" by (cases k) auto
    from Suc.prems have "n div 16 < 16 ^ k"
      by (simp add: less_mult_imp_div_less mult.commute)
    with Suc.IH k have "length (toString16 (n div 16)) \<le> k" by blast
    with False show ?thesis
      by (simp del: toString16.simps add: toString16.simps [of n])
  qed
qed

lemma from_hex_slice_last:
  "length s \<le> 8 \<Longrightarrow> from_hex (slice_last 8 (lit ''00000000'' @ s)) = from_hex s"
proof -
  assume "length s \<le> 8"
  then have "slice_last 8 (lit ''00000000'' @ s) = replicate (8 - length s) (hex_digit 0) @ s"
    by (simp add: slice_last_def lit_zeros)
  then show ?thesis by (simp add: from_hex_zeros)
qed

lemma from_hex_checksum: "from_hex (checksum str) = unat (checksum_loop 5381 str)"
proof -
  have "unat (checksum_loop 5381 str) < 16 ^ 8"
    using unsigned_less [of "checksum_loop 5381 str"] by simp
  then have "length (toString16 (unat (checksum_loop 5381 str))) \<le> 8"
    by (rule length_toString16 [rotated]) simp
  then show ?thesis
    by (simp add: checksum_def from_hex_slice_last from_hex_toString16 del: toString16.simps)
qed

lemma mult33_inj: "33 * h = 33 * h' \<Longrightarrow> h = (h' :: 32 word)"
proof -
  assume a: "33 * h = 33 * h'"
  have inv: "(1041204193 :: 32 word) * 33 = 1"
    by simp
  have "h = (1041204193 * 33) * h"
    by (simp only: inv mult_1)
  also have "\<dots> = 1041204193 * (33 * h)"
    by (simp only: mult.assoc)
  also have "\<dots> = 1041204193 * (33 * h')"
    by (simp only: a)
  also have "\<dots> = (1041204193 * 33) * h'"
    by (simp only: mult.assoc)
  also have "\<dots> = h'"
    by (simp only: inv mult_1)
  finally show ?thesis .
qed

lemma checksum_round_inj:
  "(push_bit 5 h + h) XOR ucast (c :: jschar) = (push_bit 5 h' + h') XOR ucast c \<Longrightarrow> h = (h' :: 32 word)"
proof -
  assume "(push_bit 5 h + h) XOR ucast c = (push_bit 5 h' + h') XOR ucast c"
  then have "push_bit 5 h + h = push_bit 5 h' + h'"
    by (metis bit.xor_left_self word_bw_comms(3))
  then have "33 * h = 33 * h'"
    by (simp add: push_bit_eq_mult)
  then show "h = h'"
    by (rule mult33_inj)
qed

lemma checksum_loop_inj: "checksum_loop h str = checksum_loop h' str \<Longrightarrow> h = h'"
proof (induction str arbitrary: h h')
  case Nil
  then show ?case by simp
next
  case (Cons c str)
  from Cons.prems have "(push_bit 5 h + h) XOR ucast c = (push_bit 5 h' + h') XOR ucast c"
    by (auto dest: Cons.IH)
  then show ?case by (rule checksum_round_inj)
qed

lemma checksum_loop_append:
  "checksum_loop h (xs @ ys) = checksum_loop (checksum_loop h xs) ys"
  by (induction xs arbitrary: h) simp_all

lemma ucast_jschar_id: "(ucast (ucast (c :: jschar) :: 32 word) :: jschar) = c"
  by (rule ucast_up_ucast_id) (simp add: is_up)

lemma ucast_jschar_inj: "(ucast (c :: jschar) :: 32 word) = ucast d \<Longrightarrow> c = d"
  by (metis ucast_jschar_id)

text \<open>
  C5. Replacing the character at one position of a string by a different character
  changes the checksum digest of the string.
\<close>

theorem checksum_single_char_sensitive:
  assumes "i < length s" and "c \<noteq> s ! i"
  shows "checksum (s[i := c]) \<noteq> checksum s"
proof
  assume eq: "checksum (s[i := c]) = checksum s"
  let ?h = "checksum_loop 5381 (take i s)"
  have upd: "s[i := c] = take i s @ c # drop (Suc i) s"
    using assms(1) by (rule upd_conv_take_nth_drop)
  have orig: "s = take i s @ s ! i # drop (Suc i) s"
    using assms(1) by (rule id_take_nth_drop)
  from eq have "unat (checksum_loop 5381 (s[i := c])) = unat (checksum_loop 5381 s)"
    by (simp only: from_hex_checksum [symmetric])
  then have "checksum_loop 5381 (s[i := c]) = checksum_loop 5381 s"
    by (rule unsigned_word_eqI)
  then have "checksum_loop 5381 (take i s @ c # drop (Suc i) s)
      = checksum_loop 5381 (take i s @ s ! i # drop (Suc i) s)"
    using upd orig by simp
  then have "checksum_loop ((push_bit 5 ?h + ?h) XOR ucast c) (drop (Suc i) s)
      = checksum_loop ((push_bit 5 ?h + ?h) XOR ucast (s ! i)) (drop (Suc i) s)"
    by (simp add: checksum_loop_append)
  then have "(push_bit 5 ?h + ?h) XOR ucast c = (push_bit 5 ?h + ?h) XOR ucast (s ! i)"
    by (rule checksum_loop_inj)
  then have "(ucast c :: 32 word) = ucast (s ! i)"
    by (metis bit.xor_left_self)
  then have "c = s ! i"
    by (rule ucast_jschar_inj)
  with assms(2) show False by simp
qed

theorem checksum_single_char_sensitive_witness:
  "(3::nat) < length (lit ''<p>a</p>'') \<and> (98 :: jschar) \<noteq> lit ''<p>a</p>'' ! 3
   \<and> checksum ((lit ''<p>a</p>'')[3 := 98]) \<noteq> checksum (lit ''<p>a</p>'')"
proof -
  have a: "(3::nat) < length (lit ''<p>a</p>'')" by (simp add: lit_def)
  have b: "(98 :: jschar) \<noteq> lit ''<p>a</p>'' ! 3" by (simp add: lit_def)
  from checksum_single_char_sensitive [OF a b] a b show ?thesis by blast
qed

section \<open>Store errors: the check fails open, the increment fails closed\<close>

lemma map_if_filter_Nil:
  "filter P xs = [] \<Longrightarrow> map (\<lambda>r. if P r then f r else r) xs = xs"
  by (induction xs) (auto split: if_splits)

lemma checkUsageLimit_store_down:
  "getClientIp req \<noteq> lit ''unknown'' \<Longrightarrow>
   checkUsageLimit False req tname tbl = \<lparr>allowed = True, check_count = 0\<rparr>"
  by (simp add: checkUsageLimit_def checkUsageLimit_try_def db_select_limit1_def Let_def)

lemma incrementUsage_throw:
  "fst (incrementUsage_try cfg ups req tname tbl) = Inl e \<Longrightarrow>
   incrementUsage cfg ups req tname tbl = (failed_closed, tbl)"
  by (cases ups)
    (auto simp: incrementUsage_def incrementUsage_try_def failed_closed_def Let_def
      db_update_increment_def db_select_limit1_def db_insert_def map_if_filter_Nil
      split: if_splits prod.splits sum.splits list.splits)

lemma counted_update:
  "counted ip tname (map (\<lambda>r. if ipAddress r = ip \<and> tool r = tname \<and> reportCount r < 30
       then increment_row r else r) tbl)
   = counted ip tname tbl
     + int (length (filter (\<lambda>r. ipAddress r = ip \<and> tool r = tname \<and> reportCount r < 30) tbl))"
  by (induction tbl) (auto simp: counted_def counter_rows_def increment_row_def)

lemma incrementUsage_success_counted:
  assumes "success (fst (incrementUsage cfg ups req tname tbl))"
  shows "counted (getClientIp req) tname tbl
         < counted (getClientIp req) tname (snd (incrementUsage cfg ups req tname tbl))"
proof -
  obtain up1 up2 up3 where ups: "ups = (up1, up2, up3)"
    by (cases ups) auto
  let ?ip = "getClientIp req"
  let ?P = "\<lambda>r. ipAddress r = ?ip \<and> tool r = tname \<and> reportCount r < 30"
  show ?thesis
  proof (cases "filter ?P tbl")
    case Nil
    with assms ups show ?thesis
      by (auto simp: incrementUsage_def incrementUsage_try_def Let_def map_if_filter_Nil
          db_update_increment_def db_select_limit1_def db_insert_def counted_def counter_rows_def
          split: if_splits prod.splits sum.splits list.splits)
  next
    case (Cons u us)
    then have "0 < int (length (filter ?P tbl))" by simp
    with assms ups Cons show ?thesis
      using counted_update [of ?ip tname tbl]
      by (auto simp: incrementUsage_def incrementUsage_try_def Let_def
          db_update_increment_def
          split: if_splits prod.splits sum.splits list.splits)
  qed
qed

lemma incrementUsage_update_down:
  "getClientIp req \<noteq> lit ''unknown'' \<Longrightarrow>
   incrementUsage cfg (False, up2, up3) req tname tbl = (failed_closed, tbl)"
  by (simp add: incrementUsage_def incrementUsage_try_def Let_def db_update_increment_def
      failed_closed_def)

lemma incrementUsage_select_down:
  assumes "getClientIp req \<noteq> lit ''unknown''"
    and "filter (\<lambda>r. ipAddress r = getClientIp req \<and> tool r = tname \<and> reportCount r < 30) tbl = []"
  shows "incrementUsage cfg (True, False, up3) req tname tbl = (failed_closed, tbl)"
  using assms
  by (simp add: incrementUsage_def incrementUsage_try_def Let_def db_update_increment_def
      db_select_limit1_def failed_closed_def map_if_filter_Nil)

lemma incrementUsage_insert_down:
  assumes "getClientIp req \<noteq> lit ''unknown''"
    and "counter_rows (getClientIp req) tname tbl = []"
  shows "incrementUsage cfg (True, True, False) req tname tbl = (failed_closed, tbl)"
proof -
  from assms(2) have none: "filter (\<lambda>r. ipAddress r = getClientIp req \<and> tool r = tname) tbl = []"
    by (simp add: counter_rows_def)
  then have "filter (\<lambda>r. ipAddress r = getClientIp req \<and> tool r = tname \<and> reportCount r < 30) tbl = []"
    by (induction tbl) (auto split: if_splits)
  with none assms(1) show ?thesis
    by (simp add: incrementUsage_def incrementUsage_try_def Let_def db_update_increment_def
        db_select_limit1_def db_insert_def failed_closed_def map_if_filter_Nil)
qed

text \<open>
  C9. When the store throws, the check allows the request with count 0, and the
  increment reports \<open>success = false\<close> with \<open>limitReached = true\<close> and leaves the
  table as it was: with the store unreachable at the update, at the selection (no
  row below the limit to update) or at the insertion (no row of the counter at all),
  and whenever the body of its \<open>try\<close> block throws. An increment that reports
  success has raised the count stored for the counter.
\<close>

theorem store_error_open_on_check_closed_on_increment:
  assumes "getClientIp req \<noteq> lit ''unknown''"
  shows "checkUsageLimit False req tname tbl = \<lparr>allowed = True, check_count = 0\<rparr>
    \<and> incrementUsage cfg (False, up2, up3) req tname tbl
        = (\<lparr>success = False, increment_count = 0, limitReached = Some True\<rparr>, tbl)
    \<and> (filter (\<lambda>r. ipAddress r = getClientIp req \<and> tool r = tname \<and> reportCount r < 30) tbl = []
        \<longrightarrow> incrementUsage cfg (True, False, up3) req tname tbl
        = (\<lparr>success = False, increment_count = 0, limitReached = Some True\<rparr>, tbl))
    \<and> (counter_rows (getClientIp req) tname tbl = []
        \<longrightarrow> incrementUsage cfg (True, True, False) req tname tbl
        = (\<lparr>success = False, increment_count = 0, limitReached = Some True\<rparr>, tbl))
    \<and> (fst (incrementUsage_try cfg ups req tname tbl) = Inl e
        \<longrightarrow> incrementUsage cfg ups req tname tbl
        = (\<lparr>success = False, increment_count = 0, limitReached = Some True\<rparr>, tbl))
    \<and> (success (fst (incrementUsage cfg ups req tname tbl))
        \<longrightarrow> counted (getClientIp req) tname tbl
           < counted (getClientIp req) tname (snd (incrementUsage cfg ups req tname tbl)))"
  using assms checkUsageLimit_store_down [OF assms, of tname tbl]
    incrementUsage_update_down [OF assms, of cfg up2 up3 tname tbl]
    incrementUsage_select_down [OF assms, of tname tbl cfg up3]
    incrementUsage_insert_down [OF assms, of tname tbl cfg]
    incrementUsage_throw [of cfg ups req tname tbl e]
    incrementUsage_success_counted [of cfg ups req tname tbl]
  by (simp add: failed_closed_def)

theorem store_error_open_on_check_closed_on_increment_witness:
  "getClientIp example_request \<noteq> lit ''unknown''
   \<and> checkUsageLimit False example_request (lit ''complipilot'') [example_row 3]
       = \<lparr>allowed = True, check_count = 0\<rparr>
   \<and> incrementUsage example_config (False, True, True) example_request (lit ''complipilot'') [example_row 3]
       = (\<lparr>success = False, increment_count = 0, limitReached = Some True\<rparr>, [example_row 3])
   \<and> incrementUsage example_config (True, False, True) example_request (lit ''complipilot'') [example_row 30]
       = (\<lparr>success = False, increment_count = 0, limitReached = Some True\<rparr>, [example_row 30])
   \<and> incrementUsage example_config (True, True, False) example_request (lit ''complipilot'') []
       = (\<lparr>success = False, increment_count = 0, limitReached = Some True\<rparr>, [])
   \<and> success (fst (incrementUsage example_config (True, True, True) example_request (lit ''complipilot'') [example_row 3]))
   \<and> counted (getClientIp example_request) (lit ''complipilot'') [example_row 3]
       < counted (getClientIp example_request) (lit ''complipilot'')
           (snd (incrementUsage example_config (True, True, True) example_request (lit ''complipilot'') [example_row 3]))"
proof -
  note ip = example_ip_known
  have s: "success (fst (incrementUsage example_config (True, True, True) example_request
      (lit ''complipilot'') [example_row 3]))"
    by (simp add: incrementUsage_def incrementUsage_try_def Let_def db_update_increment_def
        example_ip example_row_def increment_row_def)
  have a: "filter (\<lambda>r. ipAddress r = getClientIp example_request \<and> tool r = lit ''complipilot''
      \<and> reportCount r < 30) [example_row 30] = []"
    by (simp add: example_row_def)
  have b: "counter_rows (getClientIp example_request) (lit ''complipilot'') [] = []"
    by (simp add: counter_rows_def)
  from store_error_open_on_check_closed_on_increment [OF ip,
      of "lit ''complipilot''" "[example_row 3]" example_config True True
        "(True, True, True)" StoreError]
    store_error_open_on_check_closed_on_increment [OF ip,
      of "lit ''complipilot''" "[example_row 30]" example_config True True
        "(True, True, True)" StoreError]
    store_error_open_on_check_closed_on_increment [OF ip,
      of "lit ''complipilot''" "[]" example_config True True
        "(True, True, True)" StoreError]
    ip s a b
  show ?thesis by blast
qed

section \<open>The paths through the generation handlers\<close>

lemma returns_iff: "returns r \<longleftrightarrow> (\<exists>x. r = Inr x)"
  by (cases r) (simp_all add: returns_def)

lemma and_then_Inr [simp]: "and_then (Inr x) f = f x"
  by (simp add: and_then_def)

lemma and_then_Inl [simp]: "and_then (Inl e) f = Inl e"
  by (simp add: and_then_def)

lemma thrown_of_TypeError: "thrown_of e = conversion_error"
  by (cases e) (simp add: thrown_of_def)

lemma reaches_generation_iff:
  "reaches_generation env req tbl \<longleftrightarrow>
     (\<exists>tname. charged_tool req = Inr tname
        \<and> allowed (checkUsageLimit (check_up env) req tname tbl)
        \<and> validate_formData (get_prop (JObj (body req)) (lit ''formData'')) = None
        \<and> returns (creditRoadmapPrompt (get_prop (JObj (body req)) (lit ''formData''))))"
  by (cases "charged_tool req") (simp_all add: reaches_generation_def)

lemma convert_all_member:
  "convert_all vs = Inr ss \<Longrightarrow> v \<in> set vs \<Longrightarrow> returns (toString v)"
proof (induction vs arbitrary: ss)
  case Nil
  then show ?case by simp
next
  case (Cons a vs)
  then show ?case
    by (auto simp: returns_iff split: sum.splits)
qed

lemma creditRoadmapPrompt_fields:
  assumes "returns (creditRoadmapPrompt formData)"
  shows "returns (toString (get_prop formData (lit ''businessName'')))"
    and "returns (toString (get_prop formData (lit ''timeframe'')))"
proof -
  from assms obtain ss where "convert_all (prompt_holes formData) = Inr ss"
    by (auto simp: returns_iff creditRoadmapPrompt_def)
  then show "returns (toString (get_prop formData (lit ''businessName'')))"
    and "returns (toString (get_prop formData (lit ''timeframe'')))"
    by (rule convert_all_member, simp add: prompt_holes_def Let_def)+
qed

lemma roadmap_response_returns:
  "returns (creditRoadmapPrompt formData) \<Longrightarrow> returns (roadmap_response formData ai)"
  using creditRoadmapPrompt_fields [of formData]
  by (auto simp: returns_iff roadmap_response_def Let_def)

lemma generate_handler_throws:
  "charged_tool req = Inl e \<Longrightarrow> generate_handler cfg env req tbl = (Inl conversion_error, tbl)"
  by (simp add: generate_handler_def charged_tool_def thrown_of_TypeError)

lemma generate_handler_blocked:
  "charged_tool req = Inr tname \<Longrightarrow>
   \<not> allowed (checkUsageLimit (check_up env) req tname tbl) \<Longrightarrow>
   generate_handler cfg env req tbl
   = (Inr (quota_exceeded tname (check_count (checkUsageLimit (check_up env) req tname tbl))), tbl)"
  by (simp add: generate_handler_def Let_def quota_exceeded_def charged_tool_def)

lemma generate_handler_invalid:
  "charged_tool req = Inr tname \<Longrightarrow>
   allowed (checkUsageLimit (check_up env) req tname tbl) \<Longrightarrow>
   validate_formData (get_prop (JObj (body req)) (lit ''formData'')) = Some bad \<Longrightarrow>
   generate_handler cfg env req tbl = (Inr bad, tbl)"
  by (simp add: generate_handler_def Let_def charged_tool_def)

lemma generate_handler_prompt_throws:
  "charged_tool req = Inr tname \<Longrightarrow>
   allowed (checkUsageLimit (check_up env) req tname tbl) \<Longrightarrow>
   validate_formData (get_prop (JObj (body req)) (lit ''formData'')) = None \<Longrightarrow>
   \<not> returns (creditRoadmapPrompt (get_prop (JObj (body req)) (lit ''formData''))) \<Longrightarrow>
   generate_handler cfg env req tbl = (Inr (generate_catch conversion_error), tbl)"
  by (simp add: generate_handler_def Let_def charged_tool_def returns_def thrown_of_TypeError
      split: sum.splits)

lemma generate_handler_generation_throws:
  "reaches_generation env req tbl \<Longrightarrow> generation env = Inl e \<Longrightarrow>
   generate_handler cfg env req tbl = (Inr (generate_catch e), interference env tbl)"
  by (auto simp: generate_handler_def Let_def charged_tool_def reaches_generation_iff returns_iff)

lemma generate_handler_null_document:
  "reaches_generation env req tbl \<Longrightarrow> generation env = Inr JNull \<Longrightarrow>
   generate_handler cfg env req tbl = (Inr (generate_catch type_error), interference env tbl)"
  by (auto simp: generate_handler_def Let_def charged_tool_def reaches_generation_iff returns_iff)

lemma generate_handler_generated:
  assumes "reaches_generation env req tbl" and "charged_tool req = Inr tname"
    and "generation env = Inr ai" and "ai \<noteq> JNull"
  shows "\<exists>response.
     roadmap_response (get_prop (JObj (body req)) (lit ''formData'')) ai = Inr response
     \<and> generate_handler cfg env req tbl
        = (let inc = incrementUsage cfg (increment_ups env) req tname (interference env tbl)
           in if \<not> success (fst inc) \<and> limitReached (fst inc) = Some True
              then (Inr (quota_exceeded tname (increment_count (fst inc))), snd inc)
              else (Inr \<lparr>status = 200, json_body = response\<rparr>, snd inc))"
proof -
  from assms(1, 2) have ok: "allowed (checkUsageLimit (check_up env) req tname tbl)"
    "validate_formData (get_prop (JObj (body req)) (lit ''formData'')) = None"
    and prompt: "returns (creditRoadmapPrompt (get_prop (JObj (body req)) (lit ''formData'')))"
    by (auto simp: reaches_generation_iff)
  from prompt obtain ss response where
    "creditRoadmapPrompt (get_prop (JObj (body req)) (lit ''formData'')) = Inr ss"
    "roadmap_response (get_prop (JObj (body req)) (lit ''formData'')) ai = Inr response"
    using roadmap_response_returns [of "get_prop (JObj (body req)) (lit ''formData'')" ai]
    by (auto simp: returns_iff)
  with assms ok show ?thesis
    by (simp add: generate_handler_def Let_def charged_tool_def quota_exceeded_def
        case_prod_unfold)
qed

lemma generate_handler_vercel_options:
  "http_method req = lit ''OPTIONS'' \<Longrightarrow>
   generate_handler_vercel cfg env req tbl = (\<lparr>status = 200, json_body = JUndefined\<rparr>, tbl)"
  by (simp add: generate_handler_vercel_def)

lemma generate_handler_vercel_method:
  "http_method req \<noteq> lit ''OPTIONS'' \<Longrightarrow> http_method req \<noteq> lit ''POST'' \<Longrightarrow>
   generate_handler_vercel cfg env req tbl
   = (\<lparr>status = 405, json_body = JObj [(lit ''error'', JStr (lit ''Method not allowed''))]\<rparr>, tbl)"
  by (simp add: generate_handler_vercel_def)

lemma generate_handler_vercel_blocked:
  "http_method req = lit ''POST'' \<Longrightarrow>
   \<not> allowed (checkUsageLimit_vercel (check_up env) req tbl) \<Longrightarrow>
   generate_handler_vercel cfg env req tbl
   = (quota_exceeded_vercel (check_count (checkUsageLimit_vercel (check_up env) req tbl)), tbl)"
  by (simp add: generate_handler_vercel_def Let_def quota_exceeded_vercel_def)

lemma generate_handler_vercel_invalid:
  "http_method req = lit ''POST'' \<Longrightarrow>
   allowed (checkUsageLimit_vercel (check_up env) req tbl) \<Longrightarrow>
   validate_formData_vercel (get_prop (JObj (body req)) (lit ''formData'')) = Some bad \<Longrightarrow>
   generate_handler_vercel cfg env req tbl = (bad, tbl)"
  by (simp add: generate_handler_vercel_def Let_def)

lemma generate_handler_vercel_prompt_throws:
  "http_method req = lit ''POST'' \<Longrightarrow>
   allowed (checkUsageLimit_vercel (check_up env) req tbl) \<Longrightarrow>
   validate_formData_vercel (get_prop (JObj (body req)) (lit ''formData'')) = None \<Longrightarrow>
   \<not> returns (creditRoadmapPrompt_vercel (get_prop (JObj (body req)) (lit ''formData''))) \<Longrightarrow>
   generate_handler_vercel cfg env req tbl = (handler_catch_vercel cfg conversion_error, tbl)"
  by (simp add: generate_handler_vercel_def Let_def returns_def thrown_of_TypeError
      split: sum.splits)

lemma generate_handler_vercel_generation_throws:
  "reaches_generation_vercel env req tbl \<Longrightarrow> generation env = Inl e \<Longrightarrow>
   generate_handler_vercel cfg env req tbl = (generate_catch_vercel cfg e, interference env tbl)"
  by (auto simp: generate_handler_vercel_def Let_def reaches_generation_vercel_def returns_iff)

lemma generate_handler_vercel_null_document:
  "reaches_generation_vercel env req tbl \<Longrightarrow> generation env = Inr JNull \<Longrightarrow>
   generate_handler_vercel cfg env req tbl
   = (generate_catch_vercel cfg type_error, interference env tbl)"
  by (auto simp: generate_handler_vercel_def Let_def reaches_generation_vercel_def returns_iff)

lemma generate_handler_vercel_generated:
  assumes "reaches_generation_vercel env req tbl" and "generation env = Inr ai" and "ai \<noteq> JNull"
  shows "generate_handler_vercel cfg env req tbl
   = (let inc = incrementUsage_vercel cfg (increment_ups env) req (interference env tbl)
      in if \<not> success (fst inc) \<and> limitReached (fst inc) = Some True
         then (quota_exceeded_vercel (increment_count (fst inc)), snd inc)
         else (\<lparr>status = 200, json_body = roadmap_response_vercel ai\<rparr>, snd inc))"
  using assms
  by (auto simp: generate_handler_vercel_def Let_def reaches_generation_vercel_def
      quota_exceeded_vercel_def case_prod_unfold returns_iff)

lemma example_charged_tool: "charged_tool example_request = Inr (lit ''complipilot'')"
  by (simp add: charged_tool_def example_request_def normalizeTool_def Let_def js_or_def
      toLowerCase_def lower_char_def trim_def is_space_def lit_def get_prop.simps)

lemma example_prompt:
  "returns (creditRoadmapPrompt (get_prop (JObj (body example_request)) (lit ''formData'')))"
  by (simp add: example_request_def creditRoadmapPrompt_def prompt_holes_def Let_def
      get_prop.simps js_or_def returns_def)

lemma example_prompt_vercel:
  "returns (creditRoadmapPrompt_vercel (get_prop (JObj (body example_request)) (lit ''formData'')))"
  by (simp add: example_request_def creditRoadmapPrompt_vercel_def prompt_holes_vercel_def Let_def
      get_prop.simps js_or_def returns_def)

lemma example_valid:
  "validate_formData (get_prop (JObj (body example_request)) (lit ''formData'')) = None"
  by (simp add: example_request_def validate_formData_def Let_def get_prop.simps)

lemma example_check:
  "checkUsageLimit True example_request (lit ''complipilot'') [example_row n]
   = \<lparr>allowed = n < 30, check_count = n\<rparr>"
  by (simp add: checkUsageLimit_def checkUsageLimit_try_def db_select_limit1_def Let_def
      example_ip example_row_def)

lemma example_reaches: "reaches_generation example_env example_request [example_row 3]"
  by (simp add: reaches_generation_def example_charged_tool example_valid example_check
      example_env_def example_prompt)

lemma example_increment:
  "n < 30 \<Longrightarrow> incrementUsage cfg (True, up2, up3) example_request (lit ''complipilot'') [example_row n]
   = (\<lparr>success = True, increment_count = n + 1, limitReached = None\<rparr>, [example_row (n + 1)])"
  by (simp add: incrementUsage_def incrementUsage_try_def db_update_increment_def Let_def
      example_ip example_row_def increment_row_def)

lemma example_increment_full:
  "30 \<le> n \<Longrightarrow> incrementUsage cfg (True, True, up3) example_request (lit ''complipilot'') [example_row n]
   = (\<lparr>success = False, increment_count = n, limitReached = Some True\<rparr>, [example_row n])"
  by (simp add: incrementUsage_def incrementUsage_try_def db_update_increment_def Let_def
      db_select_limit1_def example_ip example_row_def increment_row_def)

section \<open>A failed generation is not charged\<close>

lemma generate_catch_status: "status (generate_catch e) \<in> {500, 503, 429, 401}"
  by (simp add: generate_catch_def)

lemma generate_catch_keys: "keys_of (json_body (generate_catch e)) = [lit ''error'']"
  by (simp add: generate_catch_def keys_of_def)

lemma generate_catch_vercel_keys:
  "keys_of (json_body (generate_catch_vercel cfg e))
   = (if production cfg then [lit ''error''] else [lit ''error'', lit ''details''])"
  by (simp add: generate_catch_vercel_def keys_of_def)

lemma generate_handler_not_reached:
  "\<not> reaches_generation env req tbl \<Longrightarrow> snd (generate_handler cfg env req tbl) = tbl"
proof (cases "charged_tool req")
  case (Inl e)
  then show ?thesis by (simp add: generate_handler_throws)
next
  case (Inr tname)
  assume no: "\<not> reaches_generation env req tbl"
  show ?thesis
  proof (cases "allowed (checkUsageLimit (check_up env) req tname tbl)")
    case False
    with Inr show ?thesis by (simp add: generate_handler_blocked)
  next
    case ok: True
    show ?thesis
    proof (cases "validate_formData (get_prop (JObj (body req)) (lit ''formData''))")
      case (Some bad)
      with Inr ok show ?thesis by (simp add: generate_handler_invalid)
    next
      case None
      with Inr ok no
      have "\<not> returns (creditRoadmapPrompt (get_prop (JObj (body req)) (lit ''formData'')))"
        by (auto simp: reaches_generation_iff)
      with Inr ok None show ?thesis by (simp add: generate_handler_prompt_throws)
    qed
  qed
qed

lemma generate_handler_vercel_not_reached:
  "\<not> reaches_generation_vercel env req tbl \<Longrightarrow> snd (generate_handler_vercel cfg env req tbl) = tbl"
proof (cases "http_method req = lit ''POST''")
  case False
  then show ?thesis
    by (cases "http_method req = lit ''OPTIONS''")
      (simp_all add: generate_handler_vercel_options generate_handler_vercel_method)
next
  case post: True
  assume no: "\<not> reaches_generation_vercel env req tbl"
  show ?thesis
  proof (cases "allowed (checkUsageLimit_vercel (check_up env) req tbl)")
    case False
    with post show ?thesis by (simp add: generate_handler_vercel_blocked)
  next
    case ok: True
    show ?thesis
    proof (cases "validate_formData_vercel (get_prop (JObj (body req)) (lit ''formData''))")
      case (Some bad)
      with post ok show ?thesis by (simp add: generate_handler_vercel_invalid)
    next
      case None
      with post ok no
      have "\<not> returns (creditRoadmapPrompt_vercel (get_prop (JObj (body req)) (lit ''formData'')))"
        by (auto simp: reaches_generation_vercel_def)
      with post ok None show ?thesis by (simp add: generate_handler_vercel_prompt_throws)
    qed
  qed
qed

text \<open>
  C3. When the call of the model throws, each handler answers with the error
  response of its \<open>catch\<close> block (a status among 500, 503, 429 and 401, a body with
  the property \<open>error\<close> and no report) and writes nothing to the usage table: the
  table is what the other requests made of it while the call was awaited, and the
  count stored for the client and any tool is the same. A request that ends before
  the call (its tool cannot be normalised, it is blocked or invalid, or its prompt
  cannot be built) leaves the table as it found it.
\<close>

theorem failed_generation_leaves_counter:
  assumes "generation env = Inl e"
  shows "(reaches_generation env req tbl \<longrightarrow>
            generate_handler cfg env req tbl = (Inr (generate_catch e), interference env tbl)
          \<and> (\<exists>r. fst (generate_handler cfg env req tbl) = Inr r
                \<and> status r \<in> {500, 503, 429, 401}
                \<and> keys_of (json_body r) = [lit ''error''])
          \<and> counted (getClientIp req) tname (snd (generate_handler cfg env req tbl))
              = counted (getClientIp req) tname (interference env tbl))
       \<and> (\<not> reaches_generation env req tbl \<longrightarrow> snd (generate_handler cfg env req tbl) = tbl)
       \<and> (reaches_generation_vercel env req tbl \<longrightarrow>
            generate_handler_vercel cfg env req tbl = (generate_catch_vercel cfg e, interference env tbl)
          \<and> status (fst (generate_handler_vercel cfg env req tbl)) = 500
          \<and> set (keys_of (json_body (fst (generate_handler_vercel cfg env req tbl))))
              \<subseteq> {lit ''error'', lit ''details''})
       \<and> (\<not> reaches_generation_vercel env req tbl \<longrightarrow>
            snd (generate_handler_vercel cfg env req tbl) = tbl)"
  using assms generate_catch_status [of e] generate_catch_keys [of e]
    generate_catch_vercel_keys [of cfg e]
  by (auto simp: generate_handler_generation_throws generate_handler_vercel_generation_throws
      generate_handler_not_reached generate_handler_vercel_not_reached generate_catch_vercel_def)

lemma example_reaches_failing:
  "reaches_generation example_failing_env example_request [example_row 3]"
  by (simp add: reaches_generation_def example_charged_tool example_valid example_check
      example_failing_env_def example_prompt)

lemma example_reaches_failing_vercel:
  "reaches_generation_vercel example_failing_env example_request [example_row 3]"
  by (simp add: reaches_generation_vercel_def example_failing_env_def
      checkUsageLimit_vercel_def checkUsageLimit_vercel_try_def db_select_limit1_def Let_def
      example_ip example_row_def example_prompt_vercel)
    (simp add: example_request_def validate_formData_vercel_def Let_def get_prop.simps)

theorem failed_generation_leaves_counter_witness:
  "generate_handler example_config example_failing_env example_request [example_row 3]
     = (Inr \<lparr>status = 503, json_body = JObj [(lit ''error'',
           JStr (lit ''Service temporarily unavailable. Please try again later.''))]\<rparr>,
        [example_row 3])
   \<and> generate_handler_vercel example_config example_failing_env example_request [example_row 3]
     = (\<lparr>status = 500, json_body = JObj [(lit ''error'',
           JStr (lit ''Failed to generate credit roadmap. Please try again.''))]\<rparr>,
        [example_row 3])"
proof -
  have g: "generation example_failing_env = Inl \<lparr>err_code = Some (lit ''insufficient_quota''),
      err_status = Some 429, err_message = lit ''You exceeded your current quota''\<rparr>"
    by (simp add: example_failing_env_def)
  from failed_generation_leaves_counter [OF g, of example_request "[example_row 3]" example_config
      "lit ''complipilot''"]
    example_reaches_failing example_reaches_failing_vercel
  show ?thesis
    by (simp add: generate_catch_def generate_catch_vercel_def example_failing_env_def
        example_config_def)
qed

section \<open>A race lost after the generation\<close>

lemma incrementUsage_limit_reached:
  "limitReached (fst (incrementUsage cfg ups req tname tbl)) = Some True \<Longrightarrow>
   \<not> success (fst (incrementUsage cfg ups req tname tbl))
   \<and> snd (incrementUsage cfg ups req tname tbl) = tbl"
  by (cases ups)
    (auto simp: incrementUsage_def incrementUsage_try_def Let_def map_if_filter_Nil
      db_update_increment_def db_select_limit1_def db_insert_def
      split: if_splits prod.splits sum.splits list.splits)

lemma incrementUsage_vercel_limit_reached:
  "limitReached (fst (incrementUsage_vercel cfg ups req tbl)) = Some True \<Longrightarrow>
   \<not> success (fst (incrementUsage_vercel cfg ups req tbl))
   \<and> snd (incrementUsage_vercel cfg ups req tbl) = tbl"
  by (cases ups)
    (auto simp: incrementUsage_vercel_def incrementUsage_vercel_try_def Let_def map_if_filter_Nil
      db_update_increment_def db_select_limit1_def db_insert_def
      split: if_splits prod.splits sum.splits list.splits)

lemma quota_exceeded_keys:
  "keys_of (json_body (quota_exceeded tname n))
   = [lit ''error'', lit ''limitReached'', lit ''count'', lit ''limit'', lit ''tool'']"
  by (simp add: quota_exceeded_def keys_of_def)

lemma quota_exceeded_vercel_keys:
  "keys_of (json_body (quota_exceeded_vercel n))
   = [lit ''error'', lit ''limitReached'', lit ''count'', lit ''limit'']"
  by (simp add: quota_exceeded_vercel_def keys_of_def)

lemma generate_handler_race_lost:
  assumes "reaches_generation env req tbl" and "charged_tool req = Inr tname"
    and "generation env = Inr ai" and "ai \<noteq> JNull"
    and "limitReached (fst (incrementUsage cfg (increment_ups env) req tname
           (interference env tbl))) = Some True"
  shows "generate_handler cfg env req tbl
   = (Inr (quota_exceeded tname
        (increment_count (fst (incrementUsage cfg (increment_ups env) req tname
           (interference env tbl))))),
      interference env tbl)"
  using incrementUsage_limit_reached [OF assms(5)] assms(5)
    generate_handler_generated [OF assms(1-4), of cfg]
  by (auto simp: Let_def)

lemma generate_handler_vercel_race_lost:
  assumes "reaches_generation_vercel env req tbl" and "generation env = Inr ai" and "ai \<noteq> JNull"
    and "limitReached (fst (incrementUsage_vercel cfg (increment_ups env) req
           (interference env tbl))) = Some True"
  shows "generate_handler_vercel cfg env req tbl
   = (quota_exceeded_vercel
        (increment_count (fst (incrementUsage_vercel cfg (increment_ups env) req
           (interference env tbl)))),
      interference env tbl)"
  using incrementUsage_vercel_limit_reached [OF assms(4)] assms
  by (simp add: generate_handler_vercel_generated Let_def)

lemma example_reaches_race: "reaches_generation example_race_env example_request [example_row 29]"
  by (simp add: reaches_generation_def example_charged_tool example_valid example_check
      example_race_env_def example_prompt)

lemma example_reaches_race_vercel:
  "reaches_generation_vercel example_race_env example_request [example_row 29]"
  by (simp add: reaches_generation_vercel_def example_race_env_def
      checkUsageLimit_vercel_def checkUsageLimit_vercel_try_def db_select_limit1_def Let_def
      example_ip example_row_def example_prompt_vercel)
    (simp add: example_request_def validate_formData_vercel_def Let_def get_prop.simps)

lemma example_increment_vercel_full:
  "30 \<le> n \<Longrightarrow> incrementUsage_vercel cfg (True, True, up3) example_request [example_row n]
   = (\<lparr>success = False, increment_count = n, limitReached = Some True\<rparr>, [example_row n])"
  by (simp add: incrementUsage_vercel_def incrementUsage_vercel_try_def db_update_increment_def
      Let_def db_select_limit1_def example_ip example_row_def increment_row_def)

text \<open>
  C4, as the claim states it, fails for the serverless handler: there the response
  to a lost race (the generation succeeded, the increment reported
  \<open>limitReached\<close>) has the properties \<open>error\<close>, \<open>limitReached\<close>, \<open>count\<close> and
  \<open>limit\<close>, and no \<open>tool\<close>.
\<close>

theorem race_lost_serverless_has_no_tool:
  "generation example_race_env = Inr (JObj [])
   \<and> limitReached (fst (incrementUsage_vercel example_config (increment_ups example_race_env)
        example_request (interference example_race_env [example_row 29]))) = Some True
   \<and> generate_handler_vercel example_config example_race_env example_request [example_row 29]
      = (\<lparr>status = 429, json_body = JObj [
            (lit ''error'', JStr (lit
               ''You have reached your 30-report limit for Credit Commander. Please contact support to continue.'')),
            (lit ''limitReached'', JBool True),
            (lit ''count'', JNum 30),
            (lit ''limit'', JNum 30)]\<rparr>, [example_row 30])
   \<and> get_prop (json_body (fst (generate_handler_vercel example_config example_race_env
        example_request [example_row 29]))) (lit ''tool'') = JUndefined"
proof -
  have g: "generation example_race_env = Inr (JObj [])"
    by (simp add: example_race_env_def)
  have i: "incrementUsage_vercel example_config (increment_ups example_race_env)
        example_request (interference example_race_env [example_row 29])
      = (\<lparr>success = False, increment_count = 30, limitReached = Some True\<rparr>, [example_row 30])"
    by (simp add: example_race_env_def example_increment_vercel_full)
  have h: "generate_handler_vercel example_config example_race_env example_request [example_row 29]
      = (quota_exceeded_vercel 30, [example_row 30])"
    using generate_handler_vercel_generated [OF example_reaches_race_vercel g, of example_config] i
    by (simp add: example_race_env_def)
  from g i h show ?thesis
    by (simp add: quota_exceeded_vercel_def get_prop.simps)
qed

text \<open>
  C4, amended. When the generation succeeds and the increment that follows
  reports \<open>limitReached\<close>, the handler drops the generated content, leaves the
  usage table as it is and answers 429 with the same object as when the request is
  blocked before the generation (only the count differs): of the shape
  \<open>{error, limitReached: true, count, limit: 30, tool}\<close> in the Express handler, and
  \<open>{error, limitReached: true, count, limit: 30}\<close>, without \<open>tool\<close>, in the
  serverless handler.
\<close>

theorem race_lost_answers_quota_exceeded:
  assumes "generation env = Inr ai" and "ai \<noteq> JNull"
  shows "(reaches_generation env req tbl \<and> charged_tool req = Inr tname
          \<and> limitReached (fst (incrementUsage cfg (increment_ups env) req tname
               (interference env tbl))) = Some True
          \<longrightarrow> generate_handler cfg env req tbl
              = (Inr (quota_exceeded tname
                   (increment_count (fst (incrementUsage cfg (increment_ups env) req
                      tname (interference env tbl))))),
                 interference env tbl))
       \<and> (charged_tool req = Inr tname
          \<and> \<not> allowed (checkUsageLimit (check_up env) req tname tbl)
          \<longrightarrow> generate_handler cfg env req tbl
              = (Inr (quota_exceeded tname
                   (check_count (checkUsageLimit (check_up env) req tname tbl))), tbl))
       \<and> status (quota_exceeded tname n) = 429
       \<and> keys_of (json_body (quota_exceeded tname n))
           = [lit ''error'', lit ''limitReached'', lit ''count'', lit ''limit'', lit ''tool'']
       \<and> get_prop (json_body (quota_exceeded tname n)) (lit ''limitReached'') = JBool True
       \<and> get_prop (json_body (quota_exceeded tname n)) (lit ''count'') = JNum n
       \<and> get_prop (json_body (quota_exceeded tname n)) (lit ''limit'') = JNum 30
       \<and> get_prop (json_body (quota_exceeded tname n)) (lit ''tool'') = JStr tname
       \<and> (reaches_generation_vercel env req tbl
          \<and> limitReached (fst (incrementUsage_vercel cfg (increment_ups env) req
               (interference env tbl))) = Some True
          \<longrightarrow> generate_handler_vercel cfg env req tbl
              = (quota_exceeded_vercel
                   (increment_count (fst (incrementUsage_vercel cfg (increment_ups env) req
                      (interference env tbl)))),
                 interference env tbl))
       \<and> (http_method req = lit ''POST'' \<and> \<not> allowed (checkUsageLimit_vercel (check_up env) req tbl)
          \<longrightarrow> generate_handler_vercel cfg env req tbl
              = (quota_exceeded_vercel
                   (check_count (checkUsageLimit_vercel (check_up env) req tbl)), tbl))
       \<and> status (quota_exceeded_vercel n) = 429
       \<and> keys_of (json_body (quota_exceeded_vercel n))
           = [lit ''error'', lit ''limitReached'', lit ''count'', lit ''limit'']
       \<and> get_prop (json_body (quota_exceeded_vercel n)) (lit ''limitReached'') = JBool True
       \<and> get_prop (json_body (quota_exceeded_vercel n)) (lit ''count'') = JNum n
       \<and> get_prop (json_body (quota_exceeded_vercel n)) (lit ''limit'') = JNum 30"
proof -
  have "get_prop (json_body (quota_exceeded tname n)) (lit ''limitReached'') = JBool True"
    "get_prop (json_body (quota_exceeded tname n)) (lit ''count'') = JNum n"
    "get_prop (json_body (quota_exceeded tname n)) (lit ''limit'') = JNum 30"
    "get_prop (json_body (quota_exceeded tname n)) (lit ''tool'') = JStr tname"
    "get_prop (json_body (quota_exceeded_vercel n)) (lit ''limitReached'') = JBool True"
    "get_prop (json_body (quota_exceeded_vercel n)) (lit ''count'') = JNum n"
    "get_prop (json_body (quota_exceeded_vercel n)) (lit ''limit'') = JNum 30"
    "status (quota_exceeded tname n) = 429" "status (quota_exceeded_vercel n) = 429"
    by (simp_all add: quota_exceeded_def quota_exceeded_vercel_def get_prop.simps)
  then show ?thesis
    using assms generate_handler_race_lost [of env req tbl tname ai cfg]
      generate_handler_vercel_race_lost [of env req tbl ai cfg]
      generate_handler_blocked [of req tname env tbl cfg]
      generate_handler_vercel_blocked [of req env tbl cfg]
    by (simp add: quota_exceeded_keys quota_exceeded_vercel_keys)
qed

theorem race_lost_answers_quota_exceeded_witness:
  "generation example_race_env = Inr (JObj [])
   \<and> reaches_generation example_race_env example_request [example_row 29]
   \<and> charged_tool example_request = Inr (lit ''complipilot'')
   \<and> limitReached (fst (incrementUsage example_config (increment_ups example_race_env)
        example_request (lit ''complipilot'')
        (interference example_race_env [example_row 29]))) = Some True
   \<and> generate_handler example_config example_race_env example_request [example_row 29]
      = (Inr \<lparr>status = 429, json_body = JObj [
            (lit ''error'', JStr (lit
               ''You have reached your 30-report limit for the CompliPilot soft launch. Please upgrade to continue.'')),
            (lit ''limitReached'', JBool True),
            (lit ''count'', JNum 30),
            (lit ''limit'', JNum 30),
            (lit ''tool'', JStr (lit ''complipilot''))]\<rparr>, [example_row 30])"
proof -
  have g: "generation example_race_env = Inr (JObj [])"
    by (simp add: example_race_env_def)
  have n: "JObj [] \<noteq> JNull" by simp
  have i: "incrementUsage example_config (increment_ups example_race_env)
        example_request (lit ''complipilot'')
        (interference example_race_env [example_row 29])
      = (\<lparr>success = False, increment_count = 30, limitReached = Some True\<rparr>, [example_row 30])"
    by (simp add: example_race_env_def example_increment_full)
  have f: "interference example_race_env [example_row 29] = [example_row 30]"
    by (simp add: example_race_env_def)
  from race_lost_answers_quota_exceeded [OF g n, of example_request "[example_row 29]"
      "lit ''complipilot''" example_config] example_reaches_race example_charged_tool g i f
  show ?thesis
    by (simp add: quota_exceeded_def lit_def)
qed
section \<open>Ownership of the stored reports\<close>

lemma anon_inject: "lit ''anon_'' @ a = lit ''anon_'' @ b \<longleftrightarrow> a = b"
  by simp

lemma only_row_with_id:
  assumes "distinct (map rep_id tbl)" and "r \<in> set tbl" and "x \<in> set tbl" and "rep_id x = rep_id r"
  shows "x = r"
  using assms by (meson distinct_map inj_onD)

lemma no_row_for_other_owner:
  assumes "distinct (map rep_id tbl)" and "r \<in> set tbl" and "u \<noteq> rep_userId r"
  shows "filter (\<lambda>x. rep_id x = rep_id r \<and> rep_userId x = u) tbl = []"
proof -
  have "\<not> (rep_id x = rep_id r \<and> rep_userId x = u)" if "x \<in> set tbl" for x
    using only_row_with_id [OF assms(1,2) that] assms(3) by auto
  then show ?thesis
    by (simp add: filter_empty_conv)
qed

lemma keep_rows_of_others:
  assumes "distinct (map rep_id tbl)" and "r \<in> set tbl" and "u \<noteq> rep_userId r"
  shows "filter (\<lambda>x. \<not> (rep_id x = rep_id r \<and> rep_userId x = u)) tbl = tbl"
proof -
  have "\<not> (rep_id x = rep_id r \<and> rep_userId x = u)" if "x \<in> set tbl" for x
    using only_row_with_id [OF assms(1,2) that] assms(3) by auto
  then show ?thesis
    by (simp add: filter_id_conv)
qed

lemma no_row_without:
  "filter (\<lambda>x. rep_id x = rep_id r \<and> rep_userId x = u) (filter (\<lambda>x. rep_id x \<noteq> rep_id r) tbl) = []"
  by (induction tbl) auto

lemma list_rows_without:
  assumes "u \<noteq> rep_userId r"
  shows "list_rows toolkit u (filter (\<lambda>x. x \<noteq> r) tbl) = list_rows toolkit u tbl"
proof -
  have "filter (\<lambda>x. toolkitFilter toolkit x \<and> rep_userId x = u) (filter (\<lambda>x. x \<noteq> r) tbl)
      = filter (\<lambda>x. toolkitFilter toolkit x \<and> rep_userId x = u) tbl"
    using assms by (induction tbl) auto
  then show ?thesis by (simp add: list_rows_def)
qed

text \<open>
  C7. Let a report be stored under the identity of client \<open>a\<close>, in a table whose
  ids are distinct, and let \<open>b\<close> be another client. Then \<open>GET\<close> and \<open>DELETE\<close>
  by \<open>b\<close> for the id of the report answer 404 and delete nothing, exactly as they
  answer when no report has that id, and the list \<open>b\<close> gets does not hold the
  report: it is the list \<open>b\<close> would get were the report not stored at all. No
  response is a 403.
\<close>

theorem report_invisible_to_other_identity:
  assumes "r \<in> set tbl" and "distinct (map rep_id tbl)"
    and "rep_userId r = lit ''anon_'' @ a"
    and "x_client_id req = Some b" and "b \<noteq> []" and "b \<noteq> a"
    and "param_id req = rep_id r"
  shows "get_report cfg True req tbl = not_found
       \<and> get_report cfg True req (filter (\<lambda>x. rep_id x \<noteq> rep_id r) tbl) = not_found
       \<and> delete_report cfg True req tbl = (not_deleted, tbl)
       \<and> fst (delete_report cfg True req (filter (\<lambda>x. rep_id x \<noteq> rep_id r) tbl)) = not_deleted
       \<and> r \<notin> set (list_rows toolkit (lit ''anon_'' @ b) tbl)
       \<and> list_reports cfg up req tbl = list_reports cfg up req (filter (\<lambda>x. x \<noteq> r) tbl)
       \<and> status (get_report cfg up req tbl) \<noteq> 403
       \<and> status (fst (delete_report cfg up req tbl)) \<noteq> 403"
proof -
  let ?u = "lit ''anon_'' @ b"
  have user: "getAnonymousUserId req = Inr ?u"
    using assms(4,5) by (simp add: getAnonymousUserId_def)
  have other: "?u \<noteq> rep_userId r"
    using assms(3,6) by simp
  have none: "filter (\<lambda>x. rep_id x = param_id req \<and> rep_userId x = ?u) tbl = []"
    using no_row_for_other_owner [OF assms(2,1) other] assms(7) by simp
  have keep: "filter (\<lambda>x. \<not> (rep_id x = param_id req \<and> rep_userId x = ?u)) tbl = tbl"
    using keep_rows_of_others [OF assms(2,1) other] assms(7) by simp
  have without: "filter (\<lambda>x. rep_id x = param_id req \<and> rep_userId x = ?u)
      (filter (\<lambda>x. rep_id x \<noteq> rep_id r) tbl) = []"
    using no_row_without [of r ?u tbl] assms(7) by simp
  have 1: "get_report cfg True req tbl = not_found"
    by (simp add: get_report_def user none not_found_def)
  have 2: "get_report cfg True req (filter (\<lambda>x. rep_id x \<noteq> rep_id r) tbl) = not_found"
    by (simp add: get_report_def user without not_found_def del: filter_filter)
  have 3: "delete_report cfg True req tbl = (not_deleted, tbl)"
    using none keep by (simp add: delete_report_def user not_deleted_def Let_def)
  have 4: "fst (delete_report cfg True req (filter (\<lambda>x. rep_id x \<noteq> rep_id r) tbl)) = not_deleted"
    by (simp add: delete_report_def user without not_deleted_def Let_def del: filter_filter)
  have 5: "r \<notin> set (list_rows toolkit ?u tbl)"
    using other by (auto simp: list_rows_def)
  have 6: "list_reports cfg up req tbl = list_reports cfg up req (filter (\<lambda>x. x \<noteq> r) tbl)"
    by (simp add: list_reports_def user list_rows_without [OF other] split: option.splits)
  have 7: "status (get_report cfg up req tbl) \<noteq> 403"
    using 1 by (cases up) (simp_all add: not_found_def get_report_def user report_catch_def)
  have 8: "status (fst (delete_report cfg up req tbl)) \<noteq> 403"
    using 3 by (cases up) (simp_all add: not_deleted_def delete_report_def user report_catch_def)
  from 1 2 3 4 5 6 7 8 show ?thesis by blast
qed

lemma example_saved:
  "save_report example_config True (Some example_report_data) (\<lambda>h. h) (lit ''r1'') 1700000000000
     example_request []
   = (\<lparr>status = 200, json_body = report_json example_saved_report\<rparr>, [example_saved_report])"
  by (simp add: save_report_def getAnonymousUserId_def example_request_def example_report_data_def
      example_saved_report_def Let_def lit_def)

theorem report_invisible_to_other_identity_witness:
  "snd (save_report example_config True (Some example_report_data) (\<lambda>h. h) (lit ''r1'') 1700000000000
     example_request []) = [example_saved_report]
   \<and> get_report example_config True example_request_bob [example_saved_report] = not_found
   \<and> delete_report example_config True example_request_bob [example_saved_report]
       = (not_deleted, [example_saved_report])
   \<and> list_reports example_config True example_request_bob [example_saved_report]
       = \<lparr>status = 200, json_body = JArr []\<rparr>
   \<and> status (get_report example_config True example_request [example_saved_report]) = 200"
proof -
  have a: "example_saved_report \<in> set [example_saved_report]" by simp
  have b: "distinct (map rep_id [example_saved_report])" by simp
  have c: "rep_userId example_saved_report = lit ''anon_'' @ lit ''alice''"
    by (simp add: example_saved_report_def lit_def)
  have d: "x_client_id example_request_bob = Some (lit ''bob'')"
    by (simp add: example_request_bob_def)
  have e: "lit ''bob'' \<noteq> []" "lit ''bob'' \<noteq> lit ''alice''" by simp_all
  have f: "param_id example_request_bob = rep_id example_saved_report"
    by (simp add: example_request_bob_def example_request_def example_saved_report_def)
  have g: "list_reports example_config True example_request_bob [] = \<lparr>status = 200, json_body = JArr []\<rparr>"
    by (simp add: list_reports_def getAnonymousUserId_def example_request_bob_def
        example_request_def list_rows_def)
  have h: "status (get_report example_config True example_request [example_saved_report]) = 200"
    by (simp add: get_report_def getAnonymousUserId_def example_request_def
        example_saved_report_def lit_def)
  from report_invisible_to_other_identity [OF a b c d e f, of example_config
      "lit ''creditcommander''" True]
    example_saved g h
  show ?thesis by simp
qed

section \<open>Rendering content without narrative\<close>

lemma includes_str_iff: "includes_str s sub \<longleftrightarrow> (\<exists>a b. s = a @ sub @ b)"
proof (induction s)
  case Nil
  then show ?case by auto
next
  case (Cons c s)
  show ?case
  proof
    assume "includes_str (c # s) sub"
    then consider "take (length sub) (c # s) = sub" | "includes_str s sub"
      by auto
    then show "\<exists>a b. c # s = a @ sub @ b"
    proof cases
      case 1
      then have "c # s = [] @ sub @ drop (length sub) (c # s)"
        by (metis append_Nil append_take_drop_id)
      then show ?thesis by blast
    next
      case 2
      with Cons.IH obtain a b where "s = a @ sub @ b" by blast
      then have "c # s = (c # a) @ sub @ b" by simp
      then show ?thesis by blast
    qed
  next
    assume "\<exists>a b. c # s = a @ sub @ b"
    then obtain a b where ab: "c # s = a @ sub @ b" by blast
    show "includes_str (c # s) sub"
    proof (cases a)
      case Nil
      with ab have "take (length sub) (c # s) = sub" by simp
      then show ?thesis by simp
    next
      case (Cons x a')
      with ab have "s = a' @ sub @ b" by simp
      with Cons.IH show ?thesis by auto
    qed
  qed
qed

lemma includes_str_skip: "includes_str s sub \<Longrightarrow> includes_str (c @ s) sub"
  unfolding includes_str_iff by (metis append_assoc)

lemma includes_str_here: "includes_str (p1 @ p2 @ p3 @ p4 @ r) (p1 @ p2 @ p3 @ p4)"
  unfolding includes_str_iff by (metis append_Nil append_assoc)

lemma toString_primitive:
  "has_string_form JUndefined" "has_string_form JNull" "has_string_form (JBool b)"
  "has_string_form (JNum n)" "has_string_form (JStr s)"
  by (simp_all add: has_string_form_def returns_def)

text \<open>
  The payload \<open>handleGenerate\<close> collects from the form holds strings and a number
  and no \<open>tone\<close>: it can be shown.
\<close>

lemma form_payload_printable:
  "printable_payload \<lparr>businessName = JStr name, entityType = JStr entity,
     utilization = JNum used, targetLimit = JStr target, tone = JUndefined\<rparr>"
  by (simp add: printable_payload_def toString_primitive)

lemma safePlaceholder_returns:
  "has_string_form v \<Longrightarrow> \<exists>s. safePlaceholder v = Inr s"
  by (auto simp: safePlaceholder_def escapeHtml_def has_string_form_def returns_iff)

lemma headerBlock_returns:
  assumes "printable_payload payload"
  shows "\<exists>header. headerBlock payload = Inr header"
proof -
  have "has_string_form (js_or (tone payload) (JStr (lit ''Professional'')))"
    using assms by (simp add: printable_payload_def js_or_def toString_primitive)
  with assms obtain s1 s2 s3 s4 s5 where "safePlaceholder (businessName payload) = Inr s1"
    "safePlaceholder (entityType payload) = Inr s2" "safePlaceholder (utilization payload) = Inr s3"
    "safePlaceholder (targetLimit payload) = Inr s4"
    "safePlaceholder (js_or (tone payload) (JStr (lit ''Professional''))) = Inr s5"
    unfolding printable_payload_def by (meson safePlaceholder_returns)
  then show ?thesis
    by (simp add: headerBlock_def)
qed

lemma safePlaceholder_absent:
  "absent_or_empty v \<Longrightarrow> safePlaceholder (default_to (JStr []) v) = Inr placeholder"
  by (auto simp: absent_or_empty_def safePlaceholder_def default_to_def is_empty_array_def)

lemma renderVendorRecommendations_none:
  "no_items vs \<Longrightarrow> renderVendorRecommendations vs = []"
  by (auto simp: no_items_def renderVendorRecommendations_def)

lemma renderCardRecommendations_none:
  "no_items cs \<Longrightarrow> renderCardRecommendations cs = []"
  by (auto simp: no_items_def renderCardRecommendations_def)

lemma structuredHTML_without_content:
  assumes "without_content (Some g)" and "headerBlock payload = Inr header"
  shows "structuredHTML payload g
   = Inr (roadmap_page header placeholder placeholder placeholder placeholder []
        placeholder [] placeholder placeholder)"
  using assms
  by (simp add: structuredHTML_def without_content_def safePlaceholder_absent
      renderVendorRecommendations_none renderCardRecommendations_none)

text \<open>
  C8. For every payload that can be shown (as every payload of the form can), and
  every generated content whose
  narrative fields are absent or empty and whose recommendation lists are absent
  or empty (or no content at all), the renderer returns a page and does not
  throw. The page is the text below: the header block, then the seven narrative
  sections, each holding the placeholder marker
  \<open><em style="color: rgb(var(--text-muted-rgb));">[Pending Input]</em>\<close> in its
  content element, and nothing but white space where the two recommendation blocks
  would stand. In particular the page includes, for each of the seven sections,
  the heading line of the section followed by the content element with the marker.
\<close>

theorem render_without_content:
  assumes "without_content generated" and "printable_payload payload"
  shows \<open>\<exists>header html.
     headerBlock payload = Inr header
     \<and> renderStructuredHTML (Some payload) generated = Inr html
     \<and> html =
         lit ''\<newline>''
         @ lit ''            ''
         @ header
         @ lit ''\<newline>''
         @ lit ''\<newline>''
         @ lit ''            <div class="cc-card" style="padding: 18px; margin-bottom: 20px;">\<newline>''
         @ lit ''                <h2 class="cc-section-title" style="border-left: 2px solid rgba(255,213,74,.35); padding-left: 14px; margin: 0 0 14px 0;">Profile Summary</h2>\<newline>''
         @ lit ''                <div class="section-content">''
         @ lit ''<em style="color: rgb(var(--text-muted-rgb));">[Pending Input]</em>''
         @ lit ''</div>\<newline>''
         @ lit ''            </div>\<newline>''
         @ lit ''\<newline>''
         @ lit ''            <div class="cc-card" style="padding: 18px; margin-bottom: 20px;">\<newline>''
         @ lit ''                <h3 class="cc-section-title" style="border-left: 2px solid rgba(255,213,74,.35); padding-left: 14px; margin: 0 0 14px 0;">Banking & Data Signals</h3>\<newline>''
         @ lit ''                <div class="section-content">''
         @ lit ''<em style="color: rgb(var(--text-muted-rgb));">[Pending Input]</em>''
         @ lit ''</div>\<newline>''
         @ lit ''            </div>\<newline>''
         @ lit ''\<newline>''
         @ lit ''            <div class="cc-card" style="padding: 18px; margin-bottom: 20px;">\<newline>''
         @ lit ''                <h3 class="cc-section-title" style="border-left: 2px solid rgba(255,213,74,.35); padding-left: 14px; margin: 0 0 14px 0;">Quick Wins (0-30 Days)</h3>\<newline>''
         @ lit ''                <div class="section-content">''
         @ lit ''<em style="color: rgb(var(--text-muted-rgb));">[Pending Input]</em>''
         @ lit ''</div>\<newline>''
         @ lit ''            </div>\<newline>''
         @ lit ''\<newline>''
         @ lit ''            <div class="cc-card" style="padding: 18px; margin-bottom: 20px;">\<newline>''
         @ lit ''                <h3 class="cc-section-title" style="border-left: 2px solid rgba(255,213,74,.35); padding-left: 14px; margin: 0 0 14px 0;">Tiered Trade Lines Plan</h3>\<newline>''
         @ lit ''                <div class="section-content">''
         @ lit ''<em style="color: rgb(var(--text-muted-rgb));">[Pending Input]</em>''
         @ lit ''</div>\<newline>''
         @ lit ''            </div>\<newline>''
         @ lit ''\<newline>''
         @ lit ''            ''
         @ lit ''\<newline>''
         @ lit ''\<newline>''
         @ lit ''            <div class="cc-card" style="padding: 18px; margin-bottom: 20px;">\<newline>''
         @ lit ''                <h3 class="cc-section-title" style="border-left: 2px solid rgba(255,213,74,.35); padding-left: 14px; margin: 0 0 14px 0;">Card Strategy</h3>\<newline>''
         @ lit ''                <div class="section-content">''
         @ lit ''<em style="color: rgb(var(--text-muted-rgb));">[Pending Input]</em>''
         @ lit ''</div>\<newline>''
         @ lit ''            </div>\<newline>''
         @ lit ''\<newline>''
         @ lit ''            ''
         @ lit ''\<newline>''
         @ lit ''\<newline>''
         @ lit ''            <div class="cc-card" style="padding: 18px; margin-bottom: 20px;">\<newline>''
         @ lit ''                <h3 class="cc-section-title" style="border-left: 2px solid rgba(255,213,74,.35); padding-left: 14px; margin: 0 0 14px 0;">30/60/90-Day Action Plan</h3>\<newline>''
         @ lit ''                <div class="section-content">''
         @ lit ''<em style="color: rgb(var(--text-muted-rgb));">[Pending Input]</em>''
         @ lit ''</div>\<newline>''
         @ lit ''            </div>\<newline>''
         @ lit ''\<newline>''
         @ lit ''            <div class="cc-card" style="padding: 18px; margin-bottom: 20px;">\<newline>''
         @ lit ''                <h3 class="cc-section-title" style="border-left: 2px solid rgba(255,213,74,.35); padding-left: 14px; margin: 0 0 14px 0;">Risk Flags & Compliance</h3>\<newline>''
         @ lit ''                <div class="section-content">''
         @ lit ''<em style="color: rgb(var(--text-muted-rgb));">[Pending Input]</em>''
         @ lit ''</div>\<newline>''
         @ lit ''            </div>\<newline>''
         @ lit ''        ''
     \<and> includes_str html
          (lit ''                <h2 class="cc-section-title" style="border-left: 2px solid rgba(255,213,74,.35); padding-left: 14px; margin: 0 0 14px 0;">Profile Summary</h2>\<newline>''
            @ lit ''                <div class="section-content">''
            @ lit ''<em style="color: rgb(var(--text-muted-rgb));">[Pending Input]</em>''
            @ lit ''</div>\<newline>'')
     \<and> includes_str html
          (lit ''                <h3 class="cc-section-title" style="border-left: 2px solid rgba(255,213,74,.35); padding-left: 14px; margin: 0 0 14px 0;">Banking & Data Signals</h3>\<newline>''
            @ lit ''                <div class="section-content">''
            @ lit ''<em style="color: rgb(var(--text-muted-rgb));">[Pending Input]</em>''
            @ lit ''</div>\<newline>'')
     \<and> includes_str html
          (lit ''                <h3 class="cc-section-title" style="border-left: 2px solid rgba(255,213,74,.35); padding-left: 14px; margin: 0 0 14px 0;">Quick Wins (0-30 Days)</h3>\<newline>''
            @ lit ''                <div class="section-content">''
            @ lit ''<em style="color: rgb(var(--text-muted-rgb));">[Pending Input]</em>''
            @ lit ''</div>\<newline>'')
     \<and> includes_str html
          (lit ''                <h3 class="cc-section-title" style="border-left: 2px solid rgba(255,213,74,.35); padding-left: 14px; margin: 0 0 14px 0;">Tiered Trade Lines Plan</h3>\<newline>''
            @ lit ''                <div class="section-content">''
            @ lit ''<em style="color: rgb(var(--text-muted-rgb));">[Pending Input]</em>''
            @ lit ''</div>\<newline>'')
     \<and> includes_str html
          (lit ''                <h3 class="cc-section-title" style="border-left: 2px solid rgba(255,213,74,.35); padding-left: 14px; margin: 0 0 14px 0;">Card Strategy</h3>\<newline>''
            @ lit ''                <div class="section-content">''
            @ lit ''<em style="color: rgb(var(--text-muted-rgb));">[Pending Input]</em>''
            @ lit ''</div>\<newline>'')
     \<and> includes_str html
          (lit ''                <h3 class="cc-section-title" style="border-left: 2px solid rgba(255,213,74,.35); padding-left: 14px; margin: 0 0 14px 0;">30/60/90-Day Action Plan</h3>\<newline>''
            @ lit ''                <div class="section-content">''
            @ lit ''<em style="color: rgb(var(--text-muted-rgb));">[Pending Input]</em>''
            @ lit ''</div>\<newline>'')
     \<and> includes_str html
          (lit ''                <h3 class="cc-section-title" style="border-left: 2px solid rgba(255,213,74,.35); padding-left: 14px; margin: 0 0 14px 0;">Risk Flags & Compliance</h3>\<newline>''
            @ lit ''                <div class="section-content">''
            @ lit ''<em style="color: rgb(var(--text-muted-rgb));">[Pending Input]</em>''
            @ lit ''</div>\<newline>'')\<close>
proof -
  from assms(2) obtain header where header: "headerBlock payload = Inr header"
    using headerBlock_returns by blast
  let ?html = \<open>
         lit ''\<newline>''
         @ lit ''            ''
         @ header
         @ lit ''\<newline>''
         @ lit ''\<newline>''
         @ lit ''            <div class="cc-card" style="padding: 18px; margin-bottom: 20px;">\<newline>''
         @ lit ''                <h2 class="cc-section-title" style="border-left: 2px solid rgba(255,213,74,.35); padding-left: 14px; margin: 0 0 14px 0;">Profile Summary</h2>\<newline>''
         @ lit ''                <div class="section-content">''
         @ lit ''<em style="color: rgb(var(--text-muted-rgb));">[Pending Input]</em>''
         @ lit ''</div>\<newline>''
         @ lit ''            </div>\<newline>''
         @ lit ''\<newline>''
         @ lit ''            <div class="cc-card" style="padding: 18px; margin-bottom: 20px;">\<newline>''
         @ lit ''                <h3 class="cc-section-title" style="border-left: 2px solid rgba(255,213,74,.35); padding-left: 14px; margin: 0 0 14px 0;">Banking & Data Signals</h3>\<newline>''
         @ lit ''                <div class="section-content">''
         @ lit ''<em style="color: rgb(var(--text-muted-rgb));">[Pending Input]</em>''
         @ lit ''</div>\<newline>''
         @ lit ''            </div>\<newline>''
         @ lit ''\<newline>''
         @ lit ''            <div class="cc-card" style="padding: 18px; margin-bottom: 20px;">\<newline>''
         @ lit ''                <h3 class="cc-section-title" style="border-left: 2px solid rgba(255,213,74,.35); padding-left: 14px; margin: 0 0 14px 0;">Quick Wins (0-30 Days)</h3>\<newline>''
         @ lit ''                <div class="section-content">''
         @ lit ''<em style="color: rgb(var(--text-muted-rgb));">[Pending Input]</em>''
         @ lit ''</div>\<newline>''
         @ lit ''            </div>\<newline>''
         @ lit ''\<newline>''
         @ lit ''            <div class="cc-card" style="padding: 18px; margin-bottom: 20px;">\<newline>''
         @ lit ''                <h3 class="cc-section-title" style="border-left: 2px solid rgba(255,213,74,.35); padding-left: 14px; margin: 0 0 14px 0;">Tiered Trade Lines Plan</h3>\<newline>''
         @ lit ''                <div class="section-content">''
         @ lit ''<em style="color: rgb(var(--text-muted-rgb));">[Pending Input]</em>''
         @ lit ''</div>\<newline>''
         @ lit ''            </div>\<newline>''
         @ lit ''\<newline>''
         @ lit ''            ''
         @ lit ''\<newline>''
         @ lit ''\<newline>''
         @ lit ''            <div class="cc-card" style="padding: 18px; margin-bottom: 20px;">\<newline>''
         @ lit ''                <h3 class="cc-section-title" style="border-left: 2px solid rgba(255,213,74,.35); padding-left: 14px; margin: 0 0 14px 0;">Card Strategy</h3>\<newline>''
         @ lit ''                <div class="section-content">''
         @ lit ''<em style="color: rgb(var(--text-muted-rgb));">[Pending Input]</em>''
         @ lit ''</div>\<newline>''
         @ lit ''            </div>\<newline>''
         @ lit ''\<newline>''
         @ lit ''            ''
         @ lit ''\<newline>''
         @ lit ''\<newline>''
         @ lit ''            <div class="cc-card" style="padding: 18px; margin-bottom: 20px;">\<newline>''
         @ lit ''                <h3 class="cc-section-title" style="border-left: 2px solid rgba(255,213,74,.35); padding-left: 14px; margin: 0 0 14px 0;">30/60/90-Day Action Plan</h3>\<newline>''
         @ lit ''                <div class="section-content">''
         @ lit ''<em style="color: rgb(var(--text-muted-rgb));">[Pending Input]</em>''
         @ lit ''</div>\<newline>''
         @ lit ''            </div>\<newline>''
         @ lit ''\<newline>''
         @ lit ''            <div class="cc-card" style="padding: 18px; margin-bottom: 20px;">\<newline>''
         @ lit ''                <h3 class="cc-section-title" style="border-left: 2px solid rgba(255,213,74,.35); padding-left: 14px; margin: 0 0 14px 0;">Risk Flags & Compliance</h3>\<newline>''
         @ lit ''                <div class="section-content">''
         @ lit ''<em style="color: rgb(var(--text-muted-rgb));">[Pending Input]</em>''
         @ lit ''</div>\<newline>''
         @ lit ''            </div>\<newline>''
         @ lit ''        ''\<close>
  have "without_content (Some (case generated of None \<Rightarrow> no_generated | Some g \<Rightarrow> g))"
    using assms(1)
    by (cases generated)
      (simp_all add: without_content_def no_generated_def absent_or_empty_def no_items_def)
  then have "renderStructuredHTML (Some payload) generated
      = Inr (roadmap_page header placeholder placeholder placeholder placeholder []
          placeholder [] placeholder placeholder)"
    using header by (simp add: renderStructuredHTML_def structuredHTML_without_content)
  then have render: "renderStructuredHTML (Some payload) generated = Inr ?html"
    by (simp add: roadmap_page_def placeholder_def)
  have region1: \<open>includes_str ?html
          (lit ''                <h2 class="cc-section-title" style="border-left: 2px solid rgba(255,213,74,.35); padding-left: 14px; margin: 0 0 14px 0;">Profile Summary</h2>\<newline>''
            @ lit ''                <div class="section-content">''
            @ lit ''<em style="color: rgb(var(--text-muted-rgb));">[Pending Input]</em>''
            @ lit ''</div>\<newline>'')\<close>
    by (rule includes_str_here | rule includes_str_skip)+
  have region2: \<open>includes_str ?html
          (lit ''                <h3 class="cc-section-title" style="border-left: 2px solid rgba(255,213,74,.35); padding-left: 14px; margin: 0 0 14px 0;">Banking & Data Signals</h3>\<newline>''
            @ lit ''                <div class="section-content">''
            @ lit ''<em style="color: rgb(var(--text-muted-rgb));">[Pending Input]</em>''
            @ lit ''</div>\<newline>'')\<close>
    by (rule includes_str_here | rule includes_str_skip)+
  have region3: \<open>includes_str ?html
          (lit ''                <h3 class="cc-section-title" style="border-left: 2px solid rgba(255,213,74,.35); padding-left: 14px; margin: 0 0 14px 0;">Quick Wins (0-30 Days)</h3>\<newline>''
            @ lit ''                <div class="section-content">''
            @ lit ''<em style="color: rgb(var(--text-muted-rgb));">[Pending Input]</em>''
            @ lit ''</div>\<newline>'')\<close>
    by (rule includes_str_here | rule includes_str_skip)+
  have region4: \<open>includes_str ?html
          (lit ''                <h3 class="cc-section-title" style="border-left: 2px solid rgba(255,213,74,.35); padding-left: 14px; margin: 0 0 14px 0;">Tiered Trade Lines Plan</h3>\<newline>''
            @ lit ''                <div class="section-content">''
            @ lit ''<em style="color: rgb(var(--text-muted-rgb));">[Pending Input]</em>''
            @ lit ''</div>\<newline>'')\<close>
    by (rule includes_str_here | rule includes_str_skip)+
  have region5: \<open>includes_str ?html
          (lit ''                <h3 class="cc-section-title" style="border-left: 2px solid rgba(255,213,74,.35); padding-left: 14px; margin: 0 0 14px 0;">Card Strategy</h3>\<newline>''
            @ lit ''                <div class="section-content">''
            @ lit ''<em style="color: rgb(var(--text-muted-rgb));">[Pending Input]</em>''
            @ lit ''</div>\<newline>'')\<close>
    by (rule includes_str_here | rule includes_str_skip)+
  have region6: \<open>includes_str ?html
          (lit ''                <h3 class="cc-section-title" style="border-left: 2px solid rgba(255,213,74,.35); padding-left: 14px; margin: 0 0 14px 0;">30/60/90-Day Action Plan</h3>\<newline>''
            @ lit ''                <div class="section-content">''
            @ lit ''<em style="color: rgb(var(--text-muted-rgb));">[Pending Input]</em>''
            @ lit ''</div>\<newline>'')\<close>
    by (rule includes_str_here | rule includes_str_skip)+
  have region7: \<open>includes_str ?html
          (lit ''                <h3 class="cc-section-title" style="border-left: 2px solid rgba(255,213,74,.35); padding-left: 14px; margin: 0 0 14px 0;">Risk Flags & Compliance</h3>\<newline>''
            @ lit ''                <div class="section-content">''
            @ lit ''<em style="color: rgb(var(--text-muted-rgb));">[Pending Input]</em>''
            @ lit ''</div>\<newline>'')\<close>
    by (rule includes_str_here | rule includes_str_skip)+
  show ?thesis
    by (intro exI [of _ header] exI [of _ ?html] conjI header render refl
        region1 region2 region3 region4 region5 region6 region7)
qed

theorem render_without_content_witness:
  \<open>without_content (Some \<lparr>profileSummary = JStr [], quickWins = JNull, tradeLinesPlan = JUndefined,
       vendorRecommendations = Some [], cardStrategy = JStr [], cardRecommendations = None,
       bankingSignals = JUndefined, actionPlan = JNull, riskFlags = JArr []\<rparr>)
   \<and> without_content None
   \<and> printable_payload example_payload
   \<and> (\<exists>html. renderStructuredHTML (Some example_payload)
         (Some \<lparr>profileSummary = JStr [], quickWins = JNull, tradeLinesPlan = JUndefined,
            vendorRecommendations = Some [], cardStrategy = JStr [], cardRecommendations = None,
            bankingSignals = JUndefined, actionPlan = JNull, riskFlags = JArr []\<rparr>) = Inr html
       \<and> renderStructuredHTML (Some example_payload) None = Inr html
       \<and> includes_str html
          (lit ''                <h3 class="cc-section-title" style="border-left: 2px solid rgba(255,213,74,.35); padding-left: 14px; margin: 0 0 14px 0;">Risk Flags & Compliance</h3>\<newline>''
            @ lit ''                <div class="section-content">''
            @ lit ''<em style="color: rgb(var(--text-muted-rgb));">[Pending Input]</em>''
            @ lit ''</div>\<newline>''))\<close>
proof -
  have a: "without_content (Some \<lparr>profileSummary = JStr [], quickWins = JNull,
       tradeLinesPlan = JUndefined, vendorRecommendations = Some [], cardStrategy = JStr [],
       cardRecommendations = None, bankingSignals = JUndefined, actionPlan = JNull,
       riskFlags = JArr []\<rparr>)"
    by (simp add: without_content_def absent_or_empty_def no_items_def)
  have b: "without_content None"
    by (simp add: without_content_def)
  have c: "printable_payload example_payload"
    by (simp add: printable_payload_def example_payload_def toString_primitive)
  from render_without_content [OF a c] render_without_content [OF b c] a b c
  show ?thesis by (metis sum.inject(2))
qed
section \<open>The order of the recommendation lists\<close>

lemma sort_key_of_permutation:
  assumes "mset xs = mset ys" and "distinct (map f xs)"
  shows "sort_key f xs = sort_key f ys"
proof (rule sort_key_inj_key_eq)
  show "mset xs = mset (sort_key f ys)"
    using assms(1) by simp
  show "inj_on f (set xs)"
    using assms(2) by (simp add: distinct_map)
  show "sorted (map f (sort_key f ys))"
    by simp
qed

lemma testid_uline:
  "toLowerCase (replace_spaces (escapeHtml_string (str_or (Some (lit ''Uline'')) (lit ''unknown''))))
   = lit ''uline''"
  by (simp add: str_or_def escapeHtml_string_def serialize_text_def escape_char_def toLowerCase_def
      lower_char_def is_space_def lit_def)

lemma testid_quill:
  "toLowerCase (replace_spaces (escapeHtml_string (str_or (Some (lit ''Quill'')) (lit ''unknown''))))
   = lit ''quill''"
  by (simp add: str_or_def escapeHtml_string_def serialize_text_def escape_char_def toLowerCase_def
      lower_char_def is_space_def lit_def)

lemma uline_card_differs: "vendorCard uline @ rest \<noteq> vendorCard quill @ rest'"
  by (simp add: vendorCard_def uline_def quill_def testid_uline testid_quill)

lemma testid_amex:
  "toLowerCase (replace_spaces (escapeHtml_string (str_or (Some (lit ''Amex Blue'')) (lit ''unknown''))))
   = lit ''amex-blue''"
  by (simp add: str_or_def escapeHtml_string_def serialize_text_def escape_char_def toLowerCase_def
      lower_char_def is_space_def lit_def)

lemma testid_spark:
  "toLowerCase (replace_spaces (escapeHtml_string (str_or (Some (lit ''Spark One'')) (lit ''unknown''))))
   = lit ''spark-one''"
  by (simp add: str_or_def escapeHtml_string_def serialize_text_def escape_char_def toLowerCase_def
      lower_char_def is_space_def lit_def)

lemma amex_card_differs: "cardCard amex @ rest \<noteq> cardCard spark @ rest'"
  by (simp add: cardCard_def amex_def spark_def testid_amex testid_spark)

lemma filters_determine_mset:
  assumes "\<And>k. filter (\<lambda>x. f x = k) xs = filter (\<lambda>x. f x = k) ys"
  shows "mset xs = mset ys"
proof (rule multiset_eqI)
  fix x
  have "count (mset xs) x = count (mset (filter (\<lambda>y. f y = f x) xs)) x"
    by (simp add: count_mset cong: conj_cong)
  also have "\<dots> = count (mset (filter (\<lambda>y. f y = f x) ys)) x"
    by (simp only: assms)
  also have "\<dots> = count (mset ys) x"
    by (simp add: count_mset cong: conj_cong)
  finally show "count (mset xs) x = count (mset ys) x" .
qed

lemma sort_key_of_same_ties:
  assumes "\<And>k. filter (\<lambda>x. f x = k) xs = filter (\<lambda>x. f x = k) ys"
  shows "sort_key f xs = sort_key f ys"
proof (rule properties_for_sort_key)
  show "mset (sort_key f ys) = mset xs"
    using filters_determine_mset [of f xs ys, OF assms] by simp
  show "sorted (map f (sort_key f ys))"
    by simp
  show "filter (\<lambda>x. f k = f x) (sort_key f ys) = filter (\<lambda>x. f k = f x) xs" for k
    using sort_key_stable [of f "f k" ys] assms [of "f k"]
    by (simp add: eq_commute [of "f k"])
qed

text \<open>
  C6, as the claim states it, fails: the vendors are rendered in the order of the
  input, so two orderings of the same two vendors give different HTML; and two
  cards with the same \<open>applyOrder\<close> are rendered in the order of the input as
  well.
\<close>

theorem rendering_depends_on_input_order:
  "renderVendorRecommendations (Some [uline, quill]) \<noteq> renderVendorRecommendations (Some [quill, uline])
   \<and> applyOrder_key amex = applyOrder_key spark
   \<and> renderCardRecommendations (Some [amex, spark]) \<noteq> renderCardRecommendations (Some [spark, amex])"
proof -
  have "applyOrder_key amex = 1" and "applyOrder_key spark = 1"
    by (simp_all add: applyOrder_key_def amex_def spark_def)
  then have "sort_key applyOrder_key [amex, spark] = [amex, spark]"
    and "sort_key applyOrder_key [spark, amex] = [spark, amex]"
    by simp_all
  then have "renderCardRecommendations (Some [amex, spark])
      \<noteq> renderCardRecommendations (Some [spark, amex])"
    by (simp add: renderCardRecommendations_def Let_def amex_card_differs)
  moreover have "renderVendorRecommendations (Some [uline, quill])
      \<noteq> renderVendorRecommendations (Some [quill, uline])"
    by (simp add: renderVendorRecommendations_def Let_def uline_card_differs)
  ultimately show ?thesis
    by (simp add: applyOrder_key_def amex_def spark_def)
qed

text \<open>
  C6, amended. \<open>renderCardRecommendations\<close> renders the cards stably sorted by
  \<open>applyOrder\<close> (99 for a card without a numeric one): its block holds, between
  the opening and the closing text of the block, the renderings of the cards in
  an order that is a permutation of the input, has non-decreasing keys and keeps
  the cards of each key in the order of the input. So two inputs that list the
  cards of each key in the same order give the same block; in particular two
  orderings of the same cards do whenever the keys of the cards are distinct.
  \<open>renderVendorRecommendations\<close> renders the vendors in the order of the input,
  without sorting.
\<close>

theorem cards_render_sorted_by_applyOrder:
  \<open>(cs \<noteq> [] \<longrightarrow>
      (\<exists>sorted_cards.
         renderCardRecommendations (Some cs) =
             lit ''\<newline>''
             @ lit ''            <div class="cc-card" style="padding: 18px; margin-bottom: 20px;">\<newline>''
             @ lit ''                <h3 class="cc-section-title" style="border-left: 2px solid rgba(255,213,74,.35); padding-left: 14px; margin: 0 0 14px 0;">Recommended Business Cards</h3>\<newline>''
             @ lit ''                <div data-testid="card-recommendations">\<newline>''
             @ lit ''                    ''
             @ concat (map cardCard sorted_cards)
             @ lit ''\<newline>''
             @ lit ''                </div>\<newline>''
             @ lit ''            </div>\<newline>''
             @ lit ''        ''
         \<and> mset sorted_cards = mset cs
         \<and> sorted (map applyOrder_key sorted_cards)
         \<and> (\<forall>k. filter (\<lambda>c. applyOrder_key c = k) sorted_cards
                = filter (\<lambda>c. applyOrder_key c = k) cs)))
   \<and> ((\<forall>k. filter (\<lambda>c. applyOrder_key c = k) cs = filter (\<lambda>c. applyOrder_key c = k) cs')
      \<longrightarrow> renderCardRecommendations (Some cs) = renderCardRecommendations (Some cs'))
   \<and> (mset cs = mset cs' \<and> distinct (map applyOrder_key cs)
      \<longrightarrow> renderCardRecommendations (Some cs) = renderCardRecommendations (Some cs'))
   \<and> (vs \<noteq> [] \<longrightarrow>
        renderVendorRecommendations (Some vs) =
             lit ''\<newline>''
             @ lit ''            <div class="cc-card" style="padding: 18px; margin-bottom: 20px;">\<newline>''
             @ lit ''                <h3 class="cc-section-title" style="border-left: 2px solid rgba(255,213,74,.35); padding-left: 14px; margin: 0 0 14px 0;">Recommended Vendors</h3>\<newline>''
             @ lit ''                <div data-testid="vendor-recommendations">\<newline>''
             @ lit ''                    ''
             @ concat (map vendorCard vs)
             @ lit ''\<newline>''
             @ lit ''                </div>\<newline>''
             @ lit ''            </div>\<newline>''
             @ lit ''        '')\<close>
proof -
  have block: \<open>\<exists>sorted_cards.
         renderCardRecommendations (Some cs) =
             lit ''\<newline>''
             @ lit ''            <div class="cc-card" style="padding: 18px; margin-bottom: 20px;">\<newline>''
             @ lit ''                <h3 class="cc-section-title" style="border-left: 2px solid rgba(255,213,74,.35); padding-left: 14px; margin: 0 0 14px 0;">Recommended Business Cards</h3>\<newline>''
             @ lit ''                <div data-testid="card-recommendations">\<newline>''
             @ lit ''                    ''
             @ concat (map cardCard sorted_cards)
             @ lit ''\<newline>''
             @ lit ''                </div>\<newline>''
             @ lit ''            </div>\<newline>''
             @ lit ''        ''
         \<and> mset sorted_cards = mset cs
         \<and> sorted (map applyOrder_key sorted_cards)
         \<and> (\<forall>k. filter (\<lambda>c. applyOrder_key c = k) sorted_cards
                = filter (\<lambda>c. applyOrder_key c = k) cs)\<close> if "cs \<noteq> []"
    using that
    by (intro exI [of _ "sort_key applyOrder_key cs"])
      (simp add: renderCardRecommendations_def Let_def sort_key_stable)
  have ties: "renderCardRecommendations (Some cs) = renderCardRecommendations (Some cs')"
    if "\<forall>k. filter (\<lambda>c. applyOrder_key c = k) cs = filter (\<lambda>c. applyOrder_key c = k) cs'"
  proof -
    have "sort_key applyOrder_key cs = sort_key applyOrder_key cs'"
      using that by (intro sort_key_of_same_ties) simp
    moreover have "length cs = length cs'"
      using filters_determine_mset [of applyOrder_key cs cs'] that
      by (intro mset_eq_length) simp
    ultimately show ?thesis
      by (simp add: renderCardRecommendations_def Let_def)
  qed
  have perm: "renderCardRecommendations (Some cs) = renderCardRecommendations (Some cs')"
    if "mset cs = mset cs'" and "distinct (map applyOrder_key cs)"
  proof -
    have "sort_key applyOrder_key cs = sort_key applyOrder_key cs'"
      using that by (rule sort_key_of_permutation)
    moreover have "length cs = length cs'"
      using that(1) by (rule mset_eq_length)
    ultimately show ?thesis
      by (simp add: renderCardRecommendations_def Let_def)
  qed
  have vend: \<open>renderVendorRecommendations (Some vs) =
             lit ''\<newline>''
             @ lit ''            <div class="cc-card" style="padding: 18px; margin-bottom: 20px;">\<newline>''
             @ lit ''                <h3 class="cc-section-title" style="border-left: 2px solid rgba(255,213,74,.35); padding-left: 14px; margin: 0 0 14px 0;">Recommended Vendors</h3>\<newline>''
             @ lit ''                <div data-testid="vendor-recommendations">\<newline>''
             @ lit ''                    ''
             @ concat (map vendorCard vs)
             @ lit ''\<newline>''
             @ lit ''                </div>\<newline>''
             @ lit ''            </div>\<newline>''
             @ lit ''        ''\<close> if "vs \<noteq> []"
    using that by (simp add: renderVendorRecommendations_def Let_def)
  from block ties perm vend show ?thesis
    by blast
qed

theorem cards_render_sorted_by_applyOrder_witness:
  "[chase, amex, spark] \<noteq> []
   \<and> (\<forall>k. filter (\<lambda>c. applyOrder_key c = k) [chase, amex, spark]
          = filter (\<lambda>c. applyOrder_key c = k) [amex, chase, spark])
   \<and> renderCardRecommendations (Some [chase, amex, spark])
       = renderCardRecommendations (Some [amex, chase, spark])
   \<and> mset [chase, amex] = mset [amex, chase] \<and> distinct (map applyOrder_key [chase, amex])
   \<and> renderCardRecommendations (Some [chase, amex]) = renderCardRecommendations (Some [amex, chase])
   \<and> (\<exists>sorted_cards. mset sorted_cards = mset [chase, amex, spark]
         \<and> sorted (map applyOrder_key sorted_cards)
         \<and> filter (\<lambda>c. applyOrder_key c = 1) sorted_cards = [amex, spark])
   \<and> [uline] \<noteq> []"
proof -
  have keys: "applyOrder_key chase = 2" "applyOrder_key amex = 1" "applyOrder_key spark = 1"
    by (simp_all add: applyOrder_key_def chase_def amex_def spark_def)
  have a: "mset [chase, amex] = mset [amex, chase]" by (simp add: add.commute)
  have b: "distinct (map applyOrder_key [chase, amex])"
    by (simp add: keys)
  have c: "\<forall>k. filter (\<lambda>c. applyOrder_key c = k) [chase, amex, spark]
          = filter (\<lambda>c. applyOrder_key c = k) [amex, chase, spark]"
    by (simp add: keys)
  have d: "filter (\<lambda>c. applyOrder_key c = 1) [chase, amex, spark] = [amex, spark]"
    by (simp add: keys)
  note first = cards_render_sorted_by_applyOrder [of "[chase, amex, spark]" "[amex, chase, spark]" "[uline]"]
  note second = cards_render_sorted_by_applyOrder [of "[chase, amex]" "[amex, chase]" "[uline]"]
  from first obtain sorted_cards where "mset sorted_cards = mset [chase, amex, spark]"
    and "sorted (map applyOrder_key sorted_cards)"
    and "\<forall>k. filter (\<lambda>c. applyOrder_key c = k) sorted_cards
          = filter (\<lambda>c. applyOrder_key c = k) [chase, amex, spark]"
    by blast
  with d have e: "\<exists>sorted_cards. mset sorted_cards = mset [chase, amex, spark]
         \<and> sorted (map applyOrder_key sorted_cards)
         \<and> filter (\<lambda>c. applyOrder_key c = 1) sorted_cards = [amex, spark]"
    by (intro exI [of _ sorted_cards]) simp
  from first c have f: "renderCardRecommendations (Some [chase, amex, spark])
       = renderCardRecommendations (Some [amex, chase, spark])"
    by blast
  from second a b have g: "renderCardRecommendations (Some [chase, amex])
       = renderCardRecommendations (Some [amex, chase])"
    by blast
  from a b c e f g show ?thesis by simp
qed
section \<open>The tool of a request names one of two counters\<close>

lemma normalizeTool_cases:
  "normalizeTool t = Inl TypeError \<or> normalizeTool t = Inr (lit ''creditcommander'')
   \<or> normalizeTool t = Inr (lit ''complipilot'')"
proof (cases "toString (js_or t (JStr (lit ''creditcommander'')))")
  case (Inl e)
  then show ?thesis by (cases e) (simp add: normalizeTool_def)
next
  case (Inr s)
  then show ?thesis by (simp add: normalizeTool_def Let_def)
qed

lemma normalizeTool_known:
  "normalizeTool t = Inr tname \<Longrightarrow> tname = lit ''creditcommander'' \<or> tname = lit ''complipilot''"
  using normalizeTool_cases [of t] by auto

lemma normalizeTool_complipilot:
  "normalizeTool t = Inr (lit ''complipilot'')
   \<longleftrightarrow> (\<exists>s. toString (js_or t (JStr (lit ''creditcommander''))) = Inr s
          \<and> trim (toLowerCase s) = lit ''complipilot'')"
  by (cases "toString (js_or t (JStr (lit ''creditcommander'')))")
    (simp_all add: normalizeTool_def Let_def)

lemma normalizeTool_throws:
  "normalizeTool t = Inl TypeError
   \<longleftrightarrow> toString (js_or t (JStr (lit ''creditcommander''))) = Inl TypeError"
  by (cases "toString (js_or t (JStr (lit ''creditcommander'')))")
    (simp_all add: normalizeTool_def Let_def)

text \<open>
  For a tool that is absent, \<open>null\<close>, a boolean, a number or a string,
  \<open>normalizeTool\<close> does not throw.
\<close>

lemma normalizeTool_primitive:
  assumes "t = JUndefined \<or> t = JNull \<or> (\<exists>b. t = JBool b) \<or> (\<exists>n. t = JNum n) \<or> (\<exists>s. t = JStr s)"
  shows "normalizeTool t = Inr (lit ''creditcommander'') \<or> normalizeTool t = Inr (lit ''complipilot'')"
proof -
  from assms have "\<exists>s. toString (js_or t (JStr (lit ''creditcommander''))) = Inr s"
    by (auto simp: js_or_def)
  then show ?thesis
    by (auto simp: normalizeTool_def Let_def)
qed

lemma filter_map_other:
  "(\<And>r. Q (f r) = Q r) \<Longrightarrow> (\<And>r. P r \<Longrightarrow> \<not> Q r)
   \<Longrightarrow> filter Q (map (\<lambda>r. if P r then f r else r) xs) = filter Q xs"
  by (induction xs) auto

lemma incrementUsage_frame:
  "filter (\<lambda>r. tool r \<noteq> tname \<and> Q (tool r)) (snd (incrementUsage cfg ups req tname tbl))
   = filter (\<lambda>r. tool r \<noteq> tname \<and> Q (tool r)) tbl"
proof -
  have upd: "filter (\<lambda>r. tool r \<noteq> tname \<and> Q (tool r))
      (map (\<lambda>r. if ipAddress r = ip \<and> tool r = tname \<and> reportCount r < 30
                 then increment_row r else r) tbl)
    = filter (\<lambda>r. tool r \<noteq> tname \<and> Q (tool r)) tbl" for ip
    by (rule filter_map_other) (simp_all add: increment_row_def)
  show ?thesis
    by (cases ups)
      (auto simp: incrementUsage_def incrementUsage_try_def Let_def upd
        db_update_increment_def db_select_limit1_def db_insert_def
        split: if_splits prod.splits sum.splits list.splits)
qed

lemma incrementUsage_other_tools:
  assumes "tname = lit ''creditcommander'' \<or> tname = lit ''complipilot''"
  shows "other_tools (snd (incrementUsage cfg ups req tname tbl)) = other_tools tbl"
proof -
  have "other_tools x = filter (\<lambda>r. tool r \<noteq> tname
      \<and> (tool r \<noteq> lit ''creditcommander'' \<and> tool r \<noteq> lit ''complipilot'')) x" for x
    using assms by (auto simp: other_tools_def intro: filter_cong)
  then show ?thesis
    using incrementUsage_frame
      [of tname "\<lambda>t. t \<noteq> lit ''creditcommander'' \<and> t \<noteq> lit ''complipilot''" cfg ups req tbl]
    by simp
qed

lemma incrementUsage_refused:
  "\<not> success (fst (incrementUsage cfg ups req tname tbl))
   \<Longrightarrow> limitReached (fst (incrementUsage cfg ups req tname tbl)) = Some True"
  by (cases ups)
    (auto simp: incrementUsage_def incrementUsage_try_def Let_def
      db_update_increment_def db_select_limit1_def db_insert_def
      split: if_splits prod.splits sum.splits list.splits)

lemma generate_handler_table:
  "snd (generate_handler cfg env req tbl) = tbl
   \<or> snd (generate_handler cfg env req tbl) = interference env tbl
   \<or> (\<exists>tname. charged_tool req = Inr tname
        \<and> snd (generate_handler cfg env req tbl)
           = snd (incrementUsage cfg (increment_ups env) req tname (interference env tbl)))"
proof (cases "reaches_generation env req tbl")
  case False
  then show ?thesis by (simp add: generate_handler_not_reached)
next
  case reach: True
  then obtain tname where tname: "charged_tool req = Inr tname"
    by (auto simp: reaches_generation_iff)
  show ?thesis
  proof (cases "generation env")
    case (Inl e)
    with reach show ?thesis by (simp add: generate_handler_generation_throws)
  next
    case (Inr ai)
    show ?thesis
    proof (cases "ai = JNull")
      case True
      with reach Inr show ?thesis by (simp add: generate_handler_null_document)
    next
      case False
      with generate_handler_generated [OF reach tname Inr, of cfg] tname show ?thesis
        by (auto simp: Let_def)
    qed
  qed
qed

text \<open>No request writes to a row of a tool other than the two known ones.\<close>

lemma generate_handler_other_tools:
  "other_tools (snd (generate_handler cfg env req tbl)) = other_tools tbl
   \<or> other_tools (snd (generate_handler cfg env req tbl)) = other_tools (interference env tbl)"
proof -
  have "other_tools (snd (incrementUsage cfg (increment_ups env) req tname
      (interference env tbl))) = other_tools (interference env tbl)"
    if "charged_tool req = Inr tname" for tname
    using that unfolding charged_tool_def
    by (intro incrementUsage_other_tools normalizeTool_known)
  with generate_handler_table [of cfg env req tbl] show ?thesis
    by auto
qed

text \<open>A request answered with 200 has raised the count of the client and the tool.\<close>

lemma generate_handler_200_counted:
  assumes "fst (generate_handler cfg env req tbl) = Inr r" and "status r = 200"
  shows "\<exists>tname. charged_tool req = Inr tname
     \<and> counted (getClientIp req) tname (interference env tbl)
         < counted (getClientIp req) tname (snd (generate_handler cfg env req tbl))"
proof (cases "charged_tool req")
  case (Inl e)
  with assms show ?thesis by (simp add: generate_handler_throws)
next
  case tname: (Inr tname)
  show ?thesis
  proof (cases "allowed (checkUsageLimit (check_up env) req tname tbl)")
    case False
    with tname assms show ?thesis by (auto simp: generate_handler_blocked quota_exceeded_def)
  next
    case ok: True
    show ?thesis
    proof (cases "validate_formData (get_prop (JObj (body req)) (lit ''formData''))")
      case (Some bad)
      then have "status bad = 400"
        by (auto simp: validate_formData_def Let_def split: if_splits)
      with tname ok Some assms show ?thesis by (auto simp: generate_handler_invalid)
    next
      case None
      show ?thesis
      proof (cases "returns (creditRoadmapPrompt (get_prop (JObj (body req)) (lit ''formData'')))")
        case False
        with tname ok None assms show ?thesis
          by (auto simp: generate_handler_prompt_throws generate_catch_def conversion_error_def)
      next
        case True
        with tname ok None have reach: "reaches_generation env req tbl"
          by (simp add: reaches_generation_iff)
        show ?thesis
        proof (cases "generation env")
          case (Inl e)
          with reach assms show ?thesis
            by (auto simp: generate_handler_generation_throws generate_catch_def split: if_splits)
        next
          case (Inr ai)
          show ?thesis
          proof (cases "ai = JNull")
            case True
            with reach Inr assms show ?thesis
              by (auto simp: generate_handler_null_document generate_catch_def split: if_splits)
          next
            case False
            let ?inc = "incrementUsage cfg (increment_ups env) req tname (interference env tbl)"
            from generate_handler_generated [OF reach tname Inr False, of cfg] assms
            have "success (fst ?inc)" and "snd (generate_handler cfg env req tbl) = snd ?inc"
              using incrementUsage_refused [of cfg "increment_ups env" req tname "interference env tbl"]
              by (auto simp: Let_def quota_exceeded_def split: if_splits)
            then show ?thesis
              using tname incrementUsage_success_counted [of cfg "increment_ups env" req tname
                  "interference env tbl"]
              by simp
          qed
        qed
      qed
    qed
  qed
qed

lemma checkUsageLimit_at_limit:
  assumes "getClientIp req \<noteq> lit ''unknown''" and "at_limit (getClientIp req) tname tbl"
  shows "\<not> allowed (checkUsageLimit True req tname tbl)"
  using assms
  by (auto simp: checkUsageLimit_def checkUsageLimit_try_def db_select_limit1_def Let_def
      at_limit_def counter_rows_def split: list.splits)

text \<open>
  A client whose two counters are at the limit gets no report whatever tool the
  body names: the handler answers 429, or throws when the tool cannot be
  normalised; the table is left as it is.
\<close>

lemma generate_handler_at_limit:
  assumes "check_up env" and "getClientIp req \<noteq> lit ''unknown''"
    and "at_limit (getClientIp req) (lit ''creditcommander'') tbl"
    and "at_limit (getClientIp req) (lit ''complipilot'') tbl"
  shows "(fst (generate_handler cfg env req tbl) = Inl conversion_error
          \<or> (\<exists>tname n. fst (generate_handler cfg env req tbl) = Inr (quota_exceeded tname n)))
         \<and> snd (generate_handler cfg env req tbl) = tbl"
proof (cases "charged_tool req")
  case (Inl e)
  then show ?thesis by (simp add: generate_handler_throws)
next
  case (Inr tname)
  then have "at_limit (getClientIp req) tname tbl"
    using assms(3, 4) normalizeTool_known [of "get_prop (JObj (body req)) (lit ''tool'')" tname]
    by (auto simp: charged_tool_def)
  with assms(2) have "\<not> allowed (checkUsageLimit True req tname tbl)"
    by (rule checkUsageLimit_at_limit)
  with assms(1) Inr show ?thesis
    by (auto simp: generate_handler_blocked)
qed

lemma example_charged_tool_odd: "charged_tool example_request_odd_tool = Inl TypeError"
  by (simp add: charged_tool_def example_request_odd_tool_def normalizeTool_def js_or_def
      get_prop.simps)

text \<open>
  C10 fails on the code for a tool that is a JSON object with a property named
  \<open>toString\<close>: \<open>String(tool || 'creditcommander')\<close> throws a \<open>TypeError\<close>, so
  \<open>normalizeTool\<close> returns neither of the two tools. The handler calls it before
  its \<open>try\<close> block: it throws, sends no response (no 429 either for a client at the
  limit), checks no counter and calls no model.
\<close>

theorem normalizeTool_throws_on_own_toString:
  "normalizeTool (JObj [(lit ''toString'', JNum 1)]) = Inl TypeError
   \<and> generate_handler example_config example_env example_request_odd_tool [example_row 3]
       = (Inl conversion_error, [example_row 3])
   \<and> generate_handler example_config example_env example_request_odd_tool example_full_table
       = (Inl conversion_error, example_full_table)"
  by (simp add: generate_handler_throws [OF example_charged_tool_odd])
    (simp add: normalizeTool_def js_or_def)
section \<open>One rendering, one checksum\<close>

lemma roadmap_page_not_empty: "roadmap_page h a b c d e f g i j \<noteq> []"
  by (simp add: roadmap_page_def)

lemma wrapForPdf_embeds: "\<exists>before after. wrapForPdf stamp html = before @ html @ after"
proof -
  have "\<exists>before after. x1 @ x2 @ x3 @ x4 @ x5 @ x6 @ x7 @ x8 @ x9 @ html @ rest
      = before @ html @ after" for x1 x2 x3 x4 x5 x6 x7 x8 x9 rest :: jsstring
    by (metis append_assoc)
  then show ?thesis
    unfolding wrapForPdf_def by blast
qed

lemma structuredHTML_not_empty: "structuredHTML payload g = Inr html \<Longrightarrow> html \<noteq> []"
  by (auto simp: structuredHTML_def and_then_def roadmap_page_not_empty split: sum.splits)

lemma structuredHTML_returns:
  assumes "printable_payload payload" and "printable_content (Some g)"
  shows "returns (structuredHTML payload g)"
proof -
  have field: "\<exists>s. safePlaceholder (default_to (JStr []) v) = Inr s" if "has_string_form v" for v
    using that by (intro safePlaceholder_returns) (simp add: default_to_def toString_primitive)
  from assms(1) obtain header where "headerBlock payload = Inr header"
    using headerBlock_returns by blast
  moreover from assms(2) obtain s1 s2 s3 s4 s5 s6 s7 where
    "safePlaceholder (default_to (JStr []) (profileSummary g)) = Inr s1"
    "safePlaceholder (default_to (JStr []) (bankingSignals g)) = Inr s2"
    "safePlaceholder (default_to (JStr []) (quickWins g)) = Inr s3"
    "safePlaceholder (default_to (JStr []) (tradeLinesPlan g)) = Inr s4"
    "safePlaceholder (default_to (JStr []) (cardStrategy g)) = Inr s5"
    "safePlaceholder (default_to (JStr []) (actionPlan g)) = Inr s6"
    "safePlaceholder (default_to (JStr []) (riskFlags g)) = Inr s7"
    unfolding printable_content_def option.case by (meson field)
  ultimately show ?thesis
    by (simp add: structuredHTML_def returns_def)
qed

text \<open>
  C2. The renderer is a function of the payload and the generated content alone;
  it reads no clock, no random source and no state of the application. For a fixed
  pair it has one outcome. When that is an HTML string, then whenever
  \<open>handleGenerate\<close> runs (whatever the clock reads), the result it stores holds
  that string and the checksum of that string; the restore from the cache shows the
  stored string as it is, and the export wraps the stored string without changing
  it (the time stamp stands in the wrapper, outside the string the checksum was
  computed from). When it is a thrown error (a value of the pair has no string
  form), \<open>handleGenerate\<close> ends with that error whatever the clock reads. The
  outcome is an HTML string whenever the payload and the content can be shown.
\<close>

theorem render_and_checksum_deterministic:
  "(case renderStructuredHTML (Some payload) generated of
      Inr html \<Rightarrow>
        (\<forall>now1 now2. \<exists>r. handleGenerate_result now1 now2 payload generated = Inr r
            \<and> res_html r = html \<and> res_checksum r = checksum html
            \<and> loadCurrentResult (Some r) = (Some r, Some html)
            \<and> (\<forall>stamp. \<exists>before after. wrapForPdf stamp (res_html r) = before @ html @ after))
    | Inl e \<Rightarrow> (\<forall>now1 now2. handleGenerate_result now1 now2 payload generated = Inl e))
   \<and> (printable_payload payload \<and> printable_content generated
      \<longrightarrow> (\<exists>html. renderStructuredHTML (Some payload) generated = Inr html))"
proof -
  let ?g = "case generated of None \<Rightarrow> no_generated | Some x \<Rightarrow> x"
  have render: "renderStructuredHTML (Some payload) generated = structuredHTML payload ?g"
    by (simp add: renderStructuredHTML_def)
  have first: "case structuredHTML payload ?g of
      Inr html \<Rightarrow>
        (\<forall>now1 now2. \<exists>r. handleGenerate_result now1 now2 payload generated = Inr r
            \<and> res_html r = html \<and> res_checksum r = checksum html
            \<and> loadCurrentResult (Some r) = (Some r, Some html)
            \<and> (\<forall>stamp. \<exists>before after. wrapForPdf stamp (res_html r) = before @ html @ after))
    | Inl e \<Rightarrow> (\<forall>now1 now2. handleGenerate_result now1 now2 payload generated = Inl e)"
  proof (cases "structuredHTML payload ?g")
    case (Inl e)
    then show ?thesis
      by (simp add: handleGenerate_result_def render)
  next
    case (Inr html)
    then have "html \<noteq> []"
      by (rule structuredHTML_not_empty)
    with Inr show ?thesis
      using wrapForPdf_embeds [of _ html]
      by (simp add: handleGenerate_result_def render loadCurrentResult_def Let_def)
  qed
  have second: "\<exists>html. renderStructuredHTML (Some payload) generated = Inr html"
    if "printable_payload payload" and "printable_content generated"
  proof -
    from that(2) have "printable_content (Some ?g)"
      by (cases generated)
        (simp_all add: printable_content_def no_generated_def toString_primitive)
    with that(1) have "returns (structuredHTML payload ?g)"
      by (rule structuredHTML_returns)
    then show ?thesis
      by (simp add: render returns_iff)
  qed
  from first second show ?thesis
    by (simp add: render)
qed

theorem render_and_checksum_deterministic_witness:
  "printable_payload example_payload \<and> printable_content None
   \<and> (\<exists>html. renderStructuredHTML (Some example_payload) None = Inr html
     \<and> (\<exists>r. handleGenerate_result 1700000000000 1700000000001 example_payload None = Inr r
            \<and> res_html r = html \<and> res_checksum r = checksum html)
     \<and> (\<exists>r. handleGenerate_result 1800000000000 1800000000005 example_payload None = Inr r
            \<and> res_html r = html \<and> res_checksum r = checksum html))"
proof -
  have a: "printable_payload example_payload"
    by (simp add: printable_payload_def example_payload_def toString_primitive)
  have b: "printable_content None"
    by (simp add: printable_content_def)
  from render_and_checksum_deterministic [of example_payload None] a b
  obtain html where html: "renderStructuredHTML (Some example_payload) None = Inr html"
    by blast
  with render_and_checksum_deterministic [of example_payload None]
  have "\<forall>now1 now2. \<exists>r. handleGenerate_result now1 now2 example_payload None = Inr r
            \<and> res_html r = html \<and> res_checksum r = checksum html"
    by simp blast
  with a b html show ?thesis
    by blast
qed
section \<open>The counter under sequential and concurrent increments\<close>

subsection \<open>Every row stays within the limit\<close>

lemma within_limit_update:
  "within_limit tbl \<Longrightarrow>
   within_limit (map (\<lambda>r. if P r \<and> reportCount r < 30 then increment_row r else r) tbl)"
  by (induction tbl) (auto simp: within_limit_def increment_row_def)

lemma step_call_within_limit:
  "within_limit tbl \<Longrightarrow> within_limit (snd (step_call cfg up c tbl))"
  using within_limit_update [of tbl "usage_where (call_ip c) (call_tool c)"]
  by (auto simp: step_call_def db_update_increment_def db_select_limit1_def db_insert_def
      within_limit_def split: position.splits list.splits if_splits)

lemma run_schedule_within_limit:
  "within_limit tbl \<Longrightarrow> within_limit (snd (run_schedule cfg es (calls, tbl)))"
proof (induction es arbitrary: calls tbl)
  case Nil
  then show ?case by simp
next
  case (Cons e es)
  show ?case
  proof (cases e)
    case (Step i up)
    show ?thesis
    proof (cases "i < length calls")
      case True
      obtain c tbl' where s: "step_call cfg up (calls ! i) tbl = (c, tbl')"
        by (cases "step_call cfg up (calls ! i) tbl")
      then have "within_limit tbl'"
        using step_call_within_limit [OF Cons.prems, of cfg up "calls ! i"] by simp
      then show ?thesis
        using Step True s Cons.IH by simp
    next
      case False
      with Step Cons show ?thesis by simp
    qed
  next
    case (Check up req tname)
    with Cons show ?thesis by (simp add: Let_def)
  qed
qed

subsection \<open>A call that is not overtaken is incrementUsage\<close>

lemma usage_where_Some:
  "usage_where ip (Some t) = (\<lambda>r. ipAddress r = ip \<and> tool r = t)"
  by (rule ext) (simp add: usage_where_def)

lemma incrementUsage_as_steps:
  assumes "getClientIp req \<noteq> lit ''unknown''"
  shows "run_schedule cfg [Step 0 up1, Step 0 up2, Step 0 up3] ([start_call req (Some tname)], tbl)
   = ([\<lparr>call_ip = getClientIp req, call_tool = Some tname,
        at = Returned (fst (incrementUsage cfg (up1, up2, up3) req tname tbl))\<rparr>],
      snd (incrementUsage cfg (up1, up2, up3) req tname tbl))"
  using assms
  by (auto simp: start_call_def Let_def step_call_def incrementUsage_def incrementUsage_try_def
      db_update_increment_def db_select_limit1_def db_insert_def usage_where_Some failed_closed_def
      map_if_filter_Nil split: list.splits)

lemma usage_where_None: "usage_where ip None = (\<lambda>r. ipAddress r = ip)"
  by (rule ext) (simp add: usage_where_def)

lemma incrementUsage_vercel_as_steps:
  assumes "getClientIp req \<noteq> lit ''unknown''"
  shows "run_schedule cfg [Step 0 up1, Step 0 up2, Step 0 up3] ([start_call req None], tbl)
   = ([\<lparr>call_ip = getClientIp req, call_tool = None,
        at = Returned (fst (incrementUsage_vercel cfg (up1, up2, up3) req tbl))\<rparr>],
      snd (incrementUsage_vercel cfg (up1, up2, up3) req tbl))"
  using assms
  by (auto simp: start_call_def Let_def step_call_def incrementUsage_vercel_def
      incrementUsage_vercel_try_def db_update_increment_def db_select_limit1_def db_insert_def
      usage_where_None failed_closed_def map_if_filter_Nil split: list.splits)

subsection \<open>Increments one after the other\<close>

lemma counter_rows_update:
  "counter_rows ip tname
     (map (\<lambda>r. if ipAddress r = ip \<and> tool r = tname \<and> reportCount r < 30
                then increment_row r else r) tbl)
   = map (\<lambda>r. if reportCount r < 30 then increment_row r else r) (counter_rows ip tname tbl)"
  by (induction tbl) (auto simp: counter_rows_def increment_row_def)

lemma below_limit_rows:
  "filter (\<lambda>r. ipAddress r = ip \<and> tool r = tname \<and> reportCount r < 30) tbl
   = filter (\<lambda>r. reportCount r < 30) (counter_rows ip tname tbl)"
  by (induction tbl) (auto simp: counter_rows_def)

lemma incrementUsage_single_row:
  assumes ip: "getClientIp req \<noteq> lit ''unknown''"
    and one: "map reportCount (counter_rows (getClientIp req) tname tbl) = [k]"
  shows "fst (incrementUsage cfg (True, True, True) req tname tbl)
         = (if k < 30 then granted (k + 1) else refused k)"
    and "map reportCount (counter_rows (getClientIp req) tname
           (snd (incrementUsage cfg (True, True, True) req tname tbl)))
         = [if k < 30 then k + 1 else k]"
proof -
  let ?ip = "getClientIp req"
  from one obtain r where r: "counter_rows ?ip tname tbl = [r]" "reportCount r = k"
    by (cases "counter_rows ?ip tname tbl") auto
  then have sel: "filter (\<lambda>r. ipAddress r = ?ip \<and> tool r = tname) tbl = [r]"
    by (simp add: counter_rows_def)
  show "fst (incrementUsage cfg (True, True, True) req tname tbl)
         = (if k < 30 then granted (k + 1) else refused k)"
  proof (cases "k < 30")
    case True
    with r have "filter (\<lambda>r. ipAddress r = ?ip \<and> tool r = tname \<and> reportCount r < 30) tbl = [r]"
      by (simp add: below_limit_rows)
    with ip r True show ?thesis
      by (simp add: incrementUsage_def incrementUsage_try_def Let_def db_update_increment_def
          granted_def increment_row_def)
  next
    case False
    with r have none: "filter (\<lambda>r. ipAddress r = ?ip \<and> tool r = tname \<and> reportCount r < 30) tbl = []"
      by (simp add: below_limit_rows)
    with ip r False sel show ?thesis
      by (simp add: incrementUsage_def incrementUsage_try_def Let_def db_update_increment_def
          db_select_limit1_def refused_def map_if_filter_Nil)
  qed
  show "map reportCount (counter_rows ?ip tname
           (snd (incrementUsage cfg (True, True, True) req tname tbl)))
         = [if k < 30 then k + 1 else k]"
  proof (cases "k < 30")
    case True
    with r have "filter (\<lambda>r. ipAddress r = ?ip \<and> tool r = tname \<and> reportCount r < 30) tbl = [r]"
      by (simp add: below_limit_rows)
    with ip r True show ?thesis
      by (simp add: incrementUsage_def incrementUsage_try_def Let_def db_update_increment_def
          counter_rows_update increment_row_def)
  next
    case False
    with r have none: "filter (\<lambda>r. ipAddress r = ?ip \<and> tool r = tname \<and> reportCount r < 30) tbl = []"
      by (simp add: below_limit_rows)
    with ip r False sel show ?thesis
      by (simp add: incrementUsage_def incrementUsage_try_def Let_def db_update_increment_def
          db_select_limit1_def map_if_filter_Nil)
  qed
qed

lemma incrementUsage_fresh:
  assumes ip: "getClientIp req \<noteq> lit ''unknown''"
    and fresh: "counter_rows (getClientIp req) tname tbl = []"
  shows "fst (incrementUsage cfg (True, True, True) req tname tbl) = granted 1"
    and "map reportCount (counter_rows (getClientIp req) tname
           (snd (incrementUsage cfg (True, True, True) req tname tbl))) = [1]"
proof -
  let ?ip = "getClientIp req"
  from fresh have sel: "filter (\<lambda>r. ipAddress r = ?ip \<and> tool r = tname) tbl = []"
    by (simp add: counter_rows_def)
  from fresh have none: "filter (\<lambda>r. ipAddress r = ?ip \<and> tool r = tname \<and> reportCount r < 30) tbl = []"
    by (simp add: below_limit_rows)
  from sel have free: "\<not> key_taken \<lparr>ipAddress = ?ip, tool = tname, reportCount = 1\<rparr> tbl"
    by (auto simp: key_taken_def filter_empty_conv)
  from ip sel none free
  show "fst (incrementUsage cfg (True, True, True) req tname tbl) = granted 1"
    by (simp add: incrementUsage_def incrementUsage_try_def Let_def db_update_increment_def
        db_select_limit1_def db_insert_def map_if_filter_Nil granted_def)
  from ip sel none free
  show "map reportCount (counter_rows ?ip tname
           (snd (incrementUsage cfg (True, True, True) req tname tbl))) = [1]"
    by (simp add: incrementUsage_def incrementUsage_try_def Let_def db_update_increment_def
        db_select_limit1_def db_insert_def map_if_filter_Nil counter_rows_def)
qed

lemma increment_times_single_row:
  assumes "getClientIp req \<noteq> lit ''unknown''"
    and "map reportCount (counter_rows (getClientIp req) tname tbl) = [k]"
  shows "fst (increment_times cfg n req tname tbl) = expected_results k n
       \<and> map reportCount (counter_rows (getClientIp req) tname (snd (increment_times cfg n req tname tbl)))
           = [if k < 30 then min (k + int n) 30 else k]"
  using assms(2)
proof (induction n arbitrary: tbl k)
  case 0
  then show ?case by simp
next
  case (Suc n)
  let ?step = "incrementUsage cfg (True, True, True) req tname tbl"
  let ?k' = "if k < 30 then k + 1 else k"
  have r: "fst ?step = (if k < 30 then granted (k + 1) else refused k)"
    and t: "map reportCount (counter_rows (getClientIp req) tname (snd ?step)) = [?k']"
    using incrementUsage_single_row [OF assms(1) Suc.prems, of cfg] by simp_all
  from Suc.IH [OF t]
  have ih: "fst (increment_times cfg n req tname (snd ?step)) = expected_results ?k' n"
    "map reportCount (counter_rows (getClientIp req) tname
        (snd (increment_times cfg n req tname (snd ?step))))
      = [if ?k' < 30 then min (?k' + int n) 30 else ?k']"
    by simp_all
  show ?case
    using r ih by (auto simp: case_prod_unfold Let_def)
qed

lemma expected_results_successes:
  "k \<le> 30 \<Longrightarrow> length (filter success (expected_results k n)) = min n (nat (30 - k))"
  by (induction k n rule: expected_results.induct) (auto simp: granted_def refused_def)

lemma expected_results_refusals:
  "r \<in> set (expected_results k n) \<Longrightarrow> \<not> success r \<Longrightarrow> limitReached r = Some True"
  by (induction k n rule: expected_results.induct) (auto simp: granted_def refused_def split: if_splits)

text \<open>
  \<open>n\<close> increments of a fresh counter, one after the other, with the store
  reachable: the counter ends at \<open>min n 30\<close>, exactly \<open>min n 30\<close> calls report
  success, and every other call reports \<open>limitReached\<close>.
\<close>

lemma sequential_increments:
  assumes "getClientIp req \<noteq> lit ''unknown''"
    and "counter_rows (getClientIp req) tname tbl = []"
  shows "counted (getClientIp req) tname (snd (increment_times cfg n req tname tbl)) = int (min n 30)
       \<and> length (filter success (fst (increment_times cfg n req tname tbl))) = min n 30
       \<and> (\<forall>r \<in> set (fst (increment_times cfg n req tname tbl)).
            \<not> success r \<longrightarrow> limitReached r = Some True)"
proof (cases n)
  case 0
  with assms(2) show ?thesis by (simp add: counted_def)
next
  case (Suc m)
  let ?first = "incrementUsage cfg (True, True, True) req tname tbl"
  have f: "fst ?first = granted 1"
    and t: "map reportCount (counter_rows (getClientIp req) tname (snd ?first)) = [1]"
    using incrementUsage_fresh [OF assms, of cfg] by simp_all
  from increment_times_single_row [OF assms(1) t, of cfg m]
  have rest: "fst (increment_times cfg m req tname (snd ?first)) = expected_results 1 m"
    "map reportCount (counter_rows (getClientIp req) tname
        (snd (increment_times cfg m req tname (snd ?first)))) = [min (1 + int m) 30]"
    by simp_all
  have res: "fst (increment_times cfg n req tname tbl) = granted 1 # expected_results 1 m"
    using Suc f rest by (simp add: case_prod_unfold Let_def)
  have tab: "snd (increment_times cfg n req tname tbl)
      = snd (increment_times cfg m req tname (snd ?first))"
    using Suc by (simp add: case_prod_unfold Let_def)
  have "counted (getClientIp req) tname (snd (increment_times cfg n req tname tbl)) = min (1 + int m) 30"
    using rest(2) tab by (simp add: counted_def)
  moreover have "length (filter success (fst (increment_times cfg n req tname tbl))) = min n 30"
    using res Suc expected_results_successes [of 1 m] by (simp add: granted_def) 
  moreover have "\<forall>r \<in> set (fst (increment_times cfg n req tname tbl)).
      \<not> success r \<longrightarrow> limitReached r = Some True"
    using res expected_results_refusals [of _ 1 m] by (auto simp: granted_def)
  ultimately show ?thesis
    using Suc by (simp add: min_def)
qed

subsection \<open>Two first increments that run abreast\<close>

lemma example_start:
  "start_call example_request (Some (lit ''complipilot''))
   = \<lparr>call_ip = lit ''10.0.0.1'', call_tool = Some (lit ''complipilot''), at = AtUpdate\<rparr>"
  by (simp add: start_call_def example_ip)

text \<open>
  C1 fails on the code where two calls meet on a fresh counter. Both updates find
  no row, both selections find no row, and both calls insert a row with count 1.
  Under a unique constraint on (\<open>ipAddress\<close>, \<open>tool\<close>) the second insertion
  throws: that call reports \<open>success = false\<close>, \<open>count = 0\<close>,
  \<open>limitReached = true\<close>, although the counter stands at 1. Without the constraint
  both calls report success and the table holds two rows with count 1. Either way a
  check that follows reads the count 1 after two increments, where the claim says
  \<open>min 2 30 = 2\<close>.
\<close>

theorem first_increments_abreast:
  "run_schedule (example_config\<lparr>unique_key := True\<rparr>) abreast (two_calls, [])
     = ([\<lparr>call_ip = lit ''10.0.0.1'', call_tool = Some (lit ''complipilot''),
          at = Returned \<lparr>success = True, increment_count = 1, limitReached = None\<rparr>\<rparr>,
         \<lparr>call_ip = lit ''10.0.0.1'', call_tool = Some (lit ''complipilot''),
          at = Returned \<lparr>success = False, increment_count = 0, limitReached = Some True\<rparr>\<rparr>],
        [example_row 1])
   \<and> run_schedule (example_config\<lparr>unique_key := False\<rparr>) abreast (two_calls, [])
     = ([\<lparr>call_ip = lit ''10.0.0.1'', call_tool = Some (lit ''complipilot''),
          at = Returned \<lparr>success = True, increment_count = 1, limitReached = None\<rparr>\<rparr>,
         \<lparr>call_ip = lit ''10.0.0.1'', call_tool = Some (lit ''complipilot''),
          at = Returned \<lparr>success = True, increment_count = 1, limitReached = None\<rparr>\<rparr>],
        [example_row 1, example_row 1])
   \<and> checkUsageLimit True example_request (lit ''complipilot'') [example_row 1]
     = \<lparr>allowed = True, check_count = 1\<rparr>
   \<and> checkUsageLimit True example_request (lit ''complipilot'') [example_row 1, example_row 1]
     = \<lparr>allowed = True, check_count = 1\<rparr>"
  by (simp add: abreast_def two_calls_def example_start step_call_def db_update_increment_def
      db_select_limit1_def db_insert_def usage_where_Some key_taken_def example_config_def
      example_row_def failed_closed_def checkUsageLimit_def checkUsageLimit_try_def example_ip
      Let_def)

end
